theory Spec2Isabelle
  imports Complex_Main
begin

section \<open>JavaScript values\<close>

text \<open>
  The client in \<^verbatim>\<open>src/web/app.js\<close> handles JSON received from the server and
  strings read from form fields. A JavaScript number is a double: \<open>NaN\<close>, an
  infinity, or a finite value, which is a rational (the two zeros are not
  told apart: the script only tests numbers for truthiness and hands them to
  formatting built-ins). Strings are byte strings (UTF-8). An object is the
  list of its entries, each key once.
\<close>

datatype jsnum = NaN | PosInf | NegInf | Fin rat

datatype js =
    JUndefined
  | JNull
  | JBool bool
  | JNum jsnum
  | JStr string
  | JArr "js list"
  | JObj "(string \<times> js) list"

text \<open>An exception value; \<open>message\<close> is \<^verbatim>\<open>err.message\<close>.\<close>

datatype exn = Error string | TypeError string | SyntaxError string

fun message :: "exn \<Rightarrow> string" where
  "message (Error m) = m"
| "message (TypeError m) = m"
| "message (SyntaxError m) = m"

text \<open>\<^verbatim>\<open>ToBoolean\<close>, as used by \<^verbatim>\<open>!x\<close>, \<^verbatim>\<open>if (x)\<close> and \<^verbatim>\<open>x || y\<close>.\<close>

fun truthy :: "js \<Rightarrow> bool" where
  "truthy JUndefined = False"
| "truthy JNull = False"
| "truthy (JBool b) = b"
| "truthy (JNum n) = (n \<noteq> NaN \<and> n \<noteq> Fin 0)"
| "truthy (JStr s) = (s \<noteq> [])"
| "truthy (JArr xs) = True"
| "truthy (JObj kvs) = True"

text \<open>
  Property read \<^verbatim>\<open>v.k\<close> for the data property names the script uses
  (\<^verbatim>\<open>metrics\<close>, \<^verbatim>\<open>task_id\<close>, \<^verbatim>\<open>status\<close>, \<^verbatim>\<open>q_x\<close>, the four
  metric names): a TypeError on \<^verbatim>\<open>undefined\<close> and \<^verbatim>\<open>null\<close>, the stored
  value on an object that has the key, \<^verbatim>\<open>undefined\<close> everywhere else.
\<close>

fun get_prop :: "js \<Rightarrow> string \<Rightarrow> exn + js" where
  "get_prop JUndefined k = Inl (TypeError ''Cannot read properties of undefined'')"
| "get_prop JNull k = Inl (TypeError ''Cannot read properties of null'')"
| "get_prop (JObj kvs) k = Inr (case map_of kvs k of None \<Rightarrow> JUndefined | Some v \<Rightarrow> v)"
| "get_prop v k = Inr JUndefined"

text \<open>
  Indexed read \<^verbatim>\<open>v[i]\<close> for a one-digit index (the script uses 1, 2 and 3):
  an array or string yields its element or \<^verbatim>\<open>undefined\<close> out of range, an
  object is looked up under the key \<^verbatim>\<open>"i"\<close>.
\<close>

definition digit_key :: "nat \<Rightarrow> string" where
  "digit_key i = [char_of (48 + i)]"

fun index :: "js \<Rightarrow> nat \<Rightarrow> exn + js" where
  "index JUndefined i = Inl (TypeError ''Cannot read properties of undefined'')"
| "index JNull i = Inl (TypeError ''Cannot read properties of null'')"
| "index (JArr xs) i = Inr (if i < length xs then xs ! i else JUndefined)"
| "index (JStr s) i = Inr (if i < length s then JStr [s ! i] else JUndefined)"
| "index (JObj kvs) i = get_prop (JObj kvs) (digit_key i)"
| "index v i = Inr JUndefined"

section \<open>The JavaScript runtime\<close>

text \<open>
  The built-ins the script calls are not part of the repository; they are
  taken as a parameter. \<open>stringify v n\<close> is \<^verbatim>\<open>JSON.stringify(v, null, n)\<close>
  on a value other than \<^verbatim>\<open>undefined\<close> (\<open>n = 0\<close> for the one-argument
  call), \<open>toString\<close> the string conversion of a template literal,
  \<open>parseInt s r\<close> is \<^verbatim>\<open>parseInt(s, r)\<close> with the radix optional.
\<close>

record runtime =
  parseFloat :: "string \<Rightarrow> jsnum"
  parseInt :: "string \<Rightarrow> nat option \<Rightarrow> jsnum"
  toExponential :: "jsnum \<Rightarrow> nat \<Rightarrow> string"
  toFixed :: "jsnum \<Rightarrow> nat \<Rightarrow> string"
  stringify :: "js \<Rightarrow> nat \<Rightarrow> string"
  jsonParse :: "string \<Rightarrow> exn + js"
  toString :: "js \<Rightarrow> string"
  trim :: "string \<Rightarrow> string"

text \<open>\<^verbatim>\<open>`${v}`\<close>: the cases fixed by the language, the runtime for the rest.\<close>

fun template :: "runtime \<Rightarrow> js \<Rightarrow> string" where
  "template rt (JStr s) = s"
| "template rt JUndefined = ''undefined''"
| "template rt JNull = ''null''"
| "template rt (JBool b) = (if b then ''true'' else ''false'')"
| "template rt v = toString rt v"

section \<open>The page, the network and effects\<close>

text \<open>
  What an element shows: text set through \<^verbatim>\<open>textContent\<close>, markup assigned
  through \<^verbatim>\<open>innerHTML\<close> (kept as its source), and \<^verbatim>\<open>tr\<close> elements built
  with \<^verbatim>\<open>createElement\<close> and appended (each with its own \<^verbatim>\<open>innerHTML\<close>).
\<close>

datatype node = TextNode string | Markup string | TrElem string

record element =
  children :: "node list"
  val :: string
  checked :: bool
  display :: string

record request =
  http_method :: string
  url :: string
  headers :: "(string \<times> string) list"
  body :: "string option"

text \<open>
  A response as the script sees it: \<open>body_text\<close> is what \<^verbatim>\<open>res.text()\<close>
  resolves to, \<open>json\<close> what \<^verbatim>\<open>res.json()\<close> settles to (a SyntaxError when
  the body is not JSON).
\<close>

record response =
  ok :: bool
  statusText :: string
  body_text :: string
  json :: "exn + js"

datatype fetch_result = Rejected exn | Responded response

type_synonym net = "request \<Rightarrow> fetch_result"

text \<open>The cone trace handed to \<^verbatim>\<open>Plotly.newPlot\<close>, with its target.\<close>

record plot =
  target :: string
  trace_type :: string
  px :: "js list"
  py :: "js list"
  pz :: "js list"
  pu :: "js list"
  pv :: "js list"
  pw :: "js list"
  sizemode :: string
  sizeref :: nat

text \<open>
  A timer made by \<^verbatim>\<open>setInterval\<close>: \<open>task_id\<close> is what its callback closes
  over, \<open>in_flight\<close> counts the runs of the callback that wait for the answer
  to their request.
\<close>

record timer =
  period_ms :: nat
  task_id :: js
  active :: bool
  in_flight :: nat

text \<open>
  The state: the elements by selector (\<open>None\<close>: \<^verbatim>\<open>querySelector\<close> gives
  \<^verbatim>\<open>null\<close>), the requests issued so far, the plots drawn, the timers by
  handle, and the errors nothing catches (the rejections of promises nobody
  awaits, an exception that ends the script).
\<close>

record page =
  dom :: "string \<Rightarrow> element option"
  sent :: "request list"
  plots :: "plot list"
  timers :: "timer list"
  unhandled :: "exn list"

type_synonym 'a io = "page \<Rightarrow> (exn + 'a) \<times> page"

definition ret :: "'a \<Rightarrow> 'a io" where
  "ret x s = (Inr x, s)"

definition lift :: "exn + 'a \<Rightarrow> 'a io" where
  "lift r s = (r, s)"

definition and_then :: "'a io \<Rightarrow> ('a \<Rightarrow> 'b io) \<Rightarrow> 'b io" where
  "and_then m f s = (case m s of (Inl e, s') \<Rightarrow> (Inl e, s') | (Inr x, s') \<Rightarrow> f x s')"

text \<open>\<^verbatim>\<open>try { m } catch (err) { h }\<close>\<close>

definition try_catch :: "'a io \<Rightarrow> (exn \<Rightarrow> 'a io) \<Rightarrow> 'a io" where
  "try_catch m h s = (case m s of (Inl e, s') \<Rightarrow> h e s' | (Inr x, s') \<Rightarrow> (Inr x, s'))"

text \<open>
  A call of an async function whose promise is dropped (\<^verbatim>\<open>refreshTasks();\<close>, a
  listener, a timer callback): the caller goes on, and an exception that
  leaves the body is an unhandled rejection. The body is run to its end at
  the call: the functions called this way write elements no other code of
  the same activation writes.
\<close>

definition spawn :: "'a io \<Rightarrow> unit io" where
  "spawn m s = (case m s of
      (Inl e, s') \<Rightarrow> (Inr (), s'\<lparr>unhandled := unhandled s' @ [e]\<rparr>)
    | (Inr x, s') \<Rightarrow> (Inr (), s'))"

subsection \<open>Element access\<close>

definition text_nodes :: "string \<Rightarrow> node list" where
  "text_nodes t = (if t = [] then [] else [TextNode t])"

definition markup_nodes :: "string \<Rightarrow> node list" where
  "markup_nodes h = (if h = [] then [] else [Markup h])"

definition set_children :: "string \<Rightarrow> node list \<Rightarrow> unit io" where
  "set_children el ns s = (case dom s el of
      None \<Rightarrow> (Inl (TypeError ''Cannot set properties of null''), s)
    | Some e \<Rightarrow> (Inr (), s\<lparr>dom := (dom s)(el \<mapsto> e\<lparr>children := ns\<rparr>)\<rparr>))"

definition set_textContent :: "string \<Rightarrow> string \<Rightarrow> unit io" where
  "set_textContent el t = set_children el (text_nodes t)"

definition set_innerHTML :: "string \<Rightarrow> string \<Rightarrow> unit io" where
  "set_innerHTML el h = set_children el (markup_nodes h)"

definition appendChild :: "string \<Rightarrow> node \<Rightarrow> unit io" where
  "appendChild el n s = (case dom s el of
      None \<Rightarrow> (Inl (TypeError ''Cannot read properties of null''), s)
    | Some e \<Rightarrow> (Inr (), s\<lparr>dom := (dom s)(el \<mapsto> e\<lparr>children := children e @ [n]\<rparr>)\<rparr>))"

definition set_value :: "string \<Rightarrow> string \<Rightarrow> unit io" where
  "set_value el t s = (case dom s el of
      None \<Rightarrow> (Inl (TypeError ''Cannot set properties of null''), s)
    | Some e \<Rightarrow> (Inr (), s\<lparr>dom := (dom s)(el \<mapsto> e\<lparr>val := t\<rparr>)\<rparr>))"

definition set_display :: "string \<Rightarrow> string \<Rightarrow> unit io" where
  "set_display el t s = (case dom s el of
      None \<Rightarrow> (Inl (TypeError ''Cannot read properties of null''), s)
    | Some e \<Rightarrow> (Inr (), s\<lparr>dom := (dom s)(el \<mapsto> e\<lparr>display := t\<rparr>)\<rparr>))"

text \<open>\<^verbatim>\<open>el.value\<close> and \<^verbatim>\<open>el.checked\<close>: a TypeError when \<^verbatim>\<open>el\<close> is \<^verbatim>\<open>null\<close>.\<close>

definition get_value :: "string \<Rightarrow> string io" where
  "get_value el s = (case dom s el of
      None \<Rightarrow> (Inl (TypeError ''Cannot read properties of null''), s)
    | Some e \<Rightarrow> (Inr (val e), s))"

definition get_checked :: "string \<Rightarrow> bool io" where
  "get_checked el s = (case dom s el of
      None \<Rightarrow> (Inl (TypeError ''Cannot read properties of null''), s)
    | Some e \<Rightarrow> (Inr (checked e), s))"

subsection \<open>The module's element handles (lines 1-18 and 178-183)\<close>

definition statusEl :: string where "statusEl = ''#status''"
definition metricsEl :: string where "metricsEl = ''#metrics''"
definition refreshMetricsBtn :: string where "refreshMetricsBtn = ''#refresh-metrics''"
definition taskListEl :: string where "taskListEl = ''#task-list''"
definition submitTaskBtn :: string where "submitTaskBtn = ''#submit-task''"
definition taskJsonEl :: string where "taskJsonEl = ''#task-json''"
definition taskExecuteEl :: string where "taskExecuteEl = ''#task-execute''"
definition llmQueryBtn :: string where "llmQueryBtn = ''#send-llm''"
definition llmQueryEl :: string where "llmQueryEl = ''#llm-query''"
definition llmResponseEl :: string where "llmResponseEl = ''#llm-response''"
definition vizPacketEl :: string where "vizPacketEl = ''#viz-packet''"
definition researchGoalEl :: string where "researchGoalEl = ''#campaign-goal''"
definition researchTargetEl :: string where "researchTargetEl = ''#campaign-target''"
definition researchTargetValueEl :: string where "researchTargetValueEl = ''#campaign-target-value''"
definition researchStepsEl :: string where "researchStepsEl = ''#campaign-steps''"
definition researchContextEl :: string where "researchContextEl = ''#campaign-context''"
definition researchResultEl :: string where "researchResultEl = ''#research-result''"
definition startResearchBtn :: string where "startResearchBtn = ''#start-research''"
definition eqgftVizTypeEl :: string where "eqgftVizTypeEl = ''#eqgft-viz-type''"
definition eqgftPythonScriptContainerEl :: string where
  "eqgftPythonScriptContainerEl = ''#eqgft-python-script-container''"
definition eqgftRunBtn :: string where "eqgftRunBtn = ''#eqgft-run''"
definition eqgftSendLlmBtn :: string where "eqgftSendLlmBtn = ''#eqgft-send-llm''"
definition eqgftLlmQueryEl :: string where "eqgftLlmQueryEl = ''#eqgft-llm-query''"
definition eqgftResponseEl :: string where "eqgftResponseEl = ''#eqgft-response''"

section \<open>The api helper (lines 20-29)\<close>

text \<open>
  The options the callers pass: a method and a body, never headers, so the
  merged headers are the one default. \<^verbatim>\<open>fetch\<close> without a method sends GET.
\<close>

record options =
  opt_method :: "string option"
  opt_body :: "string option"

definition no_options :: options where
  "no_options = \<lparr>opt_method = None, opt_body = None\<rparr>"

definition post :: "string \<Rightarrow> options" where
  "post b = \<lparr>opt_method = Some ''POST'', opt_body = Some b\<rparr>"

definition api_request :: "string \<Rightarrow> options \<Rightarrow> request" where
  "api_request path opts =
     \<lparr>http_method = (case opt_method opts of None \<Rightarrow> ''GET'' | Some m \<Rightarrow> m),
      url = ''/api'' @ path,
      headers = [(''Content-Type'', ''application/json'')],
      body = opt_body opts\<rparr>"

text \<open>The \<^verbatim>\<open>.then\<close> callback: what the returned promise settles to for a response.\<close>

definition api_then :: "response \<Rightarrow> exn + js" where
  "api_then res =
     (if \<not> ok res then
        (let body = body_text res
         in Inl (Error (if body \<noteq> [] then body else statusText res)))
      else json res)"

text \<open>
  A call: the request goes out, and the promise settles by what \<^verbatim>\<open>fetch\<close>
  gives for it.
\<close>

definition api_result :: "net \<Rightarrow> string \<Rightarrow> options \<Rightarrow> exn + js" where
  "api_result nw path opts =
     (case nw (api_request path opts) of
        Rejected e \<Rightarrow> Inl e
      | Responded res \<Rightarrow> api_then res)"

definition api :: "net \<Rightarrow> string \<Rightarrow> options \<Rightarrow> js io" where
  "api nw path opts s =
     (api_result nw path opts, s\<lparr>sent := sent s @ [api_request path opts]\<rparr>)"

section \<open>Rendering functions\<close>

subsection \<open>Calls on received values\<close>

text \<open>
  \<^verbatim>\<open>obj.k.toExponential(d)\<close> and \<^verbatim>\<open>obj.k.toFixed(d)\<close>: the method exists
  on numbers only; on \<^verbatim>\<open>undefined\<close> or \<^verbatim>\<open>null\<close> the read of the method
  raises, on any other value the call does.
\<close>

definition num_method ::
  "(jsnum \<Rightarrow> nat \<Rightarrow> string) \<Rightarrow> js \<Rightarrow> string \<Rightarrow> nat \<Rightarrow> exn + string" where
  "num_method f obj k d =
     (case get_prop obj k of
        Inl e \<Rightarrow> Inl e
      | Inr v \<Rightarrow>
          (case v of
             JNum n \<Rightarrow> Inr (f n d)
           | JUndefined \<Rightarrow> Inl (TypeError ''Cannot read properties of undefined'')
           | JNull \<Rightarrow> Inl (TypeError ''Cannot read properties of null'')
           | _ \<Rightarrow> Inl (TypeError ''is not a function'')))"

text \<open>The receiver of \<^verbatim>\<open>.map\<close> and \<^verbatim>\<open>.forEach\<close>: arrays have them.\<close>

fun as_array :: "js \<Rightarrow> exn + js list" where
  "as_array (JArr xs) = Inr xs"
| "as_array JUndefined = Inl (TypeError ''Cannot read properties of undefined'')"
| "as_array JNull = Inl (TypeError ''Cannot read properties of null'')"
| "as_array v = Inl (TypeError ''is not a function'')"

text \<open>\<^verbatim>\<open>xs.map(f)\<close> where \<open>f\<close> may raise: the first exception ends the call.\<close>

fun map_exn :: "('a \<Rightarrow> exn + 'b) \<Rightarrow> 'a list \<Rightarrow> exn + 'b list" where
  "map_exn f [] = Inr []"
| "map_exn f (x # xs) =
     (case f x of
        Inl e \<Rightarrow> Inl e
      | Inr y \<Rightarrow> (case map_exn f xs of Inl e \<Rightarrow> Inl e | Inr ys \<Rightarrow> Inr (y # ys)))"

definition array_map :: "js \<Rightarrow> (js \<Rightarrow> exn + js) \<Rightarrow> exn + js list" where
  "array_map a f = (case as_array a of Inl e \<Rightarrow> Inl e | Inr xs \<Rightarrow> map_exn f xs)"

text \<open>\<^verbatim>\<open>xs.forEach(f)\<close> where \<open>f\<close> has effects and may raise.\<close>

fun for_each :: "('a \<Rightarrow> unit io) \<Rightarrow> 'a list \<Rightarrow> unit io" where
  "for_each f [] s = (Inr (), s)"
| "for_each f (x # xs) s =
     (case f x s of (Inl e, s') \<Rightarrow> (Inl e, s') | (Inr u, s') \<Rightarrow> for_each f xs s')"

text \<open>
  \<^verbatim>\<open>`${JSON.stringify(v)}`\<close>: \<^verbatim>\<open>JSON.stringify(undefined)\<close> is
  \<^verbatim>\<open>undefined\<close>, which the template prints by name.
\<close>

definition stringify_template :: "runtime \<Rightarrow> js \<Rightarrow> string" where
  "stringify_template rt v = (if v = JUndefined then ''undefined'' else stringify rt v 0)"

subsection \<open>updatePhysicsConstants (lines 31-43)\<close>

definition updatePhysicsConstants :: "runtime \<Rightarrow> js \<Rightarrow> unit io" where
  "updatePhysicsConstants rt metrics s =
     (let electronMassEl = ''#electron-mass'';
          fineStructureEl = ''#fine-structure'';
          coherenceEl = ''#quaternion-coherence'';
          windingEl = ''#topological-winding''
      in if \<not> truthy metrics \<or> dom s electronMassEl = None then (Inr (), s)
         else
           and_then (lift (num_method (toExponential rt) metrics ''emergent_electron_mass'' 10)) (\<lambda>m.
           and_then (set_textContent electronMassEl (m @ '' kg'')) (\<lambda>_.
           and_then (lift (num_method (toExponential rt) metrics ''fine_structure_constant'' 10)) (\<lambda>a.
           and_then (set_textContent fineStructureEl a) (\<lambda>_.
           and_then (lift (num_method (toFixed rt) metrics ''quaternion_coherence'' 6)) (\<lambda>c.
           and_then (set_textContent coherenceEl c) (\<lambda>_.
           and_then (lift (num_method (toFixed rt) metrics ''topological_winding'' 4)) (\<lambda>w.
           set_textContent windingEl w))))))) s)"

subsection \<open>refreshMetrics (lines 45-53)\<close>

definition refreshMetrics :: "runtime \<Rightarrow> net \<Rightarrow> unit io" where
  "refreshMetrics rt nw =
     try_catch
       (and_then (api nw ''/metrics'' no_options) (\<lambda>data.
        and_then (set_textContent metricsEl (stringify rt data 2)) (\<lambda>_.
        and_then (lift (get_prop data ''metrics'')) (\<lambda>m.
        updatePhysicsConstants rt m))))
       (\<lambda>err. set_textContent metricsEl (''Error: '' @ message err))"

subsection \<open>refreshTasks (lines 55-67)\<close>

definition task_row :: "runtime \<Rightarrow> js \<Rightarrow> exn + node" where
  "task_row rt task =
     (case get_prop task ''task_id'' of
        Inl e \<Rightarrow> Inl e
      | Inr tid \<Rightarrow>
          (case get_prop task ''status'' of
             Inl e \<Rightarrow> Inl e
           | Inr st \<Rightarrow>
               Inr (TrElem (''<td>'' @ template rt tid @ ''</td><td>''
                            @ stringify_template rt st @ ''</td>''))))"

definition error_row :: "string \<Rightarrow> string" where
  "error_row m = ''<tr><td colspan='' @ [CHR 0x22] @ ''2'' @ [CHR 0x22] @ ''>'' @ m @ ''</td></tr>''"

definition refreshTasks :: "runtime \<Rightarrow> net \<Rightarrow> unit io" where
  "refreshTasks rt nw =
     try_catch
       (and_then (api nw ''/tasks'' no_options) (\<lambda>tasks.
        and_then (set_innerHTML taskListEl []) (\<lambda>_.
        and_then (lift (as_array tasks)) (\<lambda>ts.
        for_each (\<lambda>task.
          and_then (lift (task_row rt task)) (\<lambda>tr.
          appendChild taskListEl tr)) ts))))
       (\<lambda>err. set_innerHTML taskListEl (error_row (message err)))"

subsection \<open>refreshViz (lines 69-76)\<close>

definition refreshViz :: "runtime \<Rightarrow> net \<Rightarrow> unit io" where
  "refreshViz rt nw =
     try_catch
       (and_then (api nw ''/visualization/packet'' no_options) (\<lambda>data.
        set_textContent vizPacketEl (stringify rt data 2)))
       (\<lambda>err. set_textContent vizPacketEl (''Error: '' @ message err))"

subsection \<open>refreshHopfionField (lines 78-99)\<close>

definition newPlot :: "plot \<Rightarrow> unit io" where
  "newPlot p s = (Inr (), s\<lparr>plots := plots s @ [p]\<rparr>)"

definition refreshHopfionField :: "runtime \<Rightarrow> net \<Rightarrow> unit io" where
  "refreshHopfionField rt nw =
     try_catch
       (and_then (api nw ''/visualization/hopfion-field'' no_options) (\<lambda>data.
        if truthy data then
          and_then (lift (get_prop data ''q_x'')) (\<lambda>q_x.
          and_then (lift (array_map q_x (\<lambda>v. index v 1))) (\<lambda>x.
          and_then (lift (array_map q_x (\<lambda>v. index v 2))) (\<lambda>y.
          and_then (lift (array_map q_x (\<lambda>v. index v 3))) (\<lambda>z.
          and_then (lift (array_map q_x (\<lambda>v. index v 1))) (\<lambda>u.
          and_then (lift (array_map q_x (\<lambda>v. index v 2))) (\<lambda>v.
          and_then (lift (array_map q_x (\<lambda>v. index v 3))) (\<lambda>w.
          newPlot \<lparr>target = ''eqgft-response'', trace_type = ''cone'',
                   px = x, py = y, pz = z, pu = u, pv = v, pw = w,
                   sizemode = ''absolute'', sizeref = 1\<rparr>)))))))
        else ret ()))
       (\<lambda>err. set_textContent eqgftResponseEl (''Error: '' @ message err))"

section \<open>Event handlers\<close>

subsection \<open>submitTaskBtn click (lines 101-114)\<close>

definition submitTask_click :: "runtime \<Rightarrow> net \<Rightarrow> unit io" where
  "submitTask_click rt nw =
     try_catch
       (and_then (get_value taskJsonEl) (\<lambda>v.
        and_then (lift (jsonParse rt v)) (\<lambda>parsed.
        and_then (get_checked taskExecuteEl) (\<lambda>ex.
        and_then (api nw ''/tasks''
                    (post (stringify rt (JObj [(''task'', parsed), (''execute'', JBool ex)]) 0))) (\<lambda>_.
        and_then (set_textContent statusEl ''Task submitted.'') (\<lambda>_.
        and_then (spawn (refreshTasks rt nw)) (\<lambda>_.
        spawn (refreshMetrics rt nw))))))))
       (\<lambda>err. set_textContent statusEl (''Task error: '' @ message err))"

subsection \<open>startResearchBtn click (lines 116-152)\<close>

text \<open>\<^verbatim>\<open>el?.value\<close>: \<^verbatim>\<open>undefined\<close> (\<open>None\<close>) when the element is missing.\<close>

definition opt_value :: "string \<Rightarrow> page \<Rightarrow> string option" where
  "opt_value el s = map_option val (dom s el)"

text \<open>Truthiness of a string-or-undefined, and \<^verbatim>\<open>x || d\<close> on strings and numbers.\<close>

definition truthy_str :: "string option \<Rightarrow> bool" where
  "truthy_str x = (case x of None \<Rightarrow> False | Some t \<Rightarrow> t \<noteq> [])"

definition or_string :: "string option \<Rightarrow> string \<Rightarrow> string" where
  "or_string x d = (case x of None \<Rightarrow> d | Some t \<Rightarrow> if t \<noteq> [] then t else d)"

definition or_num :: "jsnum \<Rightarrow> jsnum \<Rightarrow> jsnum" where
  "or_num n d = (if truthy (JNum n) then n else d)"

text \<open>The default goal, a Cyrillic word followed by ASCII, in UTF-8.\<close>

definition default_goal :: string where
  "default_goal =
     [CHR 0xD0, CHR 0x94, CHR 0xD0, CHR 0xBE, CHR 0xD1, CHR 0x81, CHR 0xD1, CHR 0x82,
      CHR 0xD0, CHR 0xB8, CHR 0xD1, CHR 0x87, CHR 0xD1, CHR 0x8C]
     @ '' topological_winding = 9.0000''"

definition running_text :: string where
  "running_text = ''Running research campaign'' @ [CHR 0xE2, CHR 0x80, CHR 0xA6]"

definition campaign_body :: "js \<Rightarrow> js \<Rightarrow> js \<Rightarrow> js \<Rightarrow> js \<Rightarrow> js" where
  "campaign_body goal optimizationTarget targetValue maxSteps contextPayload =
     JObj [(''goal'', goal),
           (''optimization_target'', optimizationTarget),
           (''target_value'', targetValue),
           (''max_steps'', maxSteps),
           (''context'', contextPayload)]"

text \<open>The four constants of lines 117-120.\<close>

definition research_goal :: "runtime \<Rightarrow> page \<Rightarrow> string" where
  "research_goal rt s = or_string (map_option (trim rt) (opt_value researchGoalEl s)) default_goal"

definition research_optimizationTarget :: "runtime \<Rightarrow> page \<Rightarrow> string" where
  "research_optimizationTarget rt s =
     or_string (map_option (trim rt) (opt_value researchTargetEl s)) ''topological_winding''"

definition research_targetValue :: "runtime \<Rightarrow> page \<Rightarrow> jsnum" where
  "research_targetValue rt s =
     or_num (parseFloat rt (or_string (opt_value researchTargetValueEl s) ''0'')) (Fin 0)"

definition research_maxSteps :: "runtime \<Rightarrow> page \<Rightarrow> jsnum" where
  "research_maxSteps rt s =
     or_num (parseInt rt (or_string (opt_value researchStepsEl s) ''5'') (Some 10)) (Fin 5)"

definition startResearch_click :: "runtime \<Rightarrow> net \<Rightarrow> unit io" where
  "startResearch_click rt nw s =
     (let goal = research_goal rt s;
          optimizationTarget = research_optimizationTarget rt s;
          targetValue = research_targetValue rt s;
          maxSteps = research_maxSteps rt s
      in and_then
           (if truthy_str (map_option (trim rt) (opt_value researchContextEl s)) then
              try_catch
                (and_then (get_value researchContextEl) (\<lambda>v.
                 and_then (lift (jsonParse rt v)) (\<lambda>c. ret (Some c))))
                (\<lambda>err.
                 and_then (set_textContent researchResultEl
                             (''Invalid context JSON: '' @ message err)) (\<lambda>_. ret None))
            else ret (Some (JObj [])))
           (\<lambda>parsed. case parsed of
              None \<Rightarrow> ret ()
            | Some contextPayload \<Rightarrow>
                and_then (set_textContent researchResultEl running_text) (\<lambda>_.
                try_catch
                  (and_then (api nw ''/llm/research-campaign''
                     (post (stringify rt
                        (campaign_body (JStr goal) (JStr optimizationTarget)
                           (JNum targetValue) (JNum maxSteps) contextPayload) 0))) (\<lambda>response.
                   and_then (set_textContent researchResultEl (stringify rt response 2)) (\<lambda>_.
                   and_then (set_textContent statusEl ''Research campaign completed.'') (\<lambda>_.
                   spawn (refreshMetrics rt nw)))))
                  (\<lambda>err. set_textContent researchResultEl
                            (''Campaign error: '' @ message err)))) s)"

subsection \<open>refreshMetricsBtn click (lines 154-157)\<close>

definition refreshMetrics_click :: "runtime \<Rightarrow> net \<Rightarrow> unit io" where
  "refreshMetrics_click rt nw =
     and_then (spawn (refreshMetrics rt nw)) (\<lambda>_. spawn (refreshViz rt nw))"

subsection \<open>llmQueryBtn click (lines 159-171)\<close>

definition llmQuery_click :: "runtime \<Rightarrow> net \<Rightarrow> unit io" where
  "llmQuery_click rt nw =
     try_catch
       (and_then (get_value llmQueryEl) (\<lambda>q.
        and_then (api nw ''/llm/query''
                    (post (stringify rt (JObj [(''query'', JStr q)]) 0))) (\<lambda>result.
        and_then (set_textContent llmResponseEl (stringify rt result 2)) (\<lambda>_.
        and_then (set_value taskJsonEl (stringify rt result 2)) (\<lambda>_.
        set_textContent statusEl ''LLM responded with task blueprint.'')))))
       (\<lambda>err. set_textContent llmResponseEl (message err))"

subsection \<open>Script start (lines 173-176)\<close>

definition load :: "runtime \<Rightarrow> net \<Rightarrow> unit io" where
  "load rt nw =
     and_then (spawn (refreshMetrics rt nw)) (\<lambda>_.
     and_then (spawn (refreshTasks rt nw)) (\<lambda>_.
     and_then (spawn (refreshViz rt nw)) (\<lambda>_.
     set_textContent statusEl ''Ready'')))"

subsection \<open>eqgftVizTypeEl change (lines 185-191)\<close>

definition eqgftVizType_change :: "unit io" where
  "eqgftVizType_change =
     and_then (get_value eqgftVizTypeEl) (\<lambda>v.
     if v = ''custom-python-script''
     then set_display eqgftPythonScriptContainerEl ''block''
     else set_display eqgftPythonScriptContainerEl ''none'')"

subsection \<open>eqgftRunBtn click (lines 193-241)\<close>

text \<open>The task chosen by the visualization type (lines 200-225).\<close>

definition eqgft_task ::
  "runtime \<Rightarrow> string \<Rightarrow> string \<Rightarrow> string \<Rightarrow> string \<Rightarrow> string \<Rightarrow> js" where
  "eqgft_task rt vizType nEvents kappa systematicError pythonScript =
     (if vizType = ''custom-python-script'' then
        JObj [(''task_name'', JStr ''Custom Python Script''),
              (''geometric_operator'', JStr ''CustomPythonScript''),
              (''parameters'', JObj [(''script'', JStr pythonScript)])]
      else if vizType = ''line-plot'' then
        JObj [(''task_name'', JStr ''Simulate EQGFT Asymmetry''),
              (''geometric_operator'', JStr ''SimulateEqgftAsymmetry''),
              (''parameters'',
                 JObj [(''kappa'', JNum (parseFloat rt kappa)),
                       (''n_events'', JNum (parseInt rt nEvents None)),
                       (''systematic_error'', JNum (parseFloat rt systematicError))])]
      else
        JObj [(''task_name'', JStr ''Generate Hopfion Field''),
              (''geometric_operator'', JStr ''GenerateHopfionField''),
              (''parameters'', JObj [])])"

definition eqgftRun_click :: "runtime \<Rightarrow> net \<Rightarrow> unit io" where
  "eqgftRun_click rt nw =
     and_then (get_value eqgftVizTypeEl) (\<lambda>vizType.
     and_then (get_value ''#eqgft-n-events'') (\<lambda>nEvents.
     and_then (get_value ''#eqgft-kappa'') (\<lambda>kappa.
     and_then (get_value ''#eqgft-systematic-error'') (\<lambda>systematicError.
     and_then (get_value ''#eqgft-python-script'') (\<lambda>pythonScript.
     let task = eqgft_task rt vizType nEvents kappa systematicError pythonScript
     in try_catch
          (and_then (api nw ''/tasks''
                       (post (stringify rt (JObj [(''task'', task), (''execute'', JBool True)]) 0))) (\<lambda>_.
           and_then (set_textContent statusEl ''EQGFT task submitted.'') (\<lambda>_.
           and_then (spawn (refreshTasks rt nw)) (\<lambda>_.
           and_then (spawn (refreshMetrics rt nw)) (\<lambda>_.
           if vizType = ''3d-vector-field'' then spawn (refreshHopfionField rt nw) else ret ())))))
          (\<lambda>err. set_textContent statusEl (''EQGFT task error: '' @ message err)))))))"

subsection \<open>eqgftSendLlmBtn click and its polling timer (lines 243-269)\<close>

text \<open>\<^verbatim>\<open>setInterval\<close> for the polling callback: the handle is the timer's index.\<close>

definition setInterval :: "js \<Rightarrow> nat \<Rightarrow> nat io" where
  "setInterval tid ms s =
     (Inr (length (timers s)),
      s\<lparr>timers := timers s @ [\<lparr>period_ms = ms, task_id = tid, active = True, in_flight = 0\<rparr>]\<rparr>)"

definition clearInterval :: "nat \<Rightarrow> unit io" where
  "clearInterval h s =
     (Inr (),
      if h < length (timers s)
      then s\<lparr>timers := (timers s)[h := (timers s ! h)\<lparr>active := False\<rparr>]\<rparr>
      else s)"

definition eqgftSendLlm_click :: "runtime \<Rightarrow> net \<Rightarrow> unit io" where
  "eqgftSendLlm_click rt nw =
     try_catch
       (and_then (get_value eqgftLlmQueryEl) (\<lambda>q.
        and_then (api nw ''/llm/plan-eqgft-task''
                    (post (stringify rt (JObj [(''query'', JStr q)]) 0))) (\<lambda>task.
        and_then (set_textContent eqgftResponseEl (stringify rt task 2)) (\<lambda>_.
        and_then (set_textContent statusEl
                    ''LLM responded with EQGFT task blueprint. Submitting task...'') (\<lambda>_.
        and_then (api nw ''/tasks''
                    (post (stringify rt (JObj [(''task'', task), (''execute'', JBool True)]) 0))) (\<lambda>submitted.
        and_then (lift (get_prop submitted ''task_id'')) (\<lambda>tid.
        and_then (setInterval tid 1000) (\<lambda>poll. ret ()))))))))
       (\<lambda>err. set_textContent eqgftResponseEl (message err))"

text \<open>
  The timer callback (lines 257-265) of the timer \<open>poll\<close> made for \<open>tid\<close>
  runs in two parts. When the timer fires, the call of \<^verbatim>\<open>api\<close> sends the
  request and the callback waits at \<^verbatim>\<open>await\<close>; the timer goes on firing
  meanwhile. \<open>poll_resume\<close> is the rest of the callback, run when \<^verbatim>\<open>api\<close>
  settles: \<open>nw\<close> gives the answer to the request (and serves the refreshes).
\<close>

definition poll_resume :: "runtime \<Rightarrow> net \<Rightarrow> nat \<Rightarrow> js \<Rightarrow> unit io" where
  "poll_resume rt nw poll tid =
     and_then (lift (api_result nw (''/tasks/'' @ template rt tid) no_options)) (\<lambda>status.
     and_then (lift (get_prop status ''status'')) (\<lambda>st.
     if st = JStr ''Completed'' then
       and_then (clearInterval poll) (\<lambda>_.
       and_then (set_textContent statusEl ''EQGFT task completed.'') (\<lambda>_.
       and_then (spawn (refreshMetrics rt nw)) (\<lambda>_.
       spawn (refreshViz rt nw))))
     else ret ()))"

text \<open>
  Timer \<open>h\<close> fires: a cancelled timer does not; an active one starts its
  callback, which sends the request and waits.
\<close>

definition timer_fires :: "runtime \<Rightarrow> nat \<Rightarrow> page \<Rightarrow> page" where
  "timer_fires rt h s =
     (if h < length (timers s) \<and> active (timers s ! h)
      then s\<lparr>sent := sent s @
               [api_request (''/tasks/'' @ template rt (task_id (timers s ! h))) no_options],
             timers := (timers s)[h := (timers s ! h)\<lparr>in_flight := Suc (in_flight (timers s ! h))\<rparr>]\<rparr>
      else s)"

text \<open>
  The answer to a request of timer \<open>h\<close> arrives, if one is awaited: the
  waiting callback goes on, whether or not the timer has been cancelled
  since. The callback is async, so what it raises is an unhandled rejection.
\<close>

definition poll_answered :: "runtime \<Rightarrow> net \<Rightarrow> nat \<Rightarrow> page \<Rightarrow> page" where
  "poll_answered rt nw h s =
     (if h < length (timers s) \<and> 0 < in_flight (timers s ! h)
      then snd (spawn (poll_resume rt nw h (task_id (timers s ! h)))
                  (s\<lparr>timers :=
                       (timers s)[h := (timers s ! h)\<lparr>in_flight := in_flight (timers s ! h) - 1\<rparr>]\<rparr>))
      else s)"

section \<open>The client as a reactive system\<close>

text \<open>
  The script runs once, then the browser delivers events. A listener exists
  only if its button does (\<^verbatim>\<open>btn?.addEventListener\<close>); the listeners of
  lines 185-269 also need line 176 to have passed, that is a status element.
  Each event comes with the server's behaviour while it is handled. A timer
  fires and the answers to its requests arrive as events of their own, in
  any order the browser and the network produce.
\<close>

datatype event =
    Load
  | SubmitTaskClick
  | StartResearchClick
  | RefreshMetricsClick
  | LlmQueryClick
  | VizTypeChange
  | EqgftRunClick
  | EqgftSendLlmClick
  | TimerFires nat
  | PollAnswered nat

definition listener :: "string \<Rightarrow> unit io \<Rightarrow> page \<Rightarrow> page" where
  "listener btn h s = (if dom s btn = None then s else snd (spawn h s))"

definition late_listener :: "string \<Rightarrow> unit io \<Rightarrow> page \<Rightarrow> page" where
  "late_listener btn h s = (if dom s statusEl = None then s else listener btn h s)"

fun fire :: "runtime \<Rightarrow> net \<Rightarrow> event \<Rightarrow> page \<Rightarrow> page" where
  "fire rt nw Load s = snd (spawn (load rt nw) s)"
| "fire rt nw SubmitTaskClick s = listener submitTaskBtn (submitTask_click rt nw) s"
| "fire rt nw StartResearchClick s = listener startResearchBtn (startResearch_click rt nw) s"
| "fire rt nw RefreshMetricsClick s = listener refreshMetricsBtn (refreshMetrics_click rt nw) s"
| "fire rt nw LlmQueryClick s = listener llmQueryBtn (llmQuery_click rt nw) s"
| "fire rt nw VizTypeChange s = late_listener eqgftVizTypeEl eqgftVizType_change s"
| "fire rt nw EqgftRunClick s = late_listener eqgftRunBtn (eqgftRun_click rt nw) s"
| "fire rt nw EqgftSendLlmClick s = late_listener eqgftSendLlmBtn (eqgftSendLlm_click rt nw) s"
| "fire rt nw (TimerFires h) s = timer_fires rt h s"
| "fire rt nw (PollAnswered h) s = poll_answered rt nw h s"

fun run :: "runtime \<Rightarrow> (net \<times> event) list \<Rightarrow> page \<Rightarrow> page" where
  "run rt [] s = s"
| "run rt ((nw, ev) # evs) s = run rt evs (fire rt nw ev s)"

subsection \<open>The page over time\<close>

text \<open>
  The browser delivers events without end: \<open>evs k\<close> is event number
  \<open>k\<close> (from 0) with the server's behaviour at that time, and
  \<open>after rt evs n s\<close> is the page after the first \<open>n\<close> of them.
  \<open>run_while_active\<close> follows the events for as long as timer \<open>h\<close> is
  active and returns the page on which it is found cancelled; it has no value
  (\<open>None\<close>) when that never happens.
\<close>

fun after :: "runtime \<Rightarrow> (nat \<Rightarrow> net \<times> event) \<Rightarrow> nat \<Rightarrow> page \<Rightarrow> page" where
  "after rt evs 0 s = s"
| "after rt evs (Suc n) s = fire rt (fst (evs n)) (snd (evs n)) (after rt evs n s)"

partial_function (option) run_while_active ::
  "runtime \<Rightarrow> (nat \<Rightarrow> net \<times> event) \<Rightarrow> nat \<Rightarrow> nat \<Rightarrow> page \<Rightarrow> page option" where
  "run_while_active rt evs h k s =
     (if h < length (timers s) \<and> active (timers s ! h)
      then run_while_active rt evs h (Suc k) (fire rt (fst (evs k)) (snd (evs k)) s)
      else Some s)"

section \<open>Notions of the specification\<close>

text \<open>
  The nine endpoints of the specification, and the one a request targets.
  The \<open>{id}\<close> of GET /api/tasks/{id} is a single path segment: a non-empty
  string of letters, digits, \<open>-\<close>, \<open>.\<close>, \<open>_\<close> and \<open>~\<close> (the characters
  a URL takes as they are) other than the dot segments \<open>.\<close> and \<open>..\<close>.
\<close>

datatype endpoint =
    GetMetrics | GetTasks | PostTasks | GetTask | GetVisualizationPacket
  | GetHopfionField | PostLlmQuery | PostResearchCampaign | PostPlanEqgftTask

definition unreserved :: "char \<Rightarrow> bool" where
  "unreserved c \<longleftrightarrow>
     (let n = (of_char c :: nat)
      in (48 \<le> n \<and> n \<le> 57) \<or> (65 \<le> n \<and> n \<le> 90) \<or> (97 \<le> n \<and> n \<le> 122)
         \<or> c = CHR ''-'' \<or> c = CHR ''.'' \<or> c = CHR ''_'' \<or> c = CHR ''~'')"

definition path_segment :: "string \<Rightarrow> bool" where
  "path_segment t \<longleftrightarrow> t \<noteq> [] \<and> t \<noteq> ''.'' \<and> t \<noteq> ''..'' \<and> list_all unreserved t"

definition endpoint_of :: "request \<Rightarrow> endpoint option" where
  "endpoint_of r =
     (if http_method r = ''GET'' \<and> url r = ''/api/metrics'' then Some GetMetrics
      else if http_method r = ''GET'' \<and> url r = ''/api/tasks'' then Some GetTasks
      else if http_method r = ''POST'' \<and> url r = ''/api/tasks'' then Some PostTasks
      else if http_method r = ''GET'' \<and> take 11 (url r) = ''/api/tasks/''
              \<and> path_segment (drop 11 (url r)) then Some GetTask
      else if http_method r = ''GET'' \<and> url r = ''/api/visualization/packet''
        then Some GetVisualizationPacket
      else if http_method r = ''GET'' \<and> url r = ''/api/visualization/hopfion-field''
        then Some GetHopfionField
      else if http_method r = ''POST'' \<and> url r = ''/api/llm/query'' then Some PostLlmQuery
      else if http_method r = ''POST'' \<and> url r = ''/api/llm/research-campaign''
        then Some PostResearchCampaign
      else if http_method r = ''POST'' \<and> url r = ''/api/llm/plan-eqgft-task''
        then Some PostPlanEqgftTask
      else None)"

text \<open>
  What the script sends: a request to one of the nine endpoints, or a GET
  under \<open>/api/tasks/\<close> whose rest is not a path segment.
\<close>

definition known :: "request \<Rightarrow> bool" where
  "known r \<longleftrightarrow>
     (endpoint_of r \<noteq> None \<or>
      (http_method r = ''GET'' \<and> take 11 (url r) = ''/api/tasks/''
       \<and> \<not> path_segment (drop 11 (url r))))
     \<and> take 4 (url r) = ''/api''
     \<and> headers r = [(''Content-Type'', ''application/json'')]"

text \<open>
  In the specification's words: the polled response's status field equals
  the literal string \<open>Completed\<close>.
\<close>

definition poll_completed :: "runtime \<Rightarrow> net \<Rightarrow> js \<Rightarrow> bool" where
  "poll_completed rt nw tid =
     (case api_result nw (''/tasks/'' @ template rt tid) no_options of
        Inl e \<Rightarrow> False
      | Inr status \<Rightarrow> get_prop status ''status'' = Inr (JStr ''Completed''))"



text \<open>A 4-tuple of a hopfion payload, and the cone trace of six component lists.\<close>

definition tuple :: "js \<times> js \<times> js \<times> js \<Rightarrow> js" where
  "tuple q = (case q of (a, b, c, d) \<Rightarrow> JArr [a, b, c, d])"

definition cone :: "js list \<Rightarrow> js list \<Rightarrow> js list \<Rightarrow> js list \<Rightarrow> js list \<Rightarrow> js list \<Rightarrow> plot" where
  "cone x y z u v w =
     \<lparr>target = ''eqgft-response'', trace_type = ''cone'',
      px = x, py = y, pz = z, pu = u, pv = v, pw = w,
      sizemode = ''absolute'', sizeref = 1\<rparr>"

section \<open>Frame conditions\<close>

text \<open>
  \<open>keeps R m\<close>: every run of \<open>m\<close> relates the state before to the state
  after by \<open>R\<close>. A \<open>frame\<close> is a preorder that ignores the elements
  the unhandled rejections and the plots; it is kept by everything that only
  touches those.
\<close>

definition keeps :: "(page \<Rightarrow> page \<Rightarrow> bool) \<Rightarrow> 'a io \<Rightarrow> bool" where
  "keeps R m \<longleftrightarrow> (\<forall>s. R s (snd (m s)))"

definition frame :: "(page \<Rightarrow> page \<Rightarrow> bool) \<Rightarrow> bool" where
  "frame R \<longleftrightarrow>
     (\<forall>s. R s s) \<and> (\<forall>s t u. R s t \<longrightarrow> R t u \<longrightarrow> R s u) \<and>
     (\<forall>s d. R s (s\<lparr>dom := d\<rparr>)) \<and> (\<forall>s u. R s (s\<lparr>unhandled := u\<rparr>)) \<and>
     (\<forall>s p. R s (s\<lparr>plots := p\<rparr>))"

text \<open>
  \<open>appends P\<close>: the requests sent are those sent before followed by new
  ones that all satisfy \<open>P\<close>.
\<close>

definition appends :: "(request \<Rightarrow> bool) \<Rightarrow> page \<Rightarrow> page \<Rightarrow> bool" where
  "appends P s s' \<longleftrightarrow> (\<exists>rest. sent s' = sent s @ rest \<and> list_all P rest)"

definition same_timers :: "page \<Rightarrow> page \<Rightarrow> bool" where
  "same_timers s s' \<longleftrightarrow> timers s' = timers s"

text \<open>
  \<open>new_timers\<close>: the timers are those before followed by new, active ones
  of period 1000 with no request in flight.
\<close>

definition new_timers :: "page \<Rightarrow> page \<Rightarrow> bool" where
  "new_timers s s' \<longleftrightarrow>
     (\<exists>new. timers s' = timers s @ new \<and>
        list_all (\<lambda>t. period_ms t = 1000 \<and> active t \<and> in_flight t = 0) new)"

text \<open>
  \<open>same_slot h\<close>: timer \<open>h\<close>, if there is one, is still there with its
  period, its task and its state of activity. \<open>kept_slot h\<close>: the same,
  except that the timer may have been cancelled.
\<close>

definition same_slot :: "nat \<Rightarrow> page \<Rightarrow> page \<Rightarrow> bool" where
  "same_slot h s s' \<longleftrightarrow>
     (h < length (timers s) \<longrightarrow>
        h < length (timers s') \<and>
        period_ms (timers s' ! h) = period_ms (timers s ! h) \<and>
        task_id (timers s' ! h) = task_id (timers s ! h) \<and>
        active (timers s' ! h) = active (timers s ! h))"

definition kept_slot :: "nat \<Rightarrow> page \<Rightarrow> page \<Rightarrow> bool" where
  "kept_slot h s s' \<longleftrightarrow>
     (h < length (timers s) \<longrightarrow>
        h < length (timers s') \<and>
        period_ms (timers s' ! h) = period_ms (timers s ! h) \<and>
        task_id (timers s' ! h) = task_id (timers s ! h) \<and>
        (active (timers s' ! h) \<longrightarrow> active (timers s ! h)))"

text \<open>
  \<open>respected R\<close>: a frame that the requests of the script and the making
  of a timer keep.
\<close>

definition respected :: "(page \<Rightarrow> page \<Rightarrow> bool) \<Rightarrow> bool" where
  "respected R \<longleftrightarrow>
     frame R \<and>
     (\<forall>nw path opts. known (api_request path opts) \<longrightarrow> keeps R (api nw path opts)) \<and>
     (\<forall>tid. keeps R (setInterval tid 1000))"

section \<open>A small runtime and page for the examples\<close>

text \<open>
  The examples below need concrete built-ins. Each is exact on the arguments
  the examples give it: decimal digit strings and texts without a numeric
  prefix for the parsers, the values 1 to 9 and \<open>NaN\<close> for the formatters,
  JSON without fractions or characters that need escaping for the
  serializer, three JSON texts for the parser, ASCII blanks for \<open>trim\<close>.
\<close>

definition digit_char :: "nat \<Rightarrow> char" where
  "digit_char d = char_of (48 + d)"

fun decimal :: "nat \<Rightarrow> string" where
  "decimal n = (if n < 10 then [digit_char n] else decimal (n div 10) @ [digit_char (n mod 10)])"

fun read_decimal :: "nat \<Rightarrow> string \<Rightarrow> nat option" where
  "read_decimal acc [] = Some acc"
| "read_decimal acc (c # cs) =
     (let d = (of_char c :: nat)
      in if 48 \<le> d \<and> d \<le> 57 then read_decimal (10 * acc + (d - 48)) cs else None)"

definition sample_parse :: "string \<Rightarrow> jsnum" where
  "sample_parse t =
     (if t = [] then NaN
      else case read_decimal 0 t of None \<Rightarrow> NaN | Some n \<Rightarrow> Fin (of_nat n))"

definition sample_toExponential :: "jsnum \<Rightarrow> nat \<Rightarrow> string" where
  "sample_toExponential n d =
     (case n of
        Fin r \<Rightarrow> (if r \<in> of_nat ` {1..9::nat}
                  then decimal (nat \<lfloor>r\<rfloor>) @ ''.'' @ replicate d (CHR ''0'') @ ''e+0''
                  else ''NaN'')
      | _ \<Rightarrow> ''NaN'')"

definition sample_toFixed :: "jsnum \<Rightarrow> nat \<Rightarrow> string" where
  "sample_toFixed n d =
     (case n of
        Fin r \<Rightarrow> (if r \<in> of_nat ` {1..9::nat}
                  then decimal (nat \<lfloor>r\<rfloor>) @ ''.'' @ replicate d (CHR ''0'')
                  else ''NaN'')
      | _ \<Rightarrow> ''NaN'')"

definition sample_num_text :: "jsnum \<Rightarrow> string" where
  "sample_num_text n =
     (case n of
        Fin r \<Rightarrow> (if r < 0 then ''-'' else '''') @ decimal (nat \<lfloor>\<bar>r\<bar>\<rfloor>)
      | _ \<Rightarrow> ''null'')"

definition quoted :: "string \<Rightarrow> string" where
  "quoted t = [CHR 0x22] @ t @ [CHR 0x22]"

definition line_break :: "nat \<Rightarrow> nat \<Rightarrow> string" where
  "line_break gap depth = (if gap = 0 then [] else CHR 0x0A # replicate (gap * depth) (CHR '' ''))"

fun join :: "string \<Rightarrow> string list \<Rightarrow> string" where
  "join sep [] = []"
| "join sep [x] = x"
| "join sep (x # xs) = x @ sep @ join sep xs"

fun sample_ser :: "nat \<Rightarrow> nat \<Rightarrow> js \<Rightarrow> string" where
  "sample_ser gap depth JUndefined = ''null''"
| "sample_ser gap depth JNull = ''null''"
| "sample_ser gap depth (JBool b) = (if b then ''true'' else ''false'')"
| "sample_ser gap depth (JNum n) = sample_num_text n"
| "sample_ser gap depth (JStr t) = quoted t"
| "sample_ser gap depth (JArr xs) =
     (if xs = [] then ''[]''
      else ''['' @ line_break gap (Suc depth)
           @ join ('','' @ line_break gap (Suc depth)) (map (sample_ser gap (Suc depth)) xs)
           @ line_break gap depth @ '']'')"
| "sample_ser gap depth (JObj kvs) =
     (if kvs = [] then ''{}''
      else ''{'' @ line_break gap (Suc depth)
           @ join ('','' @ line_break gap (Suc depth))
               (map (\<lambda>(k, v). quoted k @ (if gap = 0 then '':'' else '': '')
                                @ sample_ser gap (Suc depth) v) kvs)
           @ line_break gap depth @ ''}'')"

definition sample_stringify :: "js \<Rightarrow> nat \<Rightarrow> string" where
  "sample_stringify v gap = sample_ser gap 0 v"

definition sample_jsonParse :: "string \<Rightarrow> exn + js" where
  "sample_jsonParse t =
     (if t = ''{}'' then Inr (JObj [])
      else if t = ''[]'' then Inr (JArr [])
      else if t = ''null'' then Inr JNull
      else Inl (SyntaxError ''Unexpected token''))"

definition sample_toString :: "js \<Rightarrow> string" where
  "sample_toString v = (case v of JNum n \<Rightarrow> sample_num_text n | _ \<Rightarrow> ''[object Object]'')"

definition blank_char :: "char \<Rightarrow> bool" where
  "blank_char c = (c \<in> {CHR '' '', CHR 0x09, CHR 0x0A, CHR 0x0D})"

definition sample_trim :: "string \<Rightarrow> string" where
  "sample_trim t = rev (dropWhile blank_char (rev (dropWhile blank_char t)))"

definition sample_rt :: runtime where
  "sample_rt =
     \<lparr>parseFloat = sample_parse,
      parseInt = (\<lambda>t r. sample_parse t),
      toExponential = sample_toExponential,
      toFixed = sample_toFixed,
      stringify = sample_stringify,
      jsonParse = sample_jsonParse,
      toString = sample_toString,
      trim = sample_trim\<rparr>"

definition blank :: element where
  "blank = \<lparr>children = [], val = [], checked = False, display = []\<rparr>"

definition empty_page :: page where
  "empty_page = \<lparr>dom = Map.empty, sent = [], plots = [], timers = [], unhandled = []\<rparr>"

definition html_response :: response where
  "html_response = \<lparr>ok = True, statusText = ''OK'', body_text = ''<html>'',
      json = Inl (SyntaxError ''Unexpected token <'')\<rparr>"

definition html_net :: net where
  "html_net req = Responded html_response"

definition not_found_response :: response where
  "not_found_response = \<lparr>ok = False, statusText = ''Not Found'', body_text = [],
      json = Inl (SyntaxError ''Unexpected end of JSON input'')\<rparr>"

definition not_found_net :: net where
  "not_found_net req = Responded not_found_response"

definition empty_object_response :: response where
  "empty_object_response = \<lparr>ok = True, statusText = ''OK'', body_text = ''{}'',
      json = Inr (JObj [])\<rparr>"

definition empty_object_net :: net where
  "empty_object_net req = Responded empty_object_response"

definition physics_page :: page where
  "physics_page = empty_page\<lparr>dom :=
     [''#electron-mass'' \<mapsto> blank, ''#fine-structure'' \<mapsto> blank,
      ''#quaternion-coherence'' \<mapsto> blank, ''#topological-winding'' \<mapsto> blank]\<rparr>"

definition unit_metrics :: js where
  "unit_metrics = JObj [(''emergent_electron_mass'', JNum (Fin 1)),
     (''fine_structure_constant'', JNum (Fin 2)),
     (''quaternion_coherence'', JNum (Fin 3)),
     (''topological_winding'', JNum (Fin 9))]"

definition padded_metrics :: js where
  "padded_metrics = JObj [(''emergent_electron_mass'', JNum (Fin 1)),
     (''fine_structure_constant'', JNum (Fin 2)),
     (''note'', JStr ''unused''),
     (''quaternion_coherence'', JNum (Fin 3)),
     (''topological_winding'', JNum (Fin 9))]"





definition hopfion_tuples :: "(js \<times> js \<times> js \<times> js) list" where
  "hopfion_tuples =
     [(JNum (Fin 0), JNum (Fin 1), JNum (Fin 2), JNum (Fin 3)),
      (JNum (Fin 4), JNum (Fin 5), JNum (Fin 6), JNum (Fin 7))]"

definition hopfion_data :: js where
  "hopfion_data = JObj [(''q_x'', JArr (map tuple hopfion_tuples))]"

definition hopfion_net :: net where
  "hopfion_net req = Responded \<lparr>ok = True, statusText = ''OK'', body_text = [],
      json = Inr hopfion_data\<rparr>"

text \<open>
  A page with every element the script looks up, the form filled in; the core
  list leaves the context field of the campaign form out.
\<close>

definition core_elements :: "(string \<times> element) list" where
  "core_elements =
     [(statusEl, blank), (metricsEl, blank), (refreshMetricsBtn, blank), (taskListEl, blank),
      (submitTaskBtn, blank), (taskJsonEl, blank\<lparr>val := ''{}''\<rparr>), (taskExecuteEl, blank),
      (llmQueryBtn, blank), (llmQueryEl, blank\<lparr>val := ''plan a run''\<rparr>),
      (llmResponseEl, blank), (vizPacketEl, blank),
      (researchGoalEl, blank\<lparr>val := ''   ''\<rparr>), (researchTargetEl, blank),
      (researchTargetValueEl, blank\<lparr>val := ''abc''\<rparr>),
      (researchStepsEl, blank\<lparr>val := ''x''\<rparr>),
      (researchResultEl, blank), (startResearchBtn, blank),
      (eqgftVizTypeEl, blank\<lparr>val := ''line-plot''\<rparr>),
      (eqgftPythonScriptContainerEl, blank), (eqgftRunBtn, blank), (eqgftSendLlmBtn, blank),
      (eqgftLlmQueryEl, blank\<lparr>val := ''plan a run''\<rparr>), (eqgftResponseEl, blank),
      (''#eqgft-n-events'', blank\<lparr>val := ''1000''\<rparr>),
      (''#eqgft-kappa'', blank\<lparr>val := ''2''\<rparr>),
      (''#eqgft-systematic-error'', blank\<lparr>val := ''0''\<rparr>),
      (''#eqgft-python-script'', blank\<lparr>val := ''print(1)''\<rparr>)]"

definition sample_elements :: "(string \<times> element) list" where
  "sample_elements = (researchContextEl, blank) # core_elements"

definition sample_page :: page where
  "sample_page = empty_page\<lparr>dom := map_of sample_elements\<rparr>"

definition bad_context_page :: page where
  "bad_context_page =
     empty_page\<lparr>dom := map_of ((researchContextEl, blank\<lparr>val := ''{oops''\<rparr>) # sample_elements)\<rparr>"

text \<open>A server that answers every request with a completed task.\<close>

definition completed_status :: js where
  "completed_status = JObj [(''task_id'', JStr ''t-1''), (''status'', JStr ''Completed'')]"

definition completed_net :: net where
  "completed_net req = Responded \<lparr>ok = True, statusText = ''OK'', body_text = [],
      json = Inr completed_status\<rparr>"


text \<open>A server that reports the task as still running, and a page with one timer.\<close>

definition pending_net :: net where
  "pending_net req = Responded \<lparr>ok = True, statusText = ''OK'', body_text = [],
      json = Inr (JObj [(''task_id'', JStr ''t-1''), (''status'', JStr ''Running'')])\<rparr>"

definition polling_page :: page where
  "polling_page = sample_page\<lparr>timers :=
     [\<lparr>period_ms = 1000, task_id = JStr ''t-1'', active = True, in_flight = 0\<rparr>]\<rparr>"

text \<open>
  Two histories of that timer. In the first it fires and is answered in
  turn, the task always running. In the second the server is slow: the timer
  fires twice before any answer is there, and then the answers arrive, the
  task completed.
\<close>

definition always_pending :: "nat \<Rightarrow> net \<times> event" where
  "always_pending k = (pending_net, if even k then TimerFires 0 else PollAnswered 0)"

definition slow_completed :: "nat \<Rightarrow> net \<times> event" where
  "slow_completed k = (completed_net, if k < 2 then TimerFires 0 else PollAnswered 0)"


text \<open>The sample page after a click on the send button that the server serves in full.\<close>

definition after_click :: page where
  "after_click = fire sample_rt completed_net EqgftSendLlmClick sample_page"

section \<open>Frame rules\<close>

lemmas handles =
  statusEl_def metricsEl_def refreshMetricsBtn_def taskListEl_def submitTaskBtn_def
  taskJsonEl_def taskExecuteEl_def llmQueryBtn_def llmQueryEl_def llmResponseEl_def
  vizPacketEl_def researchGoalEl_def researchTargetEl_def researchTargetValueEl_def
  researchStepsEl_def researchContextEl_def researchResultEl_def startResearchBtn_def
  eqgftVizTypeEl_def eqgftPythonScriptContainerEl_def eqgftRunBtn_def eqgftSendLlmBtn_def
  eqgftLlmQueryEl_def eqgftResponseEl_def

lemma frame_refl: "frame R \<Longrightarrow> R s s"
  by (simp add: frame_def)

lemma frame_trans: "frame R \<Longrightarrow> R s t \<Longrightarrow> R t u \<Longrightarrow> R s u"
  unfolding frame_def by blast

lemma frame_dom: "frame R \<Longrightarrow> R s (s\<lparr>dom := d\<rparr>)"
  by (simp add: frame_def)

lemma frame_unhandled: "frame R \<Longrightarrow> R s (s\<lparr>unhandled := u\<rparr>)"
  by (simp add: frame_def)

lemma frame_plots: "frame R \<Longrightarrow> R s (s\<lparr>plots := p\<rparr>)"
  by (simp add: frame_def)

lemma keeps_ret: "frame R \<Longrightarrow> keeps R (ret x)"
  by (simp add: keeps_def ret_def frame_refl)

lemma keeps_lift: "frame R \<Longrightarrow> keeps R (lift r)"
  by (simp add: keeps_def lift_def frame_refl)

lemma keeps_and_then:
  assumes "frame R" and "keeps R m" and "\<And>x. keeps R (f x)"
  shows "keeps R (and_then m f)"
  unfolding keeps_def
proof
  fix s
  obtain r s' where ms: "m s = (r, s')" by (cases "m s")
  have 1: "R s s'" using assms(2) ms by (auto simp: keeps_def dest: spec [of _ s])
  show "R s (snd (and_then m f s))"
  proof (cases r)
    case (Inl e)
    then show ?thesis using ms 1 by (simp add: and_then_def)
  next
    case (Inr x)
    have "R s' (snd (f x s'))" using assms(3) by (simp add: keeps_def)
    then show ?thesis using ms 1 Inr assms(1) by (auto simp: and_then_def intro: frame_trans)
  qed
qed

lemma keeps_try_catch:
  assumes "frame R" and "keeps R m" and "\<And>e. keeps R (h e)"
  shows "keeps R (try_catch m h)"
  unfolding keeps_def
proof
  fix s
  obtain r s' where ms: "m s = (r, s')" by (cases "m s")
  have 1: "R s s'" using assms(2) ms by (auto simp: keeps_def dest: spec [of _ s])
  show "R s (snd (try_catch m h s))"
  proof (cases r)
    case (Inl e)
    have "R s' (snd (h e s'))" using assms(3) by (simp add: keeps_def)
    then show ?thesis using ms 1 Inl assms(1) by (auto simp: try_catch_def intro: frame_trans)
  next
    case (Inr x)
    then show ?thesis using ms 1 by (simp add: try_catch_def)
  qed
qed

lemma keeps_spawn:
  assumes "frame R" and "keeps R m"
  shows "keeps R (spawn m)"
  unfolding keeps_def
proof
  fix s
  obtain r s' where ms: "m s = (r, s')" by (cases "m s")
  have 1: "R s s'" using assms(2) ms by (auto simp: keeps_def dest: spec [of _ s])
  show "R s (snd (spawn m s))"
  proof (cases r)
    case (Inl e)
    have "R s' (s'\<lparr>unhandled := unhandled s' @ [e]\<rparr>)" using assms(1) by (rule frame_unhandled)
    then show ?thesis using ms 1 Inl assms(1) by (auto simp: spawn_def intro: frame_trans)
  next
    case (Inr x)
    then show ?thesis using ms 1 by (simp add: spawn_def)
  qed
qed

lemma keeps_if: "keeps R a \<Longrightarrow> keeps R b \<Longrightarrow> keeps R (if c then a else b)"
  by simp

lemma keeps_set_children: "frame R \<Longrightarrow> keeps R (set_children el ns)"
  by (auto simp: keeps_def set_children_def frame_refl frame_dom split: option.splits)

lemma keeps_set_textContent: "frame R \<Longrightarrow> keeps R (set_textContent el t)"
  by (simp add: set_textContent_def keeps_set_children)

lemma keeps_set_innerHTML: "frame R \<Longrightarrow> keeps R (set_innerHTML el t)"
  by (simp add: set_innerHTML_def keeps_set_children)

lemma keeps_appendChild: "frame R \<Longrightarrow> keeps R (appendChild el n)"
  by (auto simp: keeps_def appendChild_def frame_refl frame_dom split: option.splits)

lemma keeps_set_value: "frame R \<Longrightarrow> keeps R (set_value el t)"
  by (auto simp: keeps_def set_value_def frame_refl frame_dom split: option.splits)

lemma keeps_set_display: "frame R \<Longrightarrow> keeps R (set_display el t)"
  by (auto simp: keeps_def set_display_def frame_refl frame_dom split: option.splits)

lemma keeps_get_value: "frame R \<Longrightarrow> keeps R (get_value el)"
  by (auto simp: keeps_def get_value_def frame_refl split: option.splits)

lemma keeps_get_checked: "frame R \<Longrightarrow> keeps R (get_checked el)"
  by (auto simp: keeps_def get_checked_def frame_refl split: option.splits)

lemma keeps_for_each:
  assumes "frame R" and "\<And>x. keeps R (f x)"
  shows "keeps R (for_each f xs)"
  unfolding keeps_def
proof (induction xs)
  case Nil
  show ?case using assms(1) by (simp add: frame_refl)
next
  case (Cons x xs)
  show ?case
  proof
    fix s
    obtain r s' where fs: "f x s = (r, s')" by (cases "f x s")
    have 1: "R s s'" using assms(2) [of x] fs by (auto simp: keeps_def dest: spec [of _ s])
    show "R s (snd (for_each f (x # xs) s))"
    proof (cases r)
      case (Inl e)
      then show ?thesis using fs 1 by simp
    next
      case (Inr u)
      have "R s' (snd (for_each f xs s'))" using Cons.IH by simp
      then show ?thesis using fs 1 Inr assms(1) by (auto intro: frame_trans)
    qed
  qed
qed

lemmas keeps_rules =
  keeps_ret keeps_lift keeps_and_then keeps_try_catch keeps_spawn keeps_if
  keeps_set_textContent keeps_set_innerHTML keeps_appendChild keeps_set_value
  keeps_set_display keeps_get_value keeps_get_checked keeps_for_each

lemma keeps_updatePhysicsConstants: "frame R \<Longrightarrow> keeps R (updatePhysicsConstants rt m)"
proof -
  assume fr: "frame R"
  let ?body = "and_then (lift (num_method (toExponential rt) m ''emergent_electron_mass'' 10)) (\<lambda>e.
           and_then (set_textContent ''#electron-mass'' (e @ '' kg'')) (\<lambda>_.
           and_then (lift (num_method (toExponential rt) m ''fine_structure_constant'' 10)) (\<lambda>a.
           and_then (set_textContent ''#fine-structure'' a) (\<lambda>_.
           and_then (lift (num_method (toFixed rt) m ''quaternion_coherence'' 6)) (\<lambda>c.
           and_then (set_textContent ''#quaternion-coherence'' c) (\<lambda>_.
           and_then (lift (num_method (toFixed rt) m ''topological_winding'' 4)) (\<lambda>w.
           set_textContent ''#topological-winding'' w)))))))"
  have b: "keeps R ?body" by (intro keeps_rules fr)
  show ?thesis
    unfolding keeps_def
  proof
    fix s
    show "R s (snd (updatePhysicsConstants rt m s))"
      using b fr by (auto simp: updatePhysicsConstants_def Let_def keeps_def frame_refl)
  qed
qed

section \<open>The api helper\<close>

text \<open>
  Claim C10, as amended. The promise returned by \<open>api\<close> rejects exactly when
  \<^verbatim>\<open>fetch\<close> rejects, or the response is not ok, or the response is ok and
  \<^verbatim>\<open>res.json()\<close> rejects. For a response that is not ok the error's message
  is the body text when that is non-empty and the status text otherwise. For
  a response that is ok the promise settles as \<^verbatim>\<open>res.json()\<close> does, whatever
  the body text is: the text is not read.
\<close>

theorem api_settles:
  "(isl (fst (api nw path opts s)) \<longleftrightarrow>
      (\<exists>e. nw (api_request path opts) = Rejected e) \<or>
      (\<exists>res. nw (api_request path opts) = Responded res \<and> (\<not> ok res \<or> isl (json res))))
   \<and> (\<forall>res. nw (api_request path opts) = Responded res \<and> \<not> ok res \<longrightarrow>
         fst (api nw path opts s) =
           Inl (Error (if body_text res \<noteq> [] then body_text res else statusText res)))
   \<and> (\<forall>res. nw (api_request path opts) = Responded res \<and> ok res \<longrightarrow>
         fst (api nw path opts s) = json res \<and>
         (\<forall>t. fst (api (\<lambda>r. Responded (res\<lparr>body_text := t\<rparr>)) path opts s) = json res))"
  by (auto simp: api_def api_result_def api_then_def Let_def split: fetch_result.splits)

theorem api_settles_witness:
  "not_found_net (api_request ''/metrics'' no_options) = Responded not_found_response
   \<and> \<not> ok not_found_response
   \<and> fst (api not_found_net ''/metrics'' no_options empty_page) = Inl (Error ''Not Found'')
   \<and> empty_object_net (api_request ''/metrics'' no_options) = Responded empty_object_response
   \<and> ok empty_object_response
   \<and> fst (api empty_object_net ''/metrics'' no_options empty_page) = Inr (JObj [])"
  using api_settles [of not_found_net "''/metrics''" no_options empty_page]
        api_settles [of empty_object_net "''/metrics''" no_options empty_page]
  by (simp add: not_found_net_def not_found_response_def empty_object_net_def
        empty_object_response_def)

text \<open>
  The claim as first stated (the helper throws if and only if the response
  is not ok) fails: a response that is ok with a body that is not JSON makes
  the promise reject with the parser's error.
\<close>

theorem api_throws_iff_not_ok_counterexample:
  "ok html_response \<and>
   fst (api html_net ''/metrics'' no_options empty_page) = Inl (SyntaxError ''Unexpected token <'')"
  by (simp add: api_def api_result_def html_net_def html_response_def api_then_def)

section \<open>updatePhysicsConstants\<close>


lemma get_prop_num_truthy: "get_prop v k = Inr (JNum n) \<Longrightarrow> truthy v"
  by (cases v) auto

lemma num_method_num: "get_prop v k = Inr (JNum n) \<Longrightarrow> num_method f v k d = Inr (f n d)"
  by (simp add: num_method_def)

lemma set_textContent_present:
  "dom s el = Some e \<Longrightarrow>
   set_textContent el t s = (Inr (), s\<lparr>dom := (dom s)(el \<mapsto> e\<lparr>children := text_nodes t\<rparr>)\<rparr>)"
  by (simp add: set_textContent_def set_children_def)

lemma and_then_Inr: "m s = (Inr x, s') \<Longrightarrow> and_then m f s = f x s'"
  by (simp add: and_then_def)

lemma and_then_lift_Inr: "r = Inr x \<Longrightarrow> and_then (lift r) f s = f x s"
  by (simp add: and_then_def lift_def)

lemma updatePhysicsConstants_present:
  assumes "get_prop metrics ''emergent_electron_mass'' = Inr (JNum m)"
       "get_prop metrics ''fine_structure_constant'' = Inr (JNum a)"
       "get_prop metrics ''quaternion_coherence'' = Inr (JNum c)"
       "get_prop metrics ''topological_winding'' = Inr (JNum w)"
       "dom s ''#electron-mass'' = Some e1" "dom s ''#fine-structure'' = Some e2"
       "dom s ''#quaternion-coherence'' = Some e3" "dom s ''#topological-winding'' = Some e4"
  shows "updatePhysicsConstants rt metrics s =
         (Inr (),
          s\<lparr>dom := (dom s)
             (''#electron-mass'' \<mapsto> e1\<lparr>children := text_nodes (toExponential rt m 10 @ '' kg'')\<rparr>,
              ''#fine-structure'' \<mapsto> e2\<lparr>children := text_nodes (toExponential rt a 10)\<rparr>,
              ''#quaternion-coherence'' \<mapsto> e3\<lparr>children := text_nodes (toFixed rt c 6)\<rparr>,
              ''#topological-winding'' \<mapsto> e4\<lparr>children := text_nodes (toFixed rt w 4)\<rparr>)\<rparr>)"
proof -
  have t: "truthy metrics" using assms(1) by (rule get_prop_num_truthy)
  show ?thesis
    unfolding updatePhysicsConstants_def Let_def
    using t assms(5-8)
    by (simp add: and_then_lift_Inr [OF num_method_num [OF assms(1)]]
          and_then_lift_Inr [OF num_method_num [OF assms(2)]]
          and_then_lift_Inr [OF num_method_num [OF assms(3)]]
          and_then_lift_Inr [OF num_method_num [OF assms(4)]]
          and_then_Inr [OF set_textContent_present] set_textContent_present)
qed


lemma num_method_cong: "get_prop v k = get_prop v' k \<Longrightarrow> num_method f v k d = num_method f v' k d"
  by (simp add: num_method_def)

text \<open>
  Claim C5. \<open>updatePhysicsConstants\<close> returns at once, changing nothing, when
  its argument is falsy (absent) or the page has no electron-mass element.
  Given the four numeric fields and the four elements, it writes the mass in
  exponential notation with 10 fraction digits followed by \<^verbatim>\<open> kg\<close>, the
  fine-structure constant in exponential notation with 10 digits, the
  coherence in fixed notation with 6 digits and the winding with 4, each
  into its own element, and nothing else. Its effect depends on the argument
  through those four fields only.
\<close>

theorem updatePhysicsConstants_writes:
  "(\<not> truthy metrics \<or> dom s ''#electron-mass'' = None \<longrightarrow>
      updatePhysicsConstants rt metrics s = (Inr (), s))
   \<and> (get_prop metrics ''emergent_electron_mass'' = Inr (JNum m) \<and>
       get_prop metrics ''fine_structure_constant'' = Inr (JNum a) \<and>
       get_prop metrics ''quaternion_coherence'' = Inr (JNum c) \<and>
       get_prop metrics ''topological_winding'' = Inr (JNum w) \<and>
       dom s ''#electron-mass'' = Some e1 \<and> dom s ''#fine-structure'' = Some e2 \<and>
       dom s ''#quaternion-coherence'' = Some e3 \<and> dom s ''#topological-winding'' = Some e4 \<longrightarrow>
       updatePhysicsConstants rt metrics s =
         (Inr (),
          s\<lparr>dom := (dom s)
             (''#electron-mass'' \<mapsto> e1\<lparr>children := text_nodes (toExponential rt m 10 @ '' kg'')\<rparr>,
              ''#fine-structure'' \<mapsto> e2\<lparr>children := text_nodes (toExponential rt a 10)\<rparr>,
              ''#quaternion-coherence'' \<mapsto> e3\<lparr>children := text_nodes (toFixed rt c 6)\<rparr>,
              ''#topological-winding'' \<mapsto> e4\<lparr>children := text_nodes (toFixed rt w 4)\<rparr>)\<rparr>))
   \<and> (truthy metrics \<and> truthy metrics' \<and>
       (\<forall>k \<in> {''emergent_electron_mass'', ''fine_structure_constant'',
                ''quaternion_coherence'', ''topological_winding''}.
          get_prop metrics k = get_prop metrics' k) \<longrightarrow>
       updatePhysicsConstants rt metrics s = updatePhysicsConstants rt metrics' s)"
proof (intro conjI impI)
  assume "\<not> truthy metrics \<or> dom s ''#electron-mass'' = None"
  then show "updatePhysicsConstants rt metrics s = (Inr (), s)"
    by (auto simp: updatePhysicsConstants_def)
next
  assume "get_prop metrics ''emergent_electron_mass'' = Inr (JNum m) \<and>
       get_prop metrics ''fine_structure_constant'' = Inr (JNum a) \<and>
       get_prop metrics ''quaternion_coherence'' = Inr (JNum c) \<and>
       get_prop metrics ''topological_winding'' = Inr (JNum w) \<and>
       dom s ''#electron-mass'' = Some e1 \<and> dom s ''#fine-structure'' = Some e2 \<and>
       dom s ''#quaternion-coherence'' = Some e3 \<and> dom s ''#topological-winding'' = Some e4"
  then show "updatePhysicsConstants rt metrics s =
         (Inr (),
          s\<lparr>dom := (dom s)
             (''#electron-mass'' \<mapsto> e1\<lparr>children := text_nodes (toExponential rt m 10 @ '' kg'')\<rparr>,
              ''#fine-structure'' \<mapsto> e2\<lparr>children := text_nodes (toExponential rt a 10)\<rparr>,
              ''#quaternion-coherence'' \<mapsto> e3\<lparr>children := text_nodes (toFixed rt c 6)\<rparr>,
              ''#topological-winding'' \<mapsto> e4\<lparr>children := text_nodes (toFixed rt w 4)\<rparr>)\<rparr>)"
    by (intro updatePhysicsConstants_present) blast+
next
  assume h: "truthy metrics \<and> truthy metrics' \<and>
       (\<forall>k \<in> {''emergent_electron_mass'', ''fine_structure_constant'',
                ''quaternion_coherence'', ''topological_winding''}.
          get_prop metrics k = get_prop metrics' k)"
  then have g:
    "get_prop metrics ''emergent_electron_mass'' = get_prop metrics' ''emergent_electron_mass''"
    "get_prop metrics ''fine_structure_constant'' = get_prop metrics' ''fine_structure_constant''"
    "get_prop metrics ''quaternion_coherence'' = get_prop metrics' ''quaternion_coherence''"
    "get_prop metrics ''topological_winding'' = get_prop metrics' ''topological_winding''"
    by simp_all
  have t: "truthy metrics" "truthy metrics'" using h by simp_all
  note n = num_method_cong [OF g(1)] num_method_cong [OF g(2)]
    num_method_cong [OF g(3)] num_method_cong [OF g(4)]
  show "updatePhysicsConstants rt metrics s = updatePhysicsConstants rt metrics' s"
    unfolding updatePhysicsConstants_def Let_def by (simp only: t n)
qed


lemma sample_formats:
  "sample_toExponential (Fin 1) 10 = ''1.0000000000e+0''"
  "sample_toExponential (Fin 2) 10 = ''2.0000000000e+0''"
  "sample_toFixed (Fin 3) 6 = ''3.000000''"
  "sample_toFixed (Fin 9) 4 = ''9.0000''"
  by code_simp+

theorem updatePhysicsConstants_writes_witness:
  "updatePhysicsConstants sample_rt JNull physics_page = (Inr (), physics_page)
   \<and> updatePhysicsConstants sample_rt unit_metrics empty_page = (Inr (), empty_page)
   \<and> updatePhysicsConstants sample_rt unit_metrics physics_page =
       (Inr (), physics_page\<lparr>dom :=
          [''#electron-mass'' \<mapsto> blank\<lparr>children := [TextNode ''1.0000000000e+0 kg'']\<rparr>,
           ''#fine-structure'' \<mapsto> blank\<lparr>children := [TextNode ''2.0000000000e+0'']\<rparr>,
           ''#quaternion-coherence'' \<mapsto> blank\<lparr>children := [TextNode ''3.000000'']\<rparr>,
           ''#topological-winding'' \<mapsto> blank\<lparr>children := [TextNode ''9.0000'']\<rparr>]\<rparr>)
   \<and> updatePhysicsConstants sample_rt padded_metrics physics_page
       = updatePhysicsConstants sample_rt unit_metrics physics_page"
proof -
  have 1: "updatePhysicsConstants sample_rt JNull physics_page = (Inr (), physics_page)"
    using updatePhysicsConstants_writes [where metrics = JNull and s = physics_page and rt = sample_rt]
    by simp
  have 2: "updatePhysicsConstants sample_rt unit_metrics empty_page = (Inr (), empty_page)"
    using updatePhysicsConstants_writes [where metrics = unit_metrics and s = empty_page and rt = sample_rt]
    by (simp add: empty_page_def)
  have 3: "updatePhysicsConstants sample_rt unit_metrics physics_page =
       (Inr (), physics_page\<lparr>dom :=
          [''#electron-mass'' \<mapsto> blank\<lparr>children := [TextNode ''1.0000000000e+0 kg'']\<rparr>,
           ''#fine-structure'' \<mapsto> blank\<lparr>children := [TextNode ''2.0000000000e+0'']\<rparr>,
           ''#quaternion-coherence'' \<mapsto> blank\<lparr>children := [TextNode ''3.000000'']\<rparr>,
           ''#topological-winding'' \<mapsto> blank\<lparr>children := [TextNode ''9.0000'']\<rparr>]\<rparr>)"
    using updatePhysicsConstants_writes [where metrics = unit_metrics and s = physics_page
        and rt = sample_rt and m = "Fin 1" and a = "Fin 2" and c = "Fin 3" and w = "Fin 9"
        and ?e1.0 = blank and ?e2.0 = blank and ?e3.0 = blank and ?e4.0 = blank]
    by (simp add: physics_page_def unit_metrics_def empty_page_def sample_rt_def sample_formats
          text_nodes_def)
  have 4: "updatePhysicsConstants sample_rt padded_metrics physics_page
       = updatePhysicsConstants sample_rt unit_metrics physics_page"
    using updatePhysicsConstants_writes [where metrics = padded_metrics and s = physics_page
        and rt = sample_rt and metrics' = unit_metrics]
    by (simp add: padded_metrics_def unit_metrics_def)
  show ?thesis using 1 2 3 4 by blast
qed

section \<open>Running the effects\<close>

lemma and_then_Inl: "m s = (Inl e, s') \<Longrightarrow> and_then m f s = (Inl e, s')"
  by (simp add: and_then_def)

lemma and_then_lift_Inl: "r = Inl e \<Longrightarrow> and_then (lift r) f s = (Inl e, s)"
  by (simp add: and_then_def lift_def)

lemma try_catch_Inr: "m s = (Inr x, s') \<Longrightarrow> try_catch m h s = (Inr x, s')"
  by (simp add: try_catch_def)

lemma try_catch_Inl: "m s = (Inl e, s') \<Longrightarrow> try_catch m h s = h e s'"
  by (simp add: try_catch_def)

lemma spawn_Inr: "m s = (Inr x, s') \<Longrightarrow> spawn m s = (Inr (), s')"
  by (simp add: spawn_def)

lemma spawn_Inl: "m s = (Inl e, s') \<Longrightarrow> spawn m s = (Inr (), s'\<lparr>unhandled := unhandled s' @ [e]\<rparr>)"
  by (simp add: spawn_def)



section \<open>refreshTasks\<close>

lemma map_exn_Inr: "map_exn f xs = Inr ys \<longleftrightarrow> map f xs = map Inr ys"
proof (induction xs arbitrary: ys)
  case Nil
  then show ?case by auto
next
  case (Cons x xs)
  show ?case
  proof (cases "f x")
    case (Inl e)
    then show ?thesis by (cases ys) auto
  next
    case fx: (Inr y)
    show ?thesis
    proof (cases "map_exn f xs")
      case (Inl e)
      then have "\<And>zs. map f xs \<noteq> map Inr zs" using Cons.IH by auto
      then show ?thesis using fx Inl by (cases ys) auto
    next
      case (Inr zs)
      then have "map f xs = map Inr zs" using Cons.IH by simp
      then show ?thesis using fx Inr by (cases ys) (auto simp: inj_map_eq_map)
    qed
  qed
qed
















section \<open>refreshHopfionField\<close>

lemma array_map_Inr:
  "array_map q f = Inr xs \<longleftrightarrow> (\<exists>qs. q = JArr qs \<and> map f qs = map Inr xs)"
  by (cases q) (auto simp: array_map_def map_exn_Inr)

lemma set_textContent_plots: "plots (snd (set_textContent el t s)) = plots s"
  by (simp add: set_textContent_def set_children_def split: option.splits)

lemma hopfion_plot:
  assumes "api_result nw ''/visualization/hopfion-field'' no_options = Inr data"
    and "truthy data" and "get_prop data ''q_x'' = Inr q"
    and "array_map q (\<lambda>v. index v 1) = Inr x"
    and "array_map q (\<lambda>v. index v 2) = Inr y"
    and "array_map q (\<lambda>v. index v 3) = Inr z"
  shows "refreshHopfionField rt nw s =
     (Inr (), s\<lparr>sent := sent s @ [api_request ''/visualization/hopfion-field'' no_options],
                 plots := plots s @ [cone x y z x y z]\<rparr>)"
  using assms
  by (simp add: refreshHopfionField_def try_catch_def and_then_def api_def lift_def
        newPlot_def cone_def)

lemma hopfion_no_plot:
  assumes "\<not> (\<exists>data q x y z.
     api_result nw ''/visualization/hopfion-field'' no_options = Inr data
     \<and> truthy data \<and> get_prop data ''q_x'' = Inr q
     \<and> array_map q (\<lambda>v. index v 1) = Inr x
     \<and> array_map q (\<lambda>v. index v 2) = Inr y
     \<and> array_map q (\<lambda>v. index v 3) = Inr z)"
  shows "plots (snd (refreshHopfionField rt nw s)) = plots s"
proof (cases "api_result nw ''/visualization/hopfion-field'' no_options")
  case (Inl e)
  then show ?thesis
    by (simp add: refreshHopfionField_def try_catch_def and_then_def api_def set_textContent_plots)
next
  case data: (Inr data)
  show ?thesis
  proof (cases "truthy data")
    case False
    then show ?thesis using data
      by (simp add: refreshHopfionField_def try_catch_def and_then_def api_def ret_def)
  next
    case True
    show ?thesis
    proof (cases "get_prop data ''q_x''")
      case (Inl e)
      then show ?thesis using data True
        by (simp add: refreshHopfionField_def try_catch_def and_then_def api_def lift_def
              set_textContent_plots)
    next
      case q: (Inr q)
      show ?thesis
      proof (cases "array_map q (\<lambda>v. index v 1)")
        case (Inl e)
        then show ?thesis using data True q
          by (simp add: refreshHopfionField_def try_catch_def and_then_def api_def lift_def
                set_textContent_plots)
      next
        case x: (Inr x)
        show ?thesis
        proof (cases "array_map q (\<lambda>v. index v 2)")
          case (Inl e)
          then show ?thesis using data True q x
            by (simp add: refreshHopfionField_def try_catch_def and_then_def api_def lift_def
                  set_textContent_plots)
        next
          case y: (Inr y)
          show ?thesis
          proof (cases "array_map q (\<lambda>v. index v 3)")
            case (Inl e)
            then show ?thesis using data True q x y
              by (simp add: refreshHopfionField_def try_catch_def and_then_def api_def lift_def
                    set_textContent_plots)
          next
            case (Inr z)
            then show ?thesis using assms data True q x y by blast
          qed
        qed
      qed
    qed
  qed
qed

lemma index_tuple:
  "index (tuple q) 1 = Inr (fst (snd q))"
  "index (tuple q) 2 = Inr (fst (snd (snd q)))"
  "index (tuple q) 3 = Inr (snd (snd (snd q)))"
  "index (tuple q) (Suc 0) = Inr (fst (snd q))"
  by (simp_all add: tuple_def split: prod.splits)

lemma array_map_tuples:
  "array_map (JArr (map tuple qs)) (\<lambda>v. index v 1) = Inr (map (\<lambda>q. fst (snd q)) qs)"
  "array_map (JArr (map tuple qs)) (\<lambda>v. index v 2) = Inr (map (\<lambda>q. fst (snd (snd q))) qs)"
  "array_map (JArr (map tuple qs)) (\<lambda>v. index v 3) = Inr (map (\<lambda>q. snd (snd (snd q))) qs)"
  by (simp_all add: array_map_Inr index_tuple)


text \<open>
  Claim C6. A plot is drawn only from an answer with a list \<open>q_x\<close>, and then
  its positions are the components 1, 2 and 3 of the elements of \<open>q_x\<close>, in
  order, and its directions \<open>u\<close>, \<open>v\<close>, \<open>w\<close> are the same three lists.
  For a list of 4-tuples the plot holds the second, third and fourth
  components, whatever the first are.
\<close>

theorem refreshHopfionField_cone:
  "(plots (snd (refreshHopfionField rt nw s)) = plots s \<or>
    (\<exists>data qs x y z.
       api_result nw ''/visualization/hopfion-field'' no_options = Inr data \<and>
       get_prop data ''q_x'' = Inr (JArr qs) \<and>
       map (\<lambda>v. index v 1) qs = map Inr x \<and>
       map (\<lambda>v. index v 2) qs = map Inr y \<and>
       map (\<lambda>v. index v 3) qs = map Inr z \<and>
       plots (snd (refreshHopfionField rt nw s)) = plots s @ [cone x y z x y z]))
   \<and> (api_result nw ''/visualization/hopfion-field'' no_options = Inr data \<and> truthy data \<and>
       get_prop data ''q_x'' = Inr (JArr (map tuple ts)) \<longrightarrow>
       refreshHopfionField rt nw s =
         (Inr (), s\<lparr>sent := sent s @ [api_request ''/visualization/hopfion-field'' no_options],
                     plots := plots s @
                       [cone (map (\<lambda>(a, b, c, d). b) ts) (map (\<lambda>(a, b, c, d). c) ts)
                             (map (\<lambda>(a, b, c, d). d) ts)
                             (map (\<lambda>(a, b, c, d). b) ts) (map (\<lambda>(a, b, c, d). c) ts)
                             (map (\<lambda>(a, b, c, d). d) ts)]\<rparr>))"
proof (intro conjI impI)
  show "plots (snd (refreshHopfionField rt nw s)) = plots s \<or>
    (\<exists>data qs x y z.
       api_result nw ''/visualization/hopfion-field'' no_options = Inr data \<and>
       get_prop data ''q_x'' = Inr (JArr qs) \<and>
       map (\<lambda>v. index v 1) qs = map Inr x \<and>
       map (\<lambda>v. index v 2) qs = map Inr y \<and>
       map (\<lambda>v. index v 3) qs = map Inr z \<and>
       plots (snd (refreshHopfionField rt nw s)) = plots s @ [cone x y z x y z])"
  proof (cases "\<exists>data q x y z.
     api_result nw ''/visualization/hopfion-field'' no_options = Inr data
     \<and> truthy data \<and> get_prop data ''q_x'' = Inr q
     \<and> array_map q (\<lambda>v. index v 1) = Inr x
     \<and> array_map q (\<lambda>v. index v 2) = Inr y
     \<and> array_map q (\<lambda>v. index v 3) = Inr z")
    case False
    then show ?thesis using hopfion_no_plot by blast
  next
    case True
    then obtain data q x y z where
      d: "api_result nw ''/visualization/hopfion-field'' no_options = Inr data"
      and t: "truthy data" and q: "get_prop data ''q_x'' = Inr q"
      and x: "array_map q (\<lambda>v. index v 1) = Inr x"
      and y: "array_map q (\<lambda>v. index v 2) = Inr y"
      and z: "array_map q (\<lambda>v. index v 3) = Inr z"
      by blast
    from x obtain qs where qs: "q = JArr qs" by (auto simp: array_map_Inr)
    have m: "map (\<lambda>v. index v 1) qs = map Inr x" "map (\<lambda>v. index v 2) qs = map Inr y"
      "map (\<lambda>v. index v 3) qs = map Inr z"
      using x y z qs by (auto simp: array_map_Inr)
    have "plots (snd (refreshHopfionField rt nw s)) = plots s @ [cone x y z x y z]"
      by (simp add: hopfion_plot [OF d t q x y z])
    then show ?thesis using d q qs m by blast
  qed
next
  assume h: "api_result nw ''/visualization/hopfion-field'' no_options = Inr data \<and> truthy data \<and>
       get_prop data ''q_x'' = Inr (JArr (map tuple ts))"
  have e: "(\<lambda>(a, b, c, d). b) = (\<lambda>q :: js \<times> js \<times> js \<times> js. fst (snd q))"
    "(\<lambda>(a, b, c, d). c) = (\<lambda>q :: js \<times> js \<times> js \<times> js. fst (snd (snd q)))"
    "(\<lambda>(a, b, c, d). d) = (\<lambda>q :: js \<times> js \<times> js \<times> js. snd (snd (snd q)))"
    by (auto simp: fun_eq_iff)
  show "refreshHopfionField rt nw s =
         (Inr (), s\<lparr>sent := sent s @ [api_request ''/visualization/hopfion-field'' no_options],
                     plots := plots s @
                       [cone (map (\<lambda>(a, b, c, d). b) ts) (map (\<lambda>(a, b, c, d). c) ts)
                             (map (\<lambda>(a, b, c, d). d) ts)
                             (map (\<lambda>(a, b, c, d). b) ts) (map (\<lambda>(a, b, c, d). c) ts)
                             (map (\<lambda>(a, b, c, d). d) ts)]\<rparr>)"
    unfolding e
    by (rule hopfion_plot [OF conjunct1 [OF h] conjunct1 [OF conjunct2 [OF h]]
          conjunct2 [OF conjunct2 [OF h]] array_map_tuples])
qed


theorem refreshHopfionField_cone_witness:
  "api_result hopfion_net ''/visualization/hopfion-field'' no_options = Inr hopfion_data
   \<and> truthy hopfion_data
   \<and> get_prop hopfion_data ''q_x'' = Inr (JArr (map tuple hopfion_tuples))
   \<and> refreshHopfionField sample_rt hopfion_net empty_page =
       (Inr (), empty_page\<lparr>sent := [api_request ''/visualization/hopfion-field'' no_options],
          plots := [cone [JNum (Fin 1), JNum (Fin 5)] [JNum (Fin 2), JNum (Fin 6)]
                         [JNum (Fin 3), JNum (Fin 7)]
                         [JNum (Fin 1), JNum (Fin 5)] [JNum (Fin 2), JNum (Fin 6)]
                         [JNum (Fin 3), JNum (Fin 7)]]\<rparr>)"
  using refreshHopfionField_cone [where nw = hopfion_net and data = hopfion_data
      and ts = hopfion_tuples and rt = sample_rt and s = empty_page]
  by (simp add: api_result_def hopfion_net_def api_then_def hopfion_data_def hopfion_tuples_def
        empty_page_def)

section \<open>What the rendering functions keep\<close>

lemma frame_appends: "frame (appends P)"
  unfolding frame_def appends_def
proof (intro conjI allI impI)
  fix s t u
  assume "\<exists>rest. sent t = sent s @ rest \<and> list_all P rest"
    and "\<exists>rest. sent u = sent t @ rest \<and> list_all P rest"
  then obtain r1 r2 where "sent t = sent s @ r1" "list_all P r1" "sent u = sent t @ r2" "list_all P r2"
    by blast
  then have "sent u = sent s @ (r1 @ r2) \<and> list_all P (r1 @ r2)" by simp
  then show "\<exists>rest. sent u = sent s @ rest \<and> list_all P rest" by blast
qed simp_all

lemma frame_same_timers: "frame same_timers"
  by (simp add: frame_def same_timers_def)

lemma keeps_newPlot: "frame R \<Longrightarrow> keeps R (newPlot p)"
  by (simp add: keeps_def newPlot_def frame_plots)

lemma keeps_api_appends: "P (api_request path opts) \<Longrightarrow> keeps (appends P) (api nw path opts)"
  by (simp add: keeps_def api_def appends_def)

lemma keeps_api_timers: "keeps same_timers (api nw path opts)"
  by (simp add: keeps_def api_def same_timers_def)

lemma keeps_refreshMetrics:
  "frame R \<Longrightarrow> keeps R (api nw ''/metrics'' no_options) \<Longrightarrow> keeps R (refreshMetrics rt nw)"
  unfolding refreshMetrics_def
  by (intro keeps_rules keeps_updatePhysicsConstants)

lemma keeps_refreshTasks:
  "frame R \<Longrightarrow> keeps R (api nw ''/tasks'' no_options) \<Longrightarrow> keeps R (refreshTasks rt nw)"
  unfolding refreshTasks_def
  by (intro keeps_rules)

lemma keeps_refreshViz:
  "frame R \<Longrightarrow> keeps R (api nw ''/visualization/packet'' no_options) \<Longrightarrow>
   keeps R (refreshViz rt nw)"
  unfolding refreshViz_def
  by (intro keeps_rules)

lemma keeps_refreshHopfionField:
  "frame R \<Longrightarrow> keeps R (api nw ''/visualization/hopfion-field'' no_options) \<Longrightarrow>
   keeps R (refreshHopfionField rt nw)"
  unfolding refreshHopfionField_def
  by (intro keeps_rules keeps_newPlot)

text \<open>What follows a call inside \<^verbatim>\<open>try\<close> starts from the state with the request sent.\<close>

lemma after_api:
  assumes "frame R" and "\<And>x. keeps R (k x)" and "\<And>e. keeps R (h e)"
  shows "R (s\<lparr>sent := sent s @ [api_request path opts]\<rparr>)
           (snd (try_catch (and_then (api nw path opts) k) h s))"
proof (cases "api_result nw path opts")
  case (Inl e)
  then have "try_catch (and_then (api nw path opts) k) h s
      = h e (s\<lparr>sent := sent s @ [api_request path opts]\<rparr>)"
    by (simp add: try_catch_def and_then_def api_def)
  then show ?thesis using assms(3) [of e] by (simp add: keeps_def)
next
  case (Inr x)
  then have "try_catch (and_then (api nw path opts) k) h s
      = try_catch (k x) h (s\<lparr>sent := sent s @ [api_request path opts]\<rparr>)"
    by (simp add: try_catch_def and_then_def api_def)
  moreover have "keeps R (try_catch (k x) h)"
    by (intro keeps_try_catch assms)
  ultimately show ?thesis by (simp add: keeps_def)
qed

lemma get_refreshes:
  "keeps (appends (\<lambda>r. http_method r = ''GET'')) (refreshMetrics rt nw)"
  "keeps (appends (\<lambda>r. http_method r = ''GET'')) (refreshTasks rt nw)"
  "keeps (appends (\<lambda>r. http_method r = ''GET'')) (refreshViz rt nw)"
  "keeps (appends (\<lambda>r. http_method r = ''GET'')) (refreshHopfionField rt nw)"
  by (intro keeps_refreshMetrics keeps_refreshTasks keeps_refreshViz keeps_refreshHopfionField
        frame_appends keeps_api_appends, simp add: api_request_def no_options_def)+


lemma get_value_present: "dom s el = Some e \<Longrightarrow> get_value el s = (Inr (val e), s)"
  by (simp add: get_value_def)

section \<open>The eqgftRunBtn click handler\<close>

lemma eqgftRun_click_inputs:
  assumes "dom s eqgftVizTypeEl = Some vt" and "dom s ''#eqgft-n-events'' = Some ne"
    and "dom s ''#eqgft-kappa'' = Some ka" and "dom s ''#eqgft-systematic-error'' = Some se"
    and "dom s ''#eqgft-python-script'' = Some ps"
  shows "eqgftRun_click rt nw s =
     try_catch
       (and_then (api nw ''/tasks''
          (post (stringify rt
             (JObj [(''task'', eqgft_task rt (val vt) (val ne) (val ka) (val se) (val ps)),
                    (''execute'', JBool True)]) 0))) (\<lambda>_.
        and_then (set_textContent statusEl ''EQGFT task submitted.'') (\<lambda>_.
        and_then (spawn (refreshTasks rt nw)) (\<lambda>_.
        and_then (spawn (refreshMetrics rt nw)) (\<lambda>_.
        if val vt = ''3d-vector-field'' then spawn (refreshHopfionField rt nw) else ret ())))))
       (\<lambda>err. set_textContent statusEl (''EQGFT task error: '' @ message err)) s"
  using assms by (simp add: eqgftRun_click_def and_then_def get_value_present Let_def)

text \<open>
  Claim C3. With the five form fields on the page, a click on the run button
  sends exactly one POST /api/tasks, as the first request of the click, and
  only GET requests after it. Its body is the serialization of an object with
  the fields \<open>task\<close> and \<open>execute\<close>, where \<open>execute\<close> is true and
  \<open>task\<close> has one of three shapes: for the type \<open>custom-python-script\<close> the
  operator \<open>CustomPythonScript\<close> with the script as its one parameter; for
  \<open>line-plot\<close> the operator \<open>SimulateEqgftAsymmetry\<close> with \<open>kappa\<close>,
  \<open>n_events\<close> and \<open>systematic_error\<close> parsed from the fields; for any
  other type the operator \<open>GenerateHopfionField\<close> with no parameters.
\<close>

theorem eqgftRun_payload:
  assumes "dom s eqgftVizTypeEl = Some vt" and "dom s ''#eqgft-n-events'' = Some ne"
    and "dom s ''#eqgft-kappa'' = Some ka" and "dom s ''#eqgft-systematic-error'' = Some se"
    and "dom s ''#eqgft-python-script'' = Some ps"
  shows "\<exists>task rest.
     sent (snd (eqgftRun_click rt nw s)) =
       sent s @
       \<lparr>http_method = ''POST'', url = ''/api/tasks'',
        headers = [(''Content-Type'', ''application/json'')],
        body = Some (stringify rt (JObj [(''task'', task), (''execute'', JBool True)]) 0)\<rparr> # rest
     \<and> list_all (\<lambda>r. http_method r = ''GET'') rest
     \<and> (val vt = ''custom-python-script'' \<longrightarrow>
          task = JObj [(''task_name'', JStr ''Custom Python Script''),
                       (''geometric_operator'', JStr ''CustomPythonScript''),
                       (''parameters'', JObj [(''script'', JStr (val ps))])])
     \<and> (val vt = ''line-plot'' \<longrightarrow>
          task = JObj [(''task_name'', JStr ''Simulate EQGFT Asymmetry''),
                       (''geometric_operator'', JStr ''SimulateEqgftAsymmetry''),
                       (''parameters'',
                          JObj [(''kappa'', JNum (parseFloat rt (val ka))),
                                (''n_events'', JNum (parseInt rt (val ne) None)),
                                (''systematic_error'', JNum (parseFloat rt (val se)))])])
     \<and> (val vt \<noteq> ''custom-python-script'' \<and> val vt \<noteq> ''line-plot'' \<longrightarrow>
          task = JObj [(''task_name'', JStr ''Generate Hopfion Field''),
                       (''geometric_operator'', JStr ''GenerateHopfionField''),
                       (''parameters'', JObj [])])"
proof -
  let ?task = "eqgft_task rt (val vt) (val ne) (val ka) (val se) (val ps)"
  let ?opts = "post (stringify rt (JObj [(''task'', ?task), (''execute'', JBool True)]) 0)"
  let ?G = "appends (\<lambda>r. http_method r = ''GET'')"
  have "?G (s\<lparr>sent := sent s @ [api_request ''/tasks'' ?opts]\<rparr>) (snd (eqgftRun_click rt nw s))"
    unfolding eqgftRun_click_inputs [OF assms]
    by (rule after_api [where R = ?G]) (intro keeps_rules get_refreshes frame_appends)+
  then obtain rest where
    "sent (snd (eqgftRun_click rt nw s)) = sent s @ api_request ''/tasks'' ?opts # rest"
    and "list_all (\<lambda>r. http_method r = ''GET'') rest"
    by (auto simp: appends_def)
  moreover have "api_request ''/tasks'' ?opts =
       \<lparr>http_method = ''POST'', url = ''/api/tasks'',
        headers = [(''Content-Type'', ''application/json'')],
        body = Some (stringify rt (JObj [(''task'', ?task), (''execute'', JBool True)]) 0)\<rparr>"
    by (simp add: api_request_def post_def)
  moreover have "val vt = ''custom-python-script'' \<longrightarrow>
          ?task = JObj [(''task_name'', JStr ''Custom Python Script''),
                       (''geometric_operator'', JStr ''CustomPythonScript''),
                       (''parameters'', JObj [(''script'', JStr (val ps))])]"
    by (simp add: eqgft_task_def)
  moreover have "val vt = ''line-plot'' \<longrightarrow>
          ?task = JObj [(''task_name'', JStr ''Simulate EQGFT Asymmetry''),
                       (''geometric_operator'', JStr ''SimulateEqgftAsymmetry''),
                       (''parameters'',
                          JObj [(''kappa'', JNum (parseFloat rt (val ka))),
                                (''n_events'', JNum (parseInt rt (val ne) None)),
                                (''systematic_error'', JNum (parseFloat rt (val se)))])]"
    by (simp add: eqgft_task_def)
  moreover have "val vt \<noteq> ''custom-python-script'' \<and> val vt \<noteq> ''line-plot'' \<longrightarrow>
          ?task = JObj [(''task_name'', JStr ''Generate Hopfion Field''),
                       (''geometric_operator'', JStr ''GenerateHopfionField''),
                       (''parameters'', JObj [])]"
    by (simp add: eqgft_task_def)
  ultimately show ?thesis by (intro exI [of _ ?task] exI [of _ rest]) simp
qed


lemma sample_parse_values:
  "sample_parse ''1000'' = Fin 1000" "sample_parse ''2'' = Fin 2" "sample_parse ''0'' = Fin 0"
  "sample_parse ''5'' = Fin 5" "sample_parse ''abc'' = NaN" "sample_parse ''x'' = NaN"
  by (simp_all add: sample_parse_def)

theorem eqgftRun_payload_witness:
  "dom sample_page eqgftVizTypeEl = Some (blank\<lparr>val := ''line-plot''\<rparr>)
   \<and> dom sample_page ''#eqgft-n-events'' = Some (blank\<lparr>val := ''1000''\<rparr>)
   \<and> dom sample_page ''#eqgft-kappa'' = Some (blank\<lparr>val := ''2''\<rparr>)
   \<and> dom sample_page ''#eqgft-systematic-error'' = Some (blank\<lparr>val := ''0''\<rparr>)
   \<and> dom sample_page ''#eqgft-python-script'' = Some (blank\<lparr>val := ''print(1)''\<rparr>)
   \<and> (\<exists>rest.
        sent (snd (eqgftRun_click sample_rt empty_object_net sample_page)) =
          \<lparr>http_method = ''POST'', url = ''/api/tasks'',
           headers = [(''Content-Type'', ''application/json'')],
           body = Some (stringify sample_rt
             (JObj [(''task'',
                JObj [(''task_name'', JStr ''Simulate EQGFT Asymmetry''),
                      (''geometric_operator'', JStr ''SimulateEqgftAsymmetry''),
                      (''parameters'',
                         JObj [(''kappa'', JNum (Fin 2)),
                               (''n_events'', JNum (Fin 1000)),
                               (''systematic_error'', JNum (Fin 0))])]),
                    (''execute'', JBool True)]) 0)\<rparr> # rest
        \<and> list_all (\<lambda>r. http_method r = ''GET'') rest)"
proof -
  have el: "dom sample_page eqgftVizTypeEl = Some (blank\<lparr>val := ''line-plot''\<rparr>)"
    "dom sample_page ''#eqgft-n-events'' = Some (blank\<lparr>val := ''1000''\<rparr>)"
    "dom sample_page ''#eqgft-kappa'' = Some (blank\<lparr>val := ''2''\<rparr>)"
    "dom sample_page ''#eqgft-systematic-error'' = Some (blank\<lparr>val := ''0''\<rparr>)"
    "dom sample_page ''#eqgft-python-script'' = Some (blank\<lparr>val := ''print(1)''\<rparr>)"
    by (simp_all add: sample_page_def sample_elements_def core_elements_def handles)
  have p: "parseFloat sample_rt ''2'' = Fin 2" "parseInt sample_rt ''1000'' None = Fin 1000"
    "parseFloat sample_rt ''0'' = Fin 0"
    by (simp_all add: sample_rt_def sample_parse_values)
  from eqgftRun_payload [OF el, of sample_rt empty_object_net]
  have "\<exists>rest.
        sent (snd (eqgftRun_click sample_rt empty_object_net sample_page)) =
          \<lparr>http_method = ''POST'', url = ''/api/tasks'',
           headers = [(''Content-Type'', ''application/json'')],
           body = Some (stringify sample_rt
             (JObj [(''task'',
                JObj [(''task_name'', JStr ''Simulate EQGFT Asymmetry''),
                      (''geometric_operator'', JStr ''SimulateEqgftAsymmetry''),
                      (''parameters'',
                         JObj [(''kappa'', JNum (Fin 2)),
                               (''n_events'', JNum (Fin 1000)),
                               (''systematic_error'', JNum (Fin 0))])]),
                    (''execute'', JBool True)]) 0)\<rparr> # rest
        \<and> list_all (\<lambda>r. http_method r = ''GET'') rest"
    by (auto simp: p sample_page_def empty_page_def)
  then show ?thesis using el by blast
qed

section \<open>The startResearchBtn click handler\<close>

lemma text_nodes_nonempty: "t \<noteq> [] \<Longrightarrow> text_nodes t = [TextNode t]"
  by (simp add: text_nodes_def)

lemma set_textContent_absent:
  "dom s el = None \<Longrightarrow>
   set_textContent el t s = (Inl (TypeError ''Cannot set properties of null''), s)"
  by (simp add: set_textContent_def set_children_def)

lemma startResearch_invalid:
  assumes "dom s researchContextEl = Some c" and "trim rt (val c) \<noteq> []"
    and "jsonParse rt (val c) = Inl err"
  shows "startResearch_click rt nw s =
           and_then (set_textContent researchResultEl (''Invalid context JSON: '' @ message err))
             (\<lambda>_. ret ()) s"
  using assms
  by (simp add: startResearch_click_def Let_def truthy_str_def opt_value_def and_then_def
        try_catch_def get_value_present lift_def ret_def split: prod.splits sum.splits)


lemma startResearch_invalid_run:
  assumes "dom s researchContextEl = Some c" and "trim rt (val c) \<noteq> []"
    and "jsonParse rt (val c) = Inl err"
  shows "dom s researchResultEl = Some r \<Longrightarrow>
           startResearch_click rt nw s =
             (Inr (), s\<lparr>dom := (dom s)(researchResultEl \<mapsto>
                r\<lparr>children := [TextNode (''Invalid context JSON: '' @ message err)]\<rparr>)\<rparr>)"
    and "dom s researchResultEl = None \<Longrightarrow> snd (startResearch_click rt nw s) = s"
    and "sent (snd (startResearch_click rt nw s)) = sent s"
proof -
  note run = startResearch_invalid [OF assms]
  show 1: "dom s researchResultEl = Some r \<Longrightarrow>
           startResearch_click rt nw s =
             (Inr (), s\<lparr>dom := (dom s)(researchResultEl \<mapsto>
                r\<lparr>children := [TextNode (''Invalid context JSON: '' @ message err)]\<rparr>)\<rparr>)" for r
    by (simp add: run and_then_def set_textContent_present text_nodes_nonempty ret_def)
  show 2: "dom s researchResultEl = None \<Longrightarrow> snd (startResearch_click rt nw s) = s"
    by (simp add: run and_then_def set_textContent_absent)
  show "sent (snd (startResearch_click rt nw s)) = sent s"
  proof (cases "dom s researchResultEl")
    case None
    then show ?thesis using 2 by simp
  next
    case (Some r)
    then show ?thesis using 1 [of r] by simp
  qed
qed

text \<open>
  Claim C8. When the context field exists, is not empty after trimming and
  does not parse as JSON, a click on the start button sends nothing: it
  writes \<open>Invalid context JSON: \<close> and the parser's message into the result
  element (given there is one) and changes nothing else. Hence a click that
  sends a request had a context field that was missing, empty after trimming,
  or valid JSON.
\<close>

theorem startResearch_invalid_context:
  "(dom s researchContextEl = Some c \<and> trim rt (val c) \<noteq> [] \<and>
    jsonParse rt (val c) = Inl err \<longrightarrow>
      sent (snd (startResearch_click rt nw s)) = sent s
      \<and> (\<forall>r. dom s researchResultEl = Some r \<longrightarrow>
            startResearch_click rt nw s =
              (Inr (), s\<lparr>dom := (dom s)(researchResultEl \<mapsto>
                 r\<lparr>children := [TextNode (''Invalid context JSON: '' @ message err)]\<rparr>)\<rparr>))
      \<and> (dom s researchResultEl = None \<longrightarrow> snd (startResearch_click rt nw s) = s))
   \<and> (sent (snd (startResearch_click rt nw s)) \<noteq> sent s \<longrightarrow>
        dom s researchContextEl = None \<or>
        (\<exists>c. dom s researchContextEl = Some c \<and>
             (trim rt (val c) = [] \<or> (\<exists>v. jsonParse rt (val c) = Inr v))))"
proof (intro conjI impI)
  assume h: "dom s researchContextEl = Some c \<and> trim rt (val c) \<noteq> [] \<and>
    jsonParse rt (val c) = Inl err"
  then have a: "dom s researchContextEl = Some c" "trim rt (val c) \<noteq> []"
    "jsonParse rt (val c) = Inl err" by simp_all
  show "sent (snd (startResearch_click rt nw s)) = sent s"
    by (rule startResearch_invalid_run(3) [OF a])
  show "\<forall>r. dom s researchResultEl = Some r \<longrightarrow>
            startResearch_click rt nw s =
              (Inr (), s\<lparr>dom := (dom s)(researchResultEl \<mapsto>
                 r\<lparr>children := [TextNode (''Invalid context JSON: '' @ message err)]\<rparr>)\<rparr>)"
    using startResearch_invalid_run(1) [OF a] by blast
  assume "dom s researchResultEl = None"
  then show "snd (startResearch_click rt nw s) = s"
    by (rule startResearch_invalid_run(2) [OF a])
next
  assume ne: "sent (snd (startResearch_click rt nw s)) \<noteq> sent s"
  show "dom s researchContextEl = None \<or>
        (\<exists>c. dom s researchContextEl = Some c \<and>
             (trim rt (val c) = [] \<or> (\<exists>v. jsonParse rt (val c) = Inr v)))"
  proof (cases "dom s researchContextEl")
    case None
    then show ?thesis by simp
  next
    case (Some c)
    show ?thesis
    proof (cases "trim rt (val c) = []")
      case True
      then show ?thesis using Some by simp
    next
      case False
      show ?thesis
      proof (cases "jsonParse rt (val c)")
        case (Inl err)
        then show ?thesis using startResearch_invalid_run(3) [OF Some False Inl] ne by simp
      next
        case (Inr v)
        then show ?thesis using Some by simp
      qed
    qed
  qed
qed

theorem startResearch_invalid_context_witness:
  "dom bad_context_page researchContextEl = Some (blank\<lparr>val := ''{oops''\<rparr>)
   \<and> trim sample_rt ''{oops'' \<noteq> []
   \<and> jsonParse sample_rt ''{oops'' = Inl (SyntaxError ''Unexpected token'')
   \<and> startResearch_click sample_rt empty_object_net bad_context_page =
       (Inr (), bad_context_page\<lparr>dom := (dom bad_context_page)(researchResultEl \<mapsto>
          blank\<lparr>children := [TextNode ''Invalid context JSON: Unexpected token'']\<rparr>)\<rparr>)
   \<and> sent (snd (startResearch_click sample_rt empty_object_net bad_context_page)) = []"
proof -
  have 1: "dom bad_context_page researchContextEl = Some (blank\<lparr>val := ''{oops''\<rparr>)"
    by (simp add: bad_context_page_def)
  have 2: "trim sample_rt ''{oops'' \<noteq> []"
    by (simp add: sample_rt_def sample_trim_def blank_char_def)
  have 3: "jsonParse sample_rt ''{oops'' = Inl (SyntaxError ''Unexpected token'')"
    by (simp add: sample_rt_def sample_jsonParse_def)
  have 4: "dom bad_context_page researchResultEl = Some blank"
    by (simp add: bad_context_page_def sample_elements_def core_elements_def handles)
  have 5: "sent bad_context_page = []"
    by (simp add: bad_context_page_def empty_page_def)
  from startResearch_invalid_context [of bad_context_page "blank\<lparr>val := ''{oops''\<rparr>" sample_rt
      "SyntaxError ''Unexpected token''" empty_object_net]
  show ?thesis using 1 2 3 4 5 by simp
qed


lemma startResearch_valid:
  assumes "(\<forall>c. dom s researchContextEl = Some c \<longrightarrow> trim rt (val c) = []) \<and> ctx = JObj [] \<or>
     (\<exists>c. dom s researchContextEl = Some c \<and> trim rt (val c) \<noteq> [] \<and>
          jsonParse rt (val c) = Inr ctx)"
  shows "startResearch_click rt nw s =
     and_then (set_textContent researchResultEl running_text) (\<lambda>_.
       try_catch
         (and_then (api nw ''/llm/research-campaign''
            (post (stringify rt
               (campaign_body (JStr (research_goal rt s)) (JStr (research_optimizationTarget rt s))
                  (JNum (research_targetValue rt s)) (JNum (research_maxSteps rt s)) ctx) 0)))
            (\<lambda>response.
          and_then (set_textContent researchResultEl (stringify rt response 2)) (\<lambda>_.
          and_then (set_textContent statusEl ''Research campaign completed.'') (\<lambda>_.
          spawn (refreshMetrics rt nw)))))
         (\<lambda>err. set_textContent researchResultEl (''Campaign error: '' @ message err))) s"
  using assms
proof (elim disjE conjE exE)
  assume "\<forall>c. dom s researchContextEl = Some c \<longrightarrow> trim rt (val c) = []" and "ctx = JObj []"
  then show ?thesis
    by (cases "dom s researchContextEl")
      (simp_all add: startResearch_click_def Let_def truthy_str_def opt_value_def and_then_def
        ret_def)
next
  fix c
  assume "dom s researchContextEl = Some c" and "trim rt (val c) \<noteq> []"
    and "jsonParse rt (val c) = Inr ctx"
  then show ?thesis
    by (simp add: startResearch_click_def Let_def truthy_str_def opt_value_def and_then_def
        try_catch_def get_value_present lift_def ret_def)
qed

lemma running_text_nodes: "text_nodes running_text = [TextNode running_text]"
  by (simp add: text_nodes_def running_text_def)

lemma metrics_only:
  "keeps (appends (\<lambda>r. url r = ''/api/metrics'')) (refreshMetrics rt nw)"
  by (intro keeps_refreshMetrics frame_appends keeps_api_appends) (simp add: api_request_def)

lemma startResearch_valid_sent:
  assumes "(\<forall>c. dom s researchContextEl = Some c \<longrightarrow> trim rt (val c) = []) \<and> ctx = JObj [] \<or>
     (\<exists>c. dom s researchContextEl = Some c \<and> trim rt (val c) \<noteq> [] \<and>
          jsonParse rt (val c) = Inr ctx)"
  shows "dom s researchResultEl = None \<Longrightarrow> sent (snd (startResearch_click rt nw s)) = sent s"
    and "dom s researchResultEl \<noteq> None \<Longrightarrow>
      \<exists>rest. sent (snd (startResearch_click rt nw s)) =
        sent s @
        api_request ''/llm/research-campaign''
          (post (stringify rt
             (campaign_body (JStr (research_goal rt s)) (JStr (research_optimizationTarget rt s))
                (JNum (research_targetValue rt s)) (JNum (research_maxSteps rt s)) ctx) 0)) # rest
        \<and> list_all (\<lambda>r. url r = ''/api/metrics'') rest"
proof -
  note run = startResearch_valid [OF assms]
  show "dom s researchResultEl = None \<Longrightarrow> sent (snd (startResearch_click rt nw s)) = sent s"
    by (simp add: run and_then_def set_textContent_absent)
  assume "dom s researchResultEl \<noteq> None"
  then obtain r where r: "dom s researchResultEl = Some r" by blast
  let ?s1 = "s\<lparr>dom := (dom s)(researchResultEl \<mapsto> r\<lparr>children := text_nodes running_text\<rparr>)\<rparr>"
  let ?M = "appends (\<lambda>r. url r = ''/api/metrics'')"
  let ?opts = "post (stringify rt
             (campaign_body (JStr (research_goal rt s)) (JStr (research_optimizationTarget rt s))
                (JNum (research_targetValue rt s)) (JNum (research_maxSteps rt s)) ctx) 0)"
  have "?M (?s1\<lparr>sent := sent ?s1 @ [api_request ''/llm/research-campaign'' ?opts]\<rparr>)
          (snd (startResearch_click rt nw s))"
    unfolding run
      and_then_Inr [where m = "set_textContent researchResultEl running_text" and s = s,
        OF set_textContent_present [OF r]]
    by (rule after_api [where R = ?M]) (intro keeps_rules metrics_only frame_appends)+
  then show "\<exists>rest. sent (snd (startResearch_click rt nw s)) =
        sent s @ api_request ''/llm/research-campaign'' ?opts # rest
        \<and> list_all (\<lambda>r. url r = ''/api/metrics'') rest"
    by (auto simp: appends_def)
qed


lemma or_string_nonempty: "d \<noteq> [] \<Longrightarrow> or_string x d \<noteq> []"
  by (simp add: or_string_def split: option.splits)

lemma or_num_not_NaN: "d \<noteq> NaN \<Longrightarrow> or_num n d \<noteq> NaN"
  by (simp add: or_num_def)

text \<open>
  Claim C9. Every request a click on the start button sends to
  /api/llm/research-campaign is the first request of the click, only
  GET /api/metrics follows, and its body is the serialization of an object
  with the five fields \<open>goal\<close>, \<open>optimization_target\<close>, \<open>target_value\<close>,
  \<open>max_steps\<close> and \<open>context\<close>; with a result element and a context field
  that is missing or blank the request is sent, with the empty object as
  context. The goal and the optimization target are never empty: a missing
  or blank goal field gives the default goal, which is the seven Cyrillic
  letters of the Russian word for \<open>reach\<close> (fourteen bytes in UTF-8:
  D0 94, D0 BE, D1 81, D1 82, D0 B8, D1 87, D1 8C) followed by
  \<open> topological_winding = 9.0000\<close>; a missing or blank target field gives
  \<open>topological_winding\<close>. The target value and the step count are never
  \<open>NaN\<close>: the target value is 0 when \<open>parseFloat\<close> yields \<open>NaN\<close>, and when
  the field is missing (as \<open>parseFloat\<close> of \<open>0\<close> is 0); the step count is 5
  when \<open>parseInt\<close> yields \<open>NaN\<close>.
\<close>

theorem research_campaign_body:
  "(sent (snd (startResearch_click rt nw s)) = sent s \<or>
    (\<exists>ctx rest.
       sent (snd (startResearch_click rt nw s)) =
         sent s @
         \<lparr>http_method = ''POST'', url = ''/api/llm/research-campaign'',
          headers = [(''Content-Type'', ''application/json'')],
          body = Some (stringify rt
            (JObj [(''goal'', JStr (research_goal rt s)),
                   (''optimization_target'', JStr (research_optimizationTarget rt s)),
                   (''target_value'', JNum (research_targetValue rt s)),
                   (''max_steps'', JNum (research_maxSteps rt s)),
                   (''context'', ctx)]) 0)\<rparr> # rest
       \<and> list_all (\<lambda>r. url r = ''/api/metrics'') rest
       \<and> ((\<forall>c. dom s researchContextEl = Some c \<longrightarrow> trim rt (val c) = []) \<longrightarrow> ctx = JObj [])))
   \<and> (dom s researchResultEl \<noteq> None \<and>
       (\<forall>c. dom s researchContextEl = Some c \<longrightarrow> trim rt (val c) = []) \<longrightarrow>
         sent (snd (startResearch_click rt nw s)) \<noteq> sent s)
   \<and> research_goal rt s \<noteq> [] \<and> research_optimizationTarget rt s \<noteq> []
   \<and> ((\<forall>e. dom s researchGoalEl = Some e \<longrightarrow> trim rt (val e) = []) \<longrightarrow>
         research_goal rt s =
           ([CHR 0xD0, CHR 0x94, CHR 0xD0, CHR 0xBE, CHR 0xD1, CHR 0x81, CHR 0xD1, CHR 0x82,
            CHR 0xD0, CHR 0xB8, CHR 0xD1, CHR 0x87, CHR 0xD1, CHR 0x8C]
           @ '' topological_winding = 9.0000''))
   \<and> ((\<forall>e. dom s researchTargetEl = Some e \<longrightarrow> trim rt (val e) = []) \<longrightarrow>
         research_optimizationTarget rt s = ''topological_winding'')
   \<and> research_targetValue rt s \<noteq> NaN
   \<and> (parseFloat rt (or_string (opt_value researchTargetValueEl s) ''0'') = NaN \<longrightarrow>
         research_targetValue rt s = Fin 0)
   \<and> (dom s researchTargetValueEl = None \<and> parseFloat rt ''0'' = Fin 0 \<longrightarrow>
         research_targetValue rt s = Fin 0)
   \<and> research_maxSteps rt s \<noteq> NaN
   \<and> (parseInt rt (or_string (opt_value researchStepsEl s) ''5'') (Some 10) = NaN \<longrightarrow>
         research_maxSteps rt s = Fin 5)"
proof -
  let ?s' = "snd (startResearch_click rt nw s)"
  let ?blank = "\<forall>c. dom s researchContextEl = Some c \<longrightarrow> trim rt (val c) = []"
  let ?req = "\<lambda>ctx. \<lparr>http_method = ''POST'', url = ''/api/llm/research-campaign'',
          headers = [(''Content-Type'', ''application/json'')],
          body = Some (stringify rt
            (JObj [(''goal'', JStr (research_goal rt s)),
                   (''optimization_target'', JStr (research_optimizationTarget rt s)),
                   (''target_value'', JNum (research_targetValue rt s)),
                   (''max_steps'', JNum (research_maxSteps rt s)),
                   (''context'', ctx)]) 0)\<rparr>"
  have req: "api_request ''/llm/research-campaign''
          (post (stringify rt
             (campaign_body (JStr (research_goal rt s)) (JStr (research_optimizationTarget rt s))
                (JNum (research_targetValue rt s)) (JNum (research_maxSteps rt s)) ctx) 0))
        = ?req ctx" for ctx
    by (simp add: api_request_def post_def campaign_body_def)
  have valid: "\<exists>rest. sent ?s' = sent s @ ?req ctx # rest \<and> list_all (\<lambda>r. url r = ''/api/metrics'') rest"
    if "?blank \<and> ctx = JObj [] \<or>
        (\<exists>c. dom s researchContextEl = Some c \<and> trim rt (val c) \<noteq> [] \<and>
          jsonParse rt (val c) = Inr ctx)"
      and "dom s researchResultEl \<noteq> None" for ctx
    using startResearch_valid_sent(2) [OF that] by (simp only: req)
  have 1: "sent ?s' = sent s \<or>
    (\<exists>ctx rest. sent ?s' = sent s @ ?req ctx # rest
       \<and> list_all (\<lambda>r. url r = ''/api/metrics'') rest \<and> (?blank \<longrightarrow> ctx = JObj []))"
  proof (cases "dom s researchResultEl = None")
    case True
    show ?thesis
    proof (cases "\<exists>c err. dom s researchContextEl = Some c \<and> trim rt (val c) \<noteq> [] \<and>
          jsonParse rt (val c) = Inl err")
      case True
      then show ?thesis using startResearch_invalid_run(3) by blast
    next
      case False
      then have "?blank \<and> JObj [] = JObj [] \<or>
        (\<exists>c. dom s researchContextEl = Some c \<and> trim rt (val c) \<noteq> [] \<and>
          jsonParse rt (val c) = Inr (case jsonParse rt (val (the (dom s researchContextEl))) of
             Inr v \<Rightarrow> v | Inl _ \<Rightarrow> JObj []))"
        by (cases "dom s researchContextEl"; cases "jsonParse rt (val (the (dom s researchContextEl)))")
          auto
      then show ?thesis
      proof
        assume "?blank \<and> JObj [] = JObj []"
        then show ?thesis using startResearch_valid_sent(1) [of s rt "JObj []", OF _ True] by blast
      next
        assume "\<exists>c. dom s researchContextEl = Some c \<and> trim rt (val c) \<noteq> [] \<and>
          jsonParse rt (val c) = Inr (case jsonParse rt (val (the (dom s researchContextEl))) of
             Inr v \<Rightarrow> v | Inl _ \<Rightarrow> JObj [])"
        then show ?thesis using startResearch_valid_sent(1) [OF _ True] by blast
      qed
    qed
  next
    case el: False
    show ?thesis
    proof (cases "dom s researchContextEl")
      case None
      then have b: ?blank by simp
      from valid [of "JObj []"] b el show ?thesis by blast
    next
      case (Some c)
      show ?thesis
      proof (cases "trim rt (val c) = []")
        case True
        then have b: ?blank using Some by simp
        from valid [of "JObj []"] b el show ?thesis by blast
      next
        case False
        then have nb: "\<not> ?blank" using Some by simp
        show ?thesis
        proof (cases "jsonParse rt (val c)")
          case (Inl err)
          then show ?thesis using startResearch_invalid_run(3) [OF Some False Inl] by simp
        next
          case (Inr v)
          then have "\<exists>c. dom s researchContextEl = Some c \<and> trim rt (val c) \<noteq> [] \<and>
             jsonParse rt (val c) = Inr v" using Some False by blast
          from valid [of v] this el nb show ?thesis by blast
        qed
      qed
    qed
  qed
  have 2: "dom s researchResultEl \<noteq> None \<and> ?blank \<longrightarrow> sent ?s' \<noteq> sent s"
  proof
    assume "dom s researchResultEl \<noteq> None \<and> ?blank"
    then obtain rest where "sent ?s' = sent s @ ?req (JObj []) # rest"
      using valid [of "JObj []"] by blast
    then show "sent ?s' \<noteq> sent s" by simp
  qed
  have 3: "research_goal rt s \<noteq> []" "research_optimizationTarget rt s \<noteq> []"
    by (simp_all add: research_goal_def research_optimizationTarget_def or_string_nonempty
          default_goal_def)
  have 4: "(\<forall>e. dom s researchGoalEl = Some e \<longrightarrow> trim rt (val e) = []) \<longrightarrow>
         research_goal rt s =
           ([CHR 0xD0, CHR 0x94, CHR 0xD0, CHR 0xBE, CHR 0xD1, CHR 0x81, CHR 0xD1, CHR 0x82,
            CHR 0xD0, CHR 0xB8, CHR 0xD1, CHR 0x87, CHR 0xD1, CHR 0x8C]
           @ '' topological_winding = 9.0000'')"
    by (cases "dom s researchGoalEl")
      (simp_all add: research_goal_def or_string_def opt_value_def default_goal_def)
  have 5: "(\<forall>e. dom s researchTargetEl = Some e \<longrightarrow> trim rt (val e) = []) \<longrightarrow>
         research_optimizationTarget rt s = ''topological_winding''"
    by (cases "dom s researchTargetEl")
      (simp_all add: research_optimizationTarget_def or_string_def opt_value_def)
  have 6: "research_targetValue rt s \<noteq> NaN" "research_maxSteps rt s \<noteq> NaN"
    by (simp_all add: research_targetValue_def research_maxSteps_def or_num_not_NaN)
  have 7: "parseFloat rt (or_string (opt_value researchTargetValueEl s) ''0'') = NaN \<longrightarrow>
         research_targetValue rt s = Fin 0"
    by (simp add: research_targetValue_def or_num_def)
  have 8: "dom s researchTargetValueEl = None \<and> parseFloat rt ''0'' = Fin 0 \<longrightarrow>
         research_targetValue rt s = Fin 0"
    by (simp add: research_targetValue_def or_num_def or_string_def opt_value_def)
  have 9: "parseInt rt (or_string (opt_value researchStepsEl s) ''5'') (Some 10) = NaN \<longrightarrow>
         research_maxSteps rt s = Fin 5"
    by (simp add: research_maxSteps_def or_num_def)
  show ?thesis using 1 2 3 4 5 6 7 8 9 by (intro conjI)
qed


theorem research_campaign_body_witness:
  "dom sample_page researchResultEl \<noteq> None
   \<and> dom sample_page researchContextEl = Some blank
   \<and> dom sample_page researchGoalEl = Some (blank\<lparr>val := ''   ''\<rparr>)
   \<and> dom sample_page researchTargetEl = Some blank
   \<and> trim sample_rt (val blank) = [] \<and> trim sample_rt ''   '' = []
   \<and> parseFloat sample_rt (or_string (opt_value researchTargetValueEl sample_page) ''0'') = NaN
   \<and> parseInt sample_rt (or_string (opt_value researchStepsEl sample_page) ''5'') (Some 10) = NaN
   \<and> dom empty_page researchTargetValueEl = None \<and> parseFloat sample_rt ''0'' = Fin 0
   \<and> research_targetValue sample_rt empty_page = Fin 0
   \<and> (\<exists>rest.
         sent (snd (startResearch_click sample_rt empty_object_net sample_page)) =
           \<lparr>http_method = ''POST'', url = ''/api/llm/research-campaign'',
            headers = [(''Content-Type'', ''application/json'')],
            body = Some (stringify sample_rt
              (JObj [(''goal'', JStr
                       ([CHR 0xD0, CHR 0x94, CHR 0xD0, CHR 0xBE, CHR 0xD1, CHR 0x81, CHR 0xD1, CHR 0x82,
            CHR 0xD0, CHR 0xB8, CHR 0xD1, CHR 0x87, CHR 0xD1, CHR 0x8C]
           @ '' topological_winding = 9.0000'')),
                     (''optimization_target'', JStr ''topological_winding''),
                     (''target_value'', JNum (Fin 0)),
                     (''max_steps'', JNum (Fin 5)),
                     (''context'', JObj [])]) 0)\<rparr> # rest
         \<and> list_all (\<lambda>r. url r = ''/api/metrics'') rest)"
proof -
  have el: "dom sample_page researchResultEl \<noteq> None"
    "dom sample_page researchContextEl = Some blank"
    "dom sample_page researchGoalEl = Some (blank\<lparr>val := ''   ''\<rparr>)"
    "dom sample_page researchTargetEl = Some blank"
    "opt_value researchTargetValueEl sample_page = Some ''abc''"
    "opt_value researchStepsEl sample_page = Some ''x''"
    by (simp_all add: sample_page_def sample_elements_def core_elements_def handles opt_value_def)
  have tr: "trim sample_rt (val blank) = []" "trim sample_rt ''   '' = []"
    by (simp_all add: sample_rt_def sample_trim_def blank_char_def blank_def)
  have h: "\<forall>c. dom sample_page researchContextEl = Some c \<longrightarrow> trim sample_rt (val c) = []"
    "\<forall>e. dom sample_page researchGoalEl = Some e \<longrightarrow> trim sample_rt (val e) = []"
    "\<forall>e. dom sample_page researchTargetEl = Some e \<longrightarrow> trim sample_rt (val e) = []"
    "parseFloat sample_rt (or_string (opt_value researchTargetValueEl sample_page) ''0'') = NaN"
    "parseInt sample_rt (or_string (opt_value researchStepsEl sample_page) ''5'') (Some 10) = NaN"
    using el tr by (simp_all add: or_string_def sample_rt_def sample_parse_values)
  have m: "dom empty_page researchTargetValueEl = None" "parseFloat sample_rt ''0'' = Fin 0"
    "sent sample_page = []"
    by (simp_all add: empty_page_def sample_rt_def sample_parse_values sample_page_def)
  note t = research_campaign_body [of sample_rt empty_object_net sample_page]
  note t0 = research_campaign_body [of sample_rt empty_object_net empty_page]
  have v: "research_goal sample_rt sample_page =
           ([CHR 0xD0, CHR 0x94, CHR 0xD0, CHR 0xBE, CHR 0xD1, CHR 0x81, CHR 0xD1, CHR 0x82,
            CHR 0xD0, CHR 0xB8, CHR 0xD1, CHR 0x87, CHR 0xD1, CHR 0x8C]
           @ '' topological_winding = 9.0000'')"
    "research_optimizationTarget sample_rt sample_page = ''topological_winding''"
    "research_targetValue sample_rt sample_page = Fin 0"
    "research_maxSteps sample_rt sample_page = Fin 5"
    "research_targetValue sample_rt empty_page = Fin 0"
    using t t0 h m by blast+
  have "sent (snd (startResearch_click sample_rt empty_object_net sample_page)) \<noteq> sent sample_page"
    using t el(1) h(1) by blast
  then have "\<exists>ctx rest.
       sent (snd (startResearch_click sample_rt empty_object_net sample_page)) =
         sent sample_page @
         \<lparr>http_method = ''POST'', url = ''/api/llm/research-campaign'',
          headers = [(''Content-Type'', ''application/json'')],
          body = Some (stringify sample_rt
            (JObj [(''goal'', JStr (research_goal sample_rt sample_page)),
                   (''optimization_target'', JStr (research_optimizationTarget sample_rt sample_page)),
                   (''target_value'', JNum (research_targetValue sample_rt sample_page)),
                   (''max_steps'', JNum (research_maxSteps sample_rt sample_page)),
                   (''context'', ctx)]) 0)\<rparr> # rest
       \<and> list_all (\<lambda>r. url r = ''/api/metrics'') rest
       \<and> ((\<forall>c. dom sample_page researchContextEl = Some c \<longrightarrow> trim sample_rt (val c) = [])
            \<longrightarrow> ctx = JObj [])"
    using t by blast
  then have "\<exists>rest.
         sent (snd (startResearch_click sample_rt empty_object_net sample_page)) =
           \<lparr>http_method = ''POST'', url = ''/api/llm/research-campaign'',
            headers = [(''Content-Type'', ''application/json'')],
            body = Some (stringify sample_rt
              (JObj [(''goal'', JStr
                       ([CHR 0xD0, CHR 0x94, CHR 0xD0, CHR 0xBE, CHR 0xD1, CHR 0x81, CHR 0xD1, CHR 0x82,
            CHR 0xD0, CHR 0xB8, CHR 0xD1, CHR 0x87, CHR 0xD1, CHR 0x8C]
           @ '' topological_winding = 9.0000'')),
                     (''optimization_target'', JStr ''topological_winding''),
                     (''target_value'', JNum (Fin 0)),
                     (''max_steps'', JNum (Fin 5)),
                     (''context'', JObj [])]) 0)\<rparr> # rest
         \<and> list_all (\<lambda>r. url r = ''/api/metrics'') rest"
    using h(1) by (auto simp: v m(3))
  then show ?thesis using el(1-4) tr h(4,5) m(1,2) v(5) by (intro conjI)
qed

section \<open>What every event keeps\<close>

lemma known_requests:
  "known (api_request ''/metrics'' no_options)"
  "known (api_request ''/tasks'' no_options)"
  "known (api_request ''/tasks'' (post b))"
  "known (api_request (''/tasks/'' @ t) no_options)"
  "known (api_request ''/visualization/packet'' no_options)"
  "known (api_request ''/visualization/hopfion-field'' no_options)"
  "known (api_request ''/llm/query'' (post b))"
  "known (api_request ''/llm/research-campaign'' (post b))"
  "known (api_request ''/llm/plan-eqgft-task'' (post b))"
  by (simp_all add: known_def endpoint_of_def api_request_def no_options_def post_def)

lemma respected_frame: "respected R \<Longrightarrow> frame R"
  by (simp add: respected_def)

lemma respected_api:
  "respected R \<Longrightarrow> known (api_request path opts) \<Longrightarrow> keeps R (api nw path opts)"
  by (simp add: respected_def)

lemma respected_setInterval: "respected R \<Longrightarrow> keeps R (setInterval tid 1000)"
  by (simp add: respected_def)

lemma respected_refreshes:
  assumes "respected R"
  shows "keeps R (refreshMetrics rt nw)"
    and "keeps R (refreshTasks rt nw)"
    and "keeps R (refreshViz rt nw)"
    and "keeps R (refreshHopfionField rt nw)"
  by (intro keeps_refreshMetrics keeps_refreshTasks keeps_refreshViz keeps_refreshHopfionField
        respected_frame [OF assms] respected_api [OF assms] known_requests)+

lemma keeps_case_option:
  "keeps R a \<Longrightarrow> (\<And>x. keeps R (b x)) \<Longrightarrow> keeps R (case v of None \<Rightarrow> a | Some x \<Rightarrow> b x)"
  by (cases v) simp_all

lemma respected_load: "respected R \<Longrightarrow> keeps R (load rt nw)"
  unfolding load_def
  by (intro keeps_rules respected_refreshes respected_frame) assumption+

lemma respected_submitTask:
  assumes "respected R"
  shows "keeps R (submitTask_click rt nw)"
  unfolding submitTask_click_def
  by (intro keeps_rules keeps_case_option respected_refreshes [OF assms] respected_frame [OF assms]
        respected_api [OF assms] known_requests)

lemma respected_refreshMetrics_click:
  assumes "respected R"
  shows "keeps R (refreshMetrics_click rt nw)"
  unfolding refreshMetrics_click_def
  by (intro keeps_rules keeps_case_option respected_refreshes [OF assms] respected_frame [OF assms]
        respected_api [OF assms] known_requests)

lemma respected_llmQuery:
  assumes "respected R"
  shows "keeps R (llmQuery_click rt nw)"
  unfolding llmQuery_click_def
  by (intro keeps_rules keeps_case_option respected_refreshes [OF assms] respected_frame [OF assms]
        respected_api [OF assms] known_requests)

lemma respected_vizType:
  assumes "respected R"
  shows "keeps R eqgftVizType_change"
  unfolding eqgftVizType_change_def
  by (intro keeps_rules keeps_case_option respected_frame [OF assms])

lemma respected_eqgftRun:
  assumes "respected R"
  shows "keeps R (eqgftRun_click rt nw)"
  unfolding eqgftRun_click_def Let_def
  by (intro keeps_rules keeps_case_option respected_refreshes [OF assms] respected_frame [OF assms]
        respected_api [OF assms] known_requests)

lemma respected_eqgftSendLlm:
  assumes "respected R"
  shows "keeps R (eqgftSendLlm_click rt nw)"
  unfolding eqgftSendLlm_click_def
  by (intro keeps_rules keeps_case_option respected_refreshes [OF assms] respected_frame [OF assms]
        respected_api [OF assms] respected_setInterval [OF assms] known_requests)

lemma respected_startResearch:
  assumes "respected R"
  shows "keeps R (startResearch_click rt nw)"
  unfolding keeps_def
proof
  fix s
  let ?M = "and_then
           (if truthy_str (map_option (trim rt) (opt_value researchContextEl s)) then
              try_catch
                (and_then (get_value researchContextEl) (\<lambda>v.
                 and_then (lift (jsonParse rt v)) (\<lambda>c. ret (Some c))))
                (\<lambda>err.
                 and_then (set_textContent researchResultEl
                             (''Invalid context JSON: '' @ message err)) (\<lambda>_. ret None))
            else ret (Some (JObj [])))
           (\<lambda>parsed. case parsed of
              None \<Rightarrow> ret ()
            | Some contextPayload \<Rightarrow>
                and_then (set_textContent researchResultEl running_text) (\<lambda>_.
                try_catch
                  (and_then (api nw ''/llm/research-campaign''
                     (post (stringify rt
                        (campaign_body (JStr (research_goal rt s))
                           (JStr (research_optimizationTarget rt s))
                           (JNum (research_targetValue rt s))
                           (JNum (research_maxSteps rt s)) contextPayload) 0))) (\<lambda>response.
                   and_then (set_textContent researchResultEl (stringify rt response 2)) (\<lambda>_.
                   and_then (set_textContent statusEl ''Research campaign completed.'') (\<lambda>_.
                   spawn (refreshMetrics rt nw)))))
                  (\<lambda>err. set_textContent researchResultEl
                            (''Campaign error: '' @ message err))))"
  have "keeps R ?M"
    by (intro keeps_rules keeps_case_option respected_refreshes [OF assms]
          respected_frame [OF assms] respected_api [OF assms] known_requests)
  then have "R s (snd (?M s))"
    unfolding keeps_def by (rule spec)
  moreover have "startResearch_click rt nw s = ?M s"
    by (simp only: startResearch_click_def Let_def)
  ultimately show "R s (snd (startResearch_click rt nw s))"
    by (simp only:)
qed

lemma respected_listener:
  assumes "respected R" and "keeps R h"
  shows "R s (listener btn h s)"
  using keeps_spawn [OF respected_frame [OF assms(1)] assms(2)]
  by (simp add: listener_def keeps_def frame_refl [OF respected_frame [OF assms(1)]])

lemma respected_late_listener:
  assumes "respected R" and "keeps R h"
  shows "R s (late_listener btn h s)"
  by (simp add: late_listener_def respected_listener [OF assms]
        frame_refl [OF respected_frame [OF assms(1)]])

text \<open>The rest of the polling callback, given what cancelling does.\<close>

lemma respected_poll_resume:
  assumes "respected R" and "keeps R (clearInterval h)"
  shows "keeps R (poll_resume rt nw h tid)"
  unfolding poll_resume_def
  by (intro keeps_rules respected_refreshes [OF assms(1)] respected_frame [OF assms(1)] assms(2))

text \<open>Every event keeps a respected frame that the two timer events keep.\<close>

lemma respected_fire:
  assumes "respected R"
    and "\<And>h. ev = TimerFires h \<Longrightarrow> R s (timer_fires rt h s)"
    and "\<And>h. ev = PollAnswered h \<Longrightarrow> R s (poll_answered rt nw h s)"
  shows "R s (fire rt nw ev s)"
proof (cases ev)
  case Load
  then show ?thesis
    using keeps_spawn [OF respected_frame [OF assms(1)] respected_load [OF assms(1)], of rt nw]
    by (simp add: keeps_def)
next
  case (TimerFires h)
  then show ?thesis using assms(2) by simp
next
  case (PollAnswered h)
  then show ?thesis using assms(3) by simp
qed (simp_all add: respected_listener [OF assms(1)] respected_late_listener [OF assms(1)]
      respected_submitTask [OF assms(1)] respected_startResearch [OF assms(1)]
      respected_refreshMetrics_click [OF assms(1)] respected_llmQuery [OF assms(1)]
      respected_vizType [OF assms(1)] respected_eqgftRun [OF assms(1)]
      respected_eqgftSendLlm [OF assms(1)])

section \<open>The requests of the client\<close>




lemma timer_fires_idle:
  "\<not> (h < length (timers s) \<and> active (timers s ! h)) \<Longrightarrow> timer_fires rt h s = s"
  unfolding timer_fires_def by (rule if_not_P)

lemma timer_fires_active:
  "h < length (timers s) \<and> active (timers s ! h) \<Longrightarrow>
   timer_fires rt h s =
     s\<lparr>sent := sent s @
            [api_request (''/tasks/'' @ template rt (task_id (timers s ! h))) no_options],
       timers := (timers s)[h := (timers s ! h)\<lparr>in_flight := Suc (in_flight (timers s ! h))\<rparr>]\<rparr>"
  unfolding timer_fires_def by (rule if_P)

lemma poll_answered_idle:
  "\<not> (h < length (timers s) \<and> 0 < in_flight (timers s ! h)) \<Longrightarrow> poll_answered rt nw h s = s"
  unfolding poll_answered_def by (rule if_not_P)

lemma poll_answered_awaited:
  "h < length (timers s) \<and> 0 < in_flight (timers s ! h) \<Longrightarrow>
   poll_answered rt nw h s =
     snd (spawn (poll_resume rt nw h (task_id (timers s ! h)))
            (s\<lparr>timers :=
                 (timers s)[h := (timers s ! h)\<lparr>in_flight := in_flight (timers s ! h) - 1\<rparr>]\<rparr>))"
  unfolding poll_answered_def by (rule if_P)














lemma run_snoc: "run rt (evs @ [(nw, ev)]) s = fire rt nw ev (run rt evs s)"
  by (induction evs arbitrary: s) auto








section \<open>The polling timer\<close>

lemma sent_spawn: "sent (snd (spawn m s)) = sent (snd (m s))"
  by (simp add: spawn_def split: prod.splits sum.splits)

lemma timers_spawn: "timers (snd (spawn m s)) = timers (snd (m s))"
  by (simp add: spawn_def split: prod.splits sum.splits)

lemma spawn_succeeds: "fst (spawn m s) = Inr ()"
  by (simp add: spawn_def split: prod.splits sum.splits)

lemma appends_nothing: "appends (\<lambda>_. False) s s' \<longleftrightarrow> sent s' = sent s"
proof
  assume "appends (\<lambda>_. False) s s'"
  then obtain rest where r: "sent s' = sent s @ rest" "list_all (\<lambda>_. False) rest"
    by (auto simp: appends_def)
  then have "rest = []" by (cases rest) simp_all
  then show "sent s' = sent s" using r by simp
next
  assume "sent s' = sent s"
  then show "appends (\<lambda>_. False) s s'" by (simp add: appends_def)
qed

lemma sent_refreshMetrics:
  "sent (snd (refreshMetrics rt nw s)) = sent s @ [api_request ''/metrics'' no_options]"
proof -
  have "appends (\<lambda>_. False) (s\<lparr>sent := sent s @ [api_request ''/metrics'' no_options]\<rparr>)
          (snd (refreshMetrics rt nw s))"
    unfolding refreshMetrics_def
    by (rule after_api [where R = "appends (\<lambda>_. False)"])
      (intro keeps_rules keeps_updatePhysicsConstants frame_appends)+
  then show ?thesis by (simp add: appends_nothing)
qed

lemma sent_refreshViz:
  "sent (snd (refreshViz rt nw s)) = sent s @ [api_request ''/visualization/packet'' no_options]"
proof -
  have "appends (\<lambda>_. False)
          (s\<lparr>sent := sent s @ [api_request ''/visualization/packet'' no_options]\<rparr>)
          (snd (refreshViz rt nw s))"
    unfolding refreshViz_def
    by (rule after_api [where R = "appends (\<lambda>_. False)"])
      (intro keeps_rules frame_appends)+
  then show ?thesis by (simp add: appends_nothing)
qed

lemma refresh_pair:
  "sent (snd (and_then (spawn (refreshMetrics rt nw)) (\<lambda>_. spawn (refreshViz rt nw)) s)) =
     sent s @ [api_request ''/metrics'' no_options, api_request ''/visualization/packet'' no_options]"
  "timers (snd (and_then (spawn (refreshMetrics rt nw)) (\<lambda>_. spawn (refreshViz rt nw)) s)) =
     timers s"
proof -
  obtain r s1 where a: "spawn (refreshMetrics rt nw) s = (r, s1)"
    by (cases "spawn (refreshMetrics rt nw) s")
  have r: "r = Inr ()" using spawn_succeeds [of "refreshMetrics rt nw" s] a by simp
  have s1: "sent s1 = sent s @ [api_request ''/metrics'' no_options]"
    using sent_spawn [of "refreshMetrics rt nw" s] a by (simp add: sent_refreshMetrics)
  have "keeps same_timers (refreshMetrics rt nw)"
    by (intro keeps_refreshMetrics frame_same_timers keeps_api_timers)
  then have t1: "timers s1 = timers s"
    using timers_spawn [of "refreshMetrics rt nw" s] a by (simp add: keeps_def same_timers_def)
  have e: "and_then (spawn (refreshMetrics rt nw)) (\<lambda>_. spawn (refreshViz rt nw)) s
      = spawn (refreshViz rt nw) s1"
    using a r by (simp add: and_then_def)
  show "sent (snd (and_then (spawn (refreshMetrics rt nw)) (\<lambda>_. spawn (refreshViz rt nw)) s)) =
     sent s @ [api_request ''/metrics'' no_options, api_request ''/visualization/packet'' no_options]"
    by (simp add: e sent_spawn sent_refreshViz s1)
  have "keeps same_timers (refreshViz rt nw)"
    by (intro keeps_refreshViz frame_same_timers keeps_api_timers)
  then show "timers (snd (and_then (spawn (refreshMetrics rt nw)) (\<lambda>_. spawn (refreshViz rt nw)) s)) =
     timers s"
    by (simp add: e timers_spawn t1 keeps_def same_timers_def)
qed

lemma after_completed:
  "timers (snd (and_then (set_textContent statusEl t) (\<lambda>_.
       and_then (spawn (refreshMetrics rt nw)) (\<lambda>_. spawn (refreshViz rt nw))) s)) = timers s"
  "dom s statusEl \<noteq> None \<Longrightarrow>
   sent (snd (and_then (set_textContent statusEl t) (\<lambda>_.
       and_then (spawn (refreshMetrics rt nw)) (\<lambda>_. spawn (refreshViz rt nw))) s)) =
     sent s @ [api_request ''/metrics'' no_options, api_request ''/visualization/packet'' no_options]"
proof -
  let ?k = "and_then (spawn (refreshMetrics rt nw)) (\<lambda>_. spawn (refreshViz rt nw))"
  have absent: "and_then (set_textContent statusEl t) (\<lambda>_. ?k) s
      = (Inl (TypeError ''Cannot set properties of null''), s)" if "dom s statusEl = None"
    using that by (rule and_then_Inl [OF set_textContent_absent])
  have present: "and_then (set_textContent statusEl t) (\<lambda>_. ?k) s
      = ?k (s\<lparr>dom := (dom s)(statusEl \<mapsto> e\<lparr>children := text_nodes t\<rparr>)\<rparr>)"
    if "dom s statusEl = Some e" for e
    using and_then_Inr [where m = "set_textContent statusEl t" and s = s,
        OF set_textContent_present [OF that]] .
  show "timers (snd (and_then (set_textContent statusEl t) (\<lambda>_. ?k) s)) = timers s"
  proof (cases "dom s statusEl")
    case None
    then show ?thesis by (simp only: absent snd_conv)
  next
    case (Some e)
    then show ?thesis by (simp only: present refresh_pair) simp
  qed
  show "sent (snd (and_then (set_textContent statusEl t) (\<lambda>_. ?k) s)) =
     sent s @ [api_request ''/metrics'' no_options, api_request ''/visualization/packet'' no_options]"
    if "dom s statusEl \<noteq> None"
  proof -
    from that obtain e where "dom s statusEl = Some e" by blast
    then show ?thesis by (simp only: present refresh_pair) simp
  qed
qed

subsection \<open>The rest of the callback\<close>

lemma poll_resume_rejected:
  assumes "api_result nw (''/tasks/'' @ template rt tid) no_options = Inl e"
  shows "poll_resume rt nw h tid s = (Inl e, s)"
  using assms by (simp add: poll_resume_def and_then_def lift_def)

lemma poll_resume_no_status:
  assumes "api_result nw (''/tasks/'' @ template rt tid) no_options = Inr status"
    and "get_prop status ''status'' = Inl e"
  shows "poll_resume rt nw h tid s = (Inl e, s)"
  using assms by (simp add: poll_resume_def and_then_def lift_def)

lemma poll_resume_pending:
  assumes "api_result nw (''/tasks/'' @ template rt tid) no_options = Inr status"
    and "get_prop status ''status'' = Inr st" and "st \<noteq> JStr ''Completed''"
  shows "poll_resume rt nw h tid s = (Inr (), s)"
  using assms by (simp add: poll_resume_def and_then_def lift_def ret_def)

lemma poll_resume_completed:
  assumes "poll_completed rt nw tid" and "h < length (timers s)"
  shows "poll_resume rt nw h tid s =
     and_then (set_textContent statusEl ''EQGFT task completed.'') (\<lambda>_.
       and_then (spawn (refreshMetrics rt nw)) (\<lambda>_. spawn (refreshViz rt nw)))
       (s\<lparr>timers := (timers s)[h := (timers s ! h)\<lparr>active := False\<rparr>]\<rparr>)"
proof -
  from assms(1) obtain status where
    "api_result nw (''/tasks/'' @ template rt tid) no_options = Inr status"
    and "get_prop status ''status'' = Inr (JStr ''Completed'')"
    by (auto simp: poll_completed_def split: sum.splits)
  then show ?thesis
    using assms(2) by (simp add: poll_resume_def and_then_def lift_def clearInterval_def)
qed

lemma poll_resume_not_completed:
  assumes "\<not> poll_completed rt nw tid"
  shows "snd (poll_resume rt nw h tid s) = s"
proof (cases "api_result nw (''/tasks/'' @ template rt tid) no_options")
  case (Inl e)
  then show ?thesis by (simp add: poll_resume_rejected)
next
  case status: (Inr status)
  show ?thesis
  proof (cases "get_prop status ''status''")
    case (Inl e)
    then show ?thesis using status by (simp add: poll_resume_no_status)
  next
    case (Inr st)
    then have "st \<noteq> JStr ''Completed''"
      using assms status by (auto simp: poll_completed_def)
    then show ?thesis using status Inr by (simp add: poll_resume_pending)
  qed
qed

subsection \<open>The arrival of an answer\<close>

lemma poll_answered_pending:
  assumes "h < length (timers s) \<and> 0 < in_flight (timers s ! h)"
    and "\<not> poll_completed rt nw (task_id (timers s ! h))"
  shows "timers (poll_answered rt nw h s) =
           (timers s)[h := (timers s ! h)\<lparr>in_flight := in_flight (timers s ! h) - 1\<rparr>]"
    and "sent (poll_answered rt nw h s) = sent s"
  unfolding poll_answered_awaited [OF assms(1)] timers_spawn sent_spawn
    poll_resume_not_completed [OF assms(2)]
  by simp_all

lemma poll_answered_completed:
  assumes "h < length (timers s) \<and> 0 < in_flight (timers s ! h)"
    and "poll_completed rt nw (task_id (timers s ! h))"
  shows "timers (poll_answered rt nw h s) =
           (timers s)[h := (timers s ! h)\<lparr>in_flight := in_flight (timers s ! h) - 1,
                                             active := False\<rparr>]"
    and "dom s statusEl \<noteq> None \<Longrightarrow> sent (poll_answered rt nw h s) =
           sent s @ [api_request ''/metrics'' no_options,
                     api_request ''/visualization/packet'' no_options]"
proof -
  let ?s1 = "s\<lparr>timers :=
      (timers s)[h := (timers s ! h)\<lparr>in_flight := in_flight (timers s ! h) - 1\<rparr>]\<rparr>"
  have l: "h < length (timers ?s1)" using assms(1) by simp
  note run = poll_resume_completed [OF assms(2) l]
  show "timers (poll_answered rt nw h s) =
           (timers s)[h := (timers s ! h)\<lparr>in_flight := in_flight (timers s ! h) - 1,
                                             active := False\<rparr>]"
    unfolding poll_answered_awaited [OF assms(1)] timers_spawn run after_completed(1)
    using assms(1) by simp
  show "sent (poll_answered rt nw h s) =
           sent s @ [api_request ''/metrics'' no_options,
                     api_request ''/visualization/packet'' no_options]"
    if "dom s statusEl \<noteq> None"
  proof -
    have "dom (?s1\<lparr>timers := (timers ?s1)[h := (timers ?s1 ! h)\<lparr>active := False\<rparr>]\<rparr>) statusEl
        \<noteq> None"
      using that by simp
    from after_completed(2) [OF this, of "''EQGFT task completed.''" rt nw]
    show ?thesis
      unfolding poll_answered_awaited [OF assms(1)] sent_spawn run by simp
  qed
qed

lemma poll_answered_timers:
  assumes "h < length (timers s) \<and> 0 < in_flight (timers s ! h)"
  shows "timers (poll_answered rt nw h s) =
           (timers s)[h := (timers s ! h)\<lparr>in_flight := in_flight (timers s ! h) - 1,
              active := active (timers s ! h) \<and> \<not> poll_completed rt nw (task_id (timers s ! h))\<rparr>]"
proof (cases "poll_completed rt nw (task_id (timers s ! h))")
  case True
  then show ?thesis by (simp add: poll_answered_completed(1) [OF assms])
next
  case False
  have "(timers s ! h)\<lparr>in_flight := in_flight (timers s ! h) - 1, active := active (timers s ! h)\<rparr>
      = (timers s ! h)\<lparr>in_flight := in_flight (timers s ! h) - 1\<rparr>"
    by simp
  then show ?thesis using False by (simp add: poll_answered_pending(1) [OF assms])
qed

subsection \<open>What the events keep of a timer\<close>

lemma frame_same_slot: "frame (same_slot h)"
  unfolding frame_def same_slot_def by auto

lemma frame_kept_slot: "frame (kept_slot h)"
  unfolding frame_def kept_slot_def by auto

lemma respected_same_slot: "respected (same_slot h)"
  unfolding respected_def
  by (simp add: frame_same_slot) (simp add: keeps_def same_slot_def api_def setInterval_def nth_append)

lemma respected_kept_slot: "respected (kept_slot h)"
  unfolding respected_def
  by (simp add: frame_kept_slot) (simp add: keeps_def kept_slot_def api_def setInterval_def nth_append)

lemma same_slot_in_flight:
  "same_slot h s (s\<lparr>timers := (timers s)[k := (timers s ! k)\<lparr>in_flight := n\<rparr>]\<rparr>)"
  by (cases "k = h") (simp_all add: same_slot_def)

lemma kept_slot_in_flight:
  "kept_slot h s (s\<lparr>timers := (timers s)[k := (timers s ! k)\<lparr>in_flight := n\<rparr>]\<rparr>)"
  by (cases "k = h") (simp_all add: kept_slot_def)

lemma same_slot_sent: "same_slot h s s' \<Longrightarrow> same_slot h s (s'\<lparr>sent := x\<rparr>)"
  by (simp add: same_slot_def)

lemma kept_slot_sent: "kept_slot h s s' \<Longrightarrow> kept_slot h s (s'\<lparr>sent := x\<rparr>)"
  by (simp add: kept_slot_def)

lemma same_slot_timer_fires: "same_slot h s (timer_fires rt k s)"
proof (cases "k < length (timers s) \<and> active (timers s ! k)")
  case True
  show ?thesis
    unfolding timer_fires_active [OF True]
    by (cases "k = h") (simp_all add: same_slot_def)
next
  case False
  show ?thesis
    unfolding timer_fires_idle [OF False] by (rule frame_refl [OF frame_same_slot])
qed

lemma kept_slot_timer_fires: "kept_slot h s (timer_fires rt k s)"
proof (cases "k < length (timers s) \<and> active (timers s ! k)")
  case True
  show ?thesis
    unfolding timer_fires_active [OF True]
    by (cases "k = h") (simp_all add: kept_slot_def)
next
  case False
  show ?thesis
    unfolding timer_fires_idle [OF False] by (rule frame_refl [OF frame_kept_slot])
qed

lemma keeps_clearInterval_other: "k \<noteq> h \<Longrightarrow> keeps (same_slot h) (clearInterval k)"
  by (simp add: keeps_def clearInterval_def same_slot_def)

lemma keeps_clearInterval_kept: "keeps (kept_slot h) (clearInterval k)"
  unfolding keeps_def clearInterval_def kept_slot_def
  by (cases "k = h") simp_all

lemma kept_slot_poll_answered: "kept_slot h s (poll_answered rt nw k s)"
proof (cases "k < length (timers s) \<and> 0 < in_flight (timers s ! k)")
  case True
  let ?s1 = "s\<lparr>timers :=
      (timers s)[k := (timers s ! k)\<lparr>in_flight := in_flight (timers s ! k) - 1\<rparr>]\<rparr>"
  have "keeps (kept_slot h) (spawn (poll_resume rt nw k (task_id (timers s ! k))))"
    by (intro keeps_spawn frame_kept_slot respected_poll_resume respected_kept_slot
          keeps_clearInterval_kept)
  then have "kept_slot h ?s1 (snd (spawn (poll_resume rt nw k (task_id (timers s ! k))) ?s1))"
    unfolding keeps_def by (rule spec)
  with kept_slot_in_flight [of h s k "in_flight (timers s ! k) - 1"]
  show ?thesis
    unfolding poll_answered_awaited [OF True] by (rule frame_trans [OF frame_kept_slot])
next
  case False
  show ?thesis
    unfolding poll_answered_idle [OF False] by (rule frame_refl [OF frame_kept_slot])
qed

lemma same_slot_poll_answered:
  assumes "k = h \<longrightarrow> \<not> poll_completed rt nw (task_id (timers s ! h))"
  shows "same_slot h s (poll_answered rt nw k s)"
proof (cases "k < length (timers s) \<and> 0 < in_flight (timers s ! k)")
  case True
  let ?s1 = "s\<lparr>timers :=
      (timers s)[k := (timers s ! k)\<lparr>in_flight := in_flight (timers s ! k) - 1\<rparr>]\<rparr>"
  have 1: "same_slot h s ?s1" by (rule same_slot_in_flight)
  have 2: "same_slot h ?s1 (snd (spawn (poll_resume rt nw k (task_id (timers s ! k))) ?s1))"
  proof (cases "k = h")
    case True
    then have "\<not> poll_completed rt nw (task_id (timers s ! k))" using assms by simp
    then have "snd (poll_resume rt nw k (task_id (timers s ! k)) ?s1) = ?s1"
      by (rule poll_resume_not_completed)
    then have "timers (snd (spawn (poll_resume rt nw k (task_id (timers s ! k))) ?s1)) = timers ?s1"
      by (simp only: timers_spawn)
    then show ?thesis by (simp add: same_slot_def)
  next
    case False
    have "keeps (same_slot h) (spawn (poll_resume rt nw k (task_id (timers s ! k))))"
      by (intro keeps_spawn frame_same_slot respected_poll_resume respected_same_slot
            keeps_clearInterval_other False)
    then show ?thesis unfolding keeps_def by (rule spec)
  qed
  from 1 2 show ?thesis
    unfolding poll_answered_awaited [OF True] by (rule frame_trans [OF frame_same_slot])
next
  case False
  show ?thesis
    unfolding poll_answered_idle [OF False] by (rule frame_refl [OF frame_same_slot])
qed

lemma kept_slot_fire: "kept_slot h s (fire rt nw ev s)"
  by (rule respected_fire [OF respected_kept_slot])
    (rule kept_slot_timer_fires kept_slot_poll_answered)+

lemma same_slot_fire:
  assumes "ev = PollAnswered h \<longrightarrow> \<not> poll_completed rt nw (task_id (timers s ! h))"
  shows "same_slot h s (fire rt nw ev s)"
proof (rule respected_fire [OF respected_same_slot])
  fix k
  show "same_slot h s (timer_fires rt k s)" by (rule same_slot_timer_fires)
next
  fix k
  assume "ev = PollAnswered k"
  then have "k = h \<longrightarrow> \<not> poll_completed rt nw (task_id (timers s ! h))"
    using assms by simp
  then show "same_slot h s (poll_answered rt nw k s)" by (rule same_slot_poll_answered)
qed

lemma same_slot_run:
  assumes "h < length (timers s)"
    and "\<forall>(nw, ev) \<in> set evs. ev = PollAnswered h \<longrightarrow>
           \<not> poll_completed rt nw (task_id (timers s ! h))"
  shows "same_slot h s (run rt evs s)"
  using assms
proof (induction evs arbitrary: s)
  case Nil
  show ?case by (simp add: frame_refl [OF frame_same_slot])
next
  case (Cons e evs)
  obtain nw ev where e: "e = (nw, ev)" by (cases e)
  have "ev = PollAnswered h \<longrightarrow> \<not> poll_completed rt nw (task_id (timers s ! h))"
    using Cons.prems(2) e by simp
  then have 1: "same_slot h s (fire rt nw ev s)" by (rule same_slot_fire)
  then have l: "h < length (timers (fire rt nw ev s))"
    and t: "task_id (timers (fire rt nw ev s) ! h) = task_id (timers s ! h)"
    using Cons.prems(1) by (simp_all add: same_slot_def)
  have "\<forall>(nw', ev') \<in> set evs. ev' = PollAnswered h \<longrightarrow>
           \<not> poll_completed rt nw' (task_id (timers (fire rt nw ev s) ! h))"
    using Cons.prems(2) by (simp add: t)
  from Cons.IH [OF l this] have "same_slot h (fire rt nw ev s) (run rt evs (fire rt nw ev s))" .
  with 1 show ?case
    unfolding e run.simps by (rule frame_trans [OF frame_same_slot])
qed

lemma kept_slot_after: "kept_slot h s (after rt evs n s)"
proof (induction n)
  case 0
  show ?case by (simp add: frame_refl [OF frame_kept_slot])
next
  case (Suc n)
  have "kept_slot h (after rt evs n s) (after rt evs (Suc n) s)"
    by (simp add: kept_slot_fire)
  with Suc.IH show ?case by (rule frame_trans [OF frame_kept_slot])
qed

subsection \<open>The events without end\<close>

lemma run_while_active_unroll:
  assumes "\<forall>j < n. h < length (timers (after rt evs j s)) \<and> active (timers (after rt evs j s) ! h)"
  shows "run_while_active rt evs h 0 s = run_while_active rt evs h n (after rt evs n s)"
  using assms
proof (induction n)
  case 0
  show ?case by simp
next
  case (Suc n)
  then have "run_while_active rt evs h 0 s = run_while_active rt evs h n (after rt evs n s)"
    and "h < length (timers (after rt evs n s)) \<and> active (timers (after rt evs n s) ! h)"
    by simp_all
  then show ?case
    by (subst (asm) (2) run_while_active.simps) simp
qed

lemma run_while_active_stops:
  assumes "\<not> (h < length (timers (after rt evs n s)) \<and> active (timers (after rt evs n s) ! h))"
  shows "\<exists>k \<le> n. run_while_active rt evs h 0 s = Some (after rt evs k s) \<and>
           \<not> (h < length (timers (after rt evs k s)) \<and> active (timers (after rt evs k s) ! h))"
proof -
  let ?off = "\<lambda>k. \<not> (h < length (timers (after rt evs k s)) \<and>
                       active (timers (after rt evs k s) ! h))"
  define k where "k = (LEAST k. ?off k)"
  have off: "?off k" unfolding k_def using assms by (rule LeastI)
  have le: "k \<le> n" unfolding k_def using assms by (rule Least_le)
  have before: "\<forall>j < k. h < length (timers (after rt evs j s)) \<and>
      active (timers (after rt evs j s) ! h)"
  proof (intro allI impI)
    fix j
    assume "j < k"
    then have "\<not> ?off j" unfolding k_def by (rule not_less_Least)
    then show "h < length (timers (after rt evs j s)) \<and> active (timers (after rt evs j s) ! h)"
      by simp
  qed
  have "run_while_active rt evs h 0 s = run_while_active rt evs h k (after rt evs k s)"
    using before by (rule run_while_active_unroll)
  also have "\<dots> = Some (after rt evs k s)"
    by (subst run_while_active.simps) (rule if_not_P [OF off])
  finally show ?thesis using off le by blast
qed

lemma run_while_active_returns:
  assumes "run_while_active rt evs h k s = Some y"
  shows "\<not> (h < length (timers s) \<and> active (timers s ! h) \<and>
            (\<forall>j \<ge> k. snd (evs j) = PollAnswered h \<longrightarrow>
               \<not> poll_completed rt (fst (evs j)) (task_id (timers s ! h))))"
proof -
  let ?Q = "\<lambda>rt evs h k s (y :: page).
     \<not> (h < length (timers s) \<and> active (timers s ! h) \<and>
            (\<forall>j \<ge> k. snd (evs j) = PollAnswered h \<longrightarrow>
               \<not> poll_completed rt (fst (evs j)) (task_id (timers s ! h))))"
  have "?Q rt evs h k s y"
  proof (rule run_while_active.raw_induct [where P = ?Q, OF _ assms])
    fix f :: "runtime \<Rightarrow> (nat \<Rightarrow> net \<times> event) \<Rightarrow> nat \<Rightarrow> nat \<Rightarrow> page \<Rightarrow> page option"
      and rt evs h k s y
    assume IH: "\<And>a b c d e y. f a b c d e = Some y \<Longrightarrow> ?Q a b c d e y"
      and eq: "(if h < length (timers s) \<and> active (timers s ! h)
                then f rt evs h (Suc k) (fire rt (fst (evs k)) (snd (evs k)) s) else Some s) = Some y"
    show "?Q rt evs h k s y"
    proof
      assume pre: "h < length (timers s) \<and> active (timers s ! h) \<and>
            (\<forall>j \<ge> k. snd (evs j) = PollAnswered h \<longrightarrow>
               \<not> poll_completed rt (fst (evs j)) (task_id (timers s ! h)))"
      then have a: "h < length (timers s)" and b: "active (timers s ! h)"
        and c: "\<forall>j \<ge> k. snd (evs j) = PollAnswered h \<longrightarrow>
               \<not> poll_completed rt (fst (evs j)) (task_id (timers s ! h))"
        by simp_all
      let ?s' = "fire rt (fst (evs k)) (snd (evs k)) s"
      have rec: "f rt evs h (Suc k) ?s' = Some y"
        using eq a b by simp
      have "snd (evs k) = PollAnswered h \<longrightarrow>
          \<not> poll_completed rt (fst (evs k)) (task_id (timers s ! h))"
        using c by simp
      then have "same_slot h s ?s'" by (rule same_slot_fire)
      then have "h < length (timers ?s') \<and> active (timers ?s' ! h) \<and>
          task_id (timers ?s' ! h) = task_id (timers s ! h)"
        using a b by (simp add: same_slot_def)
      then have "h < length (timers ?s') \<and> active (timers ?s' ! h) \<and>
          (\<forall>j \<ge> Suc k. snd (evs j) = PollAnswered h \<longrightarrow>
             \<not> poll_completed rt (fst (evs j)) (task_id (timers ?s' ! h)))"
        using c by simp
      with IH [OF rec] show False by (rule notE)
    qed
  qed
  then show ?thesis .
qed

lemma run_while_active_forever:
  assumes "h < length (timers s)" and "active (timers s ! h)"
    and "\<forall>k. snd (evs k) = PollAnswered h \<longrightarrow>
           \<not> poll_completed rt (fst (evs k)) (task_id (timers s ! h))"
  shows "run_while_active rt evs h 0 s = None"
proof (cases "run_while_active rt evs h 0 s")
  case None
  then show ?thesis .
next
  case (Some y)
  have "h < length (timers s) \<and> active (timers s ! h) \<and>
            (\<forall>j \<ge> 0. snd (evs j) = PollAnswered h \<longrightarrow>
               \<not> poll_completed rt (fst (evs j)) (task_id (timers s ! h)))"
    using assms by simp
  with run_while_active_returns [OF Some] show ?thesis by (rule notE)
qed

lemma run_while_active_cancelled:
  assumes "h < length (timers s)"
    and "snd (evs n) = PollAnswered h"
    and "poll_completed rt (fst (evs n)) (task_id (timers s ! h))"
    and "0 < in_flight (timers (after rt evs n s) ! h)"
  shows "\<exists>s'. run_while_active rt evs h 0 s = Some s' \<and>
           h < length (timers s') \<and> \<not> active (timers s' ! h)"
proof -
  have slot: "h < length (timers (after rt evs k s))"
    "task_id (timers (after rt evs k s) ! h) = task_id (timers s ! h)" for k
    using kept_slot_after [of h s rt evs k] assms(1) by (simp_all add: kept_slot_def)
  let ?s = "after rt evs n s"
  have aw: "h < length (timers ?s) \<and> 0 < in_flight (timers ?s ! h)"
    using slot(1) assms(4) by simp
  have "after rt evs (Suc n) s = poll_answered rt (fst (evs n)) h ?s"
    using assms(2) by simp
  then have "timers (after rt evs (Suc n) s) =
      (timers ?s)[h := (timers ?s ! h)\<lparr>in_flight := in_flight (timers ?s ! h) - 1,
              active := active (timers ?s ! h) \<and>
                \<not> poll_completed rt (fst (evs n)) (task_id (timers ?s ! h))\<rparr>]"
    by (simp only: poll_answered_timers [OF aw])
  then have "\<not> active (timers (after rt evs (Suc n) s) ! h)"
    using slot(1) [of n] assms(3) by (simp add: slot(2))
  then have "\<not> (h < length (timers (after rt evs (Suc n) s)) \<and>
      active (timers (after rt evs (Suc n) s) ! h))"
    by simp
  from run_while_active_stops [OF this] obtain k where
    "run_while_active rt evs h 0 s = Some (after rt evs k s)"
    and "\<not> (h < length (timers (after rt evs k s)) \<and> active (timers (after rt evs k s) ! h))"
    by blast
  then have "run_while_active rt evs h 0 s = Some (after rt evs k s) \<and>
      h < length (timers (after rt evs k s)) \<and> \<not> active (timers (after rt evs k s) ! h)"
    using slot(1) [of k] by simp
  then show ?thesis by (rule exI [where x = "after rt evs k s"])
qed

subsection \<open>The making of the timer\<close>

lemma frame_new_timers: "frame new_timers"
  unfolding frame_def new_timers_def
proof (intro conjI allI impI)
  fix s t u
  let ?P = "\<lambda>t. period_ms t = 1000 \<and> active t \<and> in_flight t = 0"
  assume "\<exists>new. timers t = timers s @ new \<and> list_all ?P new"
    and "\<exists>new. timers u = timers t @ new \<and> list_all ?P new"
  then obtain n1 n2 where "timers t = timers s @ n1" "list_all ?P n1"
    "timers u = timers t @ n2" "list_all ?P n2"
    by blast
  then have "timers u = timers s @ (n1 @ n2) \<and> list_all ?P (n1 @ n2)"
    by simp
  then show "\<exists>new. timers u = timers s @ new \<and> list_all ?P new"
    by (rule exI [where x = "n1 @ n2"])
qed simp_all

lemma eqgftSendLlm_new_timers: "keeps new_timers (eqgftSendLlm_click rt nw)"
proof -
  have api: "keeps new_timers (api nw path opts)" for path opts
    by (simp add: keeps_def api_def new_timers_def)
  have set: "keeps new_timers (setInterval tid 1000)" for tid
    by (simp add: keeps_def setInterval_def new_timers_def)
  show ?thesis
    unfolding eqgftSendLlm_click_def
    by (intro keeps_rules frame_new_timers api set)
qed

lemma eqgftSendLlm_registers:
  assumes "dom s eqgftLlmQueryEl = Some q" and "dom s eqgftResponseEl = Some e"
    and "dom s statusEl = Some st"
    and "api_result nw ''/llm/plan-eqgft-task''
           (post (stringify rt (JObj [(''query'', JStr (val q))]) 0)) = Inr task"
    and "api_result nw ''/tasks''
           (post (stringify rt (JObj [(''task'', task), (''execute'', JBool True)]) 0)) = Inr submitted"
    and "get_prop submitted ''task_id'' = Inr tid"
  shows "timers (snd (eqgftSendLlm_click rt nw s)) =
           timers s @ [\<lparr>period_ms = 1000, task_id = tid, active = True, in_flight = 0\<rparr>]"
proof -
  have d: "eqgftResponseEl \<noteq> statusEl" by (simp add: handles)
  show ?thesis
    using assms d
    by (simp add: eqgftSendLlm_click_def try_catch_def and_then_def api_def get_value_present
          set_textContent_present lift_def setInterval_def ret_def)
qed

lemma kept_slot_run: "kept_slot h s (run rt evs s)"
proof (induction evs arbitrary: s)
  case Nil
  show ?case by (simp add: frame_refl [OF frame_kept_slot])
next
  case (Cons e evs)
  obtain nw ev where e: "e = (nw, ev)" by (cases e)
  have "kept_slot h s (fire rt nw ev s)" by (rule kept_slot_fire)
  moreover have "kept_slot h (fire rt nw ev s) (run rt evs (fire rt nw ev s))" by (rule Cons.IH)
  ultimately show ?case
    unfolding e run.simps by (rule frame_trans [OF frame_kept_slot])
qed

text \<open>
  Claim C1. Every timer the eqgftSendLlmBtn click handler makes has a period
  of 1000 ms, and when the plan and the submission succeed it makes one, for
  the submitted task's id. A firing and the arrival of the answer to its
  request are separate events, so the timer may fire again before an answer
  is there. A firing of an active timer sends GET /api/tasks/{task_id} and
  leaves the timer as it is, one more request in flight; a cancelled timer
  sends nothing. When an answer to a request in flight arrives, the timer is
  active afterwards if and only if it was active and the status of the
  answer is not \<open>Completed\<close>, nothing else of the timers changes, and with
  \<open>Completed\<close> (and a status element) the metrics and the visualization
  packet are requested, otherwise nothing is. Over every sequence of
  events, the handlers and the other timers included, the timer keeps its
  period and its task; and if no answer to its requests in that sequence
  reports \<open>Completed\<close>, it is still active at the end and its next firing
  sends the request again. Over events without end: if no answer ever
  reports \<open>Completed\<close>, the timer is never found cancelled; if a
  \<open>Completed\<close> answer arrives while a request is in flight, the timer is
  found cancelled.
\<close>

theorem polling_timer:
  "(\<exists>new. timers (snd (eqgftSendLlm_click rt nw s0)) = timers s0 @ new \<and>
      list_all (\<lambda>t. period_ms t = 1000 \<and> active t \<and> in_flight t = 0) new)
   \<and> (dom s0 eqgftLlmQueryEl = Some q \<and> dom s0 eqgftResponseEl = Some e \<and>
       dom s0 statusEl = Some st \<and>
       api_result nw ''/llm/plan-eqgft-task''
         (post (stringify rt (JObj [(''query'', JStr (val q))]) 0)) = Inr task \<and>
       api_result nw ''/tasks''
         (post (stringify rt (JObj [(''task'', task), (''execute'', JBool True)]) 0)) = Inr submitted \<and>
       get_prop submitted ''task_id'' = Inr tid \<longrightarrow>
       timers (snd (eqgftSendLlm_click rt nw s0)) =
         timers s0 @ [\<lparr>period_ms = 1000, task_id = tid, active = True, in_flight = 0\<rparr>])
   \<and> (h < length (timers s) \<and> active (timers s ! h) \<longrightarrow>
       timer_fires rt h s =
         s\<lparr>sent := sent s @
                [api_request (''/tasks/'' @ template rt (task_id (timers s ! h))) no_options],
           timers := (timers s)[h := (timers s ! h)\<lparr>in_flight := Suc (in_flight (timers s ! h))\<rparr>]\<rparr>)
   \<and> (\<not> (h < length (timers s) \<and> active (timers s ! h)) \<longrightarrow> timer_fires rt h s = s)
   \<and> (h < length (timers s) \<and> 0 < in_flight (timers s ! h) \<longrightarrow>
       timers (poll_answered rt nw h s) =
         (timers s)[h := (timers s ! h)\<lparr>in_flight := in_flight (timers s ! h) - 1,
            active := active (timers s ! h) \<and> \<not> poll_completed rt nw (task_id (timers s ! h))\<rparr>]
       \<and> (active (timers (poll_answered rt nw h s) ! h) \<longleftrightarrow>
            active (timers s ! h) \<and> \<not> poll_completed rt nw (task_id (timers s ! h)))
       \<and> (\<not> poll_completed rt nw (task_id (timers s ! h)) \<longrightarrow>
            sent (poll_answered rt nw h s) = sent s)
       \<and> (poll_completed rt nw (task_id (timers s ! h)) \<and> dom s statusEl \<noteq> None \<longrightarrow>
            sent (poll_answered rt nw h s) =
              sent s @ [api_request ''/metrics'' no_options,
                        api_request ''/visualization/packet'' no_options]))
   \<and> (\<not> (h < length (timers s) \<and> 0 < in_flight (timers s ! h)) \<longrightarrow>
       poll_answered rt nw h s = s)
   \<and> (h < length (timers s) \<longrightarrow>
       h < length (timers (run rt evs s)) \<and>
       period_ms (timers (run rt evs s) ! h) = period_ms (timers s ! h) \<and>
       task_id (timers (run rt evs s) ! h) = task_id (timers s ! h))
   \<and> (h < length (timers s) \<and> active (timers s ! h) \<and>
       (\<forall>(nw', ev) \<in> set evs. ev = PollAnswered h \<longrightarrow>
          \<not> poll_completed rt nw' (task_id (timers s ! h))) \<longrightarrow>
       active (timers (run rt evs s) ! h) \<and>
       sent (run rt (evs @ [(nw, TimerFires h)]) s) =
         sent (run rt evs s) @
           [api_request (''/tasks/'' @ template rt (task_id (timers s ! h))) no_options])
   \<and> (h < length (timers s) \<and> active (timers s ! h) \<and>
       (\<forall>k. snd (sched k) = PollAnswered h \<longrightarrow>
          \<not> poll_completed rt (fst (sched k)) (task_id (timers s ! h))) \<longrightarrow>
       run_while_active rt sched h 0 s = None)
   \<and> (h < length (timers s) \<and> snd (sched n) = PollAnswered h \<and>
       poll_completed rt (fst (sched n)) (task_id (timers s ! h)) \<and>
       0 < in_flight (timers (after rt sched n s) ! h) \<longrightarrow>
       (\<exists>s'. run_while_active rt sched h 0 s = Some s' \<and>
             h < length (timers s') \<and> \<not> active (timers s' ! h)))"
proof (intro conjI impI)
  show "\<exists>new. timers (snd (eqgftSendLlm_click rt nw s0)) = timers s0 @ new \<and>
      list_all (\<lambda>t. period_ms t = 1000 \<and> active t \<and> in_flight t = 0) new"
    using eqgftSendLlm_new_timers [of rt nw] by (simp add: keeps_def new_timers_def)
next
  assume "dom s0 eqgftLlmQueryEl = Some q \<and> dom s0 eqgftResponseEl = Some e \<and>
       dom s0 statusEl = Some st \<and>
       api_result nw ''/llm/plan-eqgft-task''
         (post (stringify rt (JObj [(''query'', JStr (val q))]) 0)) = Inr task \<and>
       api_result nw ''/tasks''
         (post (stringify rt (JObj [(''task'', task), (''execute'', JBool True)]) 0)) = Inr submitted \<and>
       get_prop submitted ''task_id'' = Inr tid"
  then show "timers (snd (eqgftSendLlm_click rt nw s0)) =
         timers s0 @ [\<lparr>period_ms = 1000, task_id = tid, active = True, in_flight = 0\<rparr>]"
    by (intro eqgftSendLlm_registers [where q = q and e = e and st = st and task = task
          and submitted = submitted]) simp_all
next
  assume "h < length (timers s) \<and> active (timers s ! h)"
  then show "timer_fires rt h s =
         s\<lparr>sent := sent s @
                [api_request (''/tasks/'' @ template rt (task_id (timers s ! h))) no_options],
           timers := (timers s)[h := (timers s ! h)\<lparr>in_flight := Suc (in_flight (timers s ! h))\<rparr>]\<rparr>"
    by (rule timer_fires_active)
next
  assume "\<not> (h < length (timers s) \<and> active (timers s ! h))"
  then show "timer_fires rt h s = s" by (rule timer_fires_idle)
next
  assume a: "h < length (timers s) \<and> 0 < in_flight (timers s ! h)"
  show t: "timers (poll_answered rt nw h s) =
         (timers s)[h := (timers s ! h)\<lparr>in_flight := in_flight (timers s ! h) - 1,
            active := active (timers s ! h) \<and> \<not> poll_completed rt nw (task_id (timers s ! h))\<rparr>]"
    by (rule poll_answered_timers [OF a])
  show "active (timers (poll_answered rt nw h s) ! h) \<longleftrightarrow>
            active (timers s ! h) \<and> \<not> poll_completed rt nw (task_id (timers s ! h))"
    unfolding t using a by simp
next
  assume "h < length (timers s) \<and> 0 < in_flight (timers s ! h)"
    and "\<not> poll_completed rt nw (task_id (timers s ! h))"
  then show "sent (poll_answered rt nw h s) = sent s"
    by (rule poll_answered_pending(2))
next
  assume a: "h < length (timers s) \<and> 0 < in_flight (timers s ! h)"
    and c: "poll_completed rt nw (task_id (timers s ! h)) \<and> dom s statusEl \<noteq> None"
  from c have "poll_completed rt nw (task_id (timers s ! h))" and "dom s statusEl \<noteq> None"
    by simp_all
  then show "sent (poll_answered rt nw h s) =
              sent s @ [api_request ''/metrics'' no_options,
                        api_request ''/visualization/packet'' no_options]"
    by (rule poll_answered_completed(2) [OF a])
next
  assume "\<not> (h < length (timers s) \<and> 0 < in_flight (timers s ! h))"
  then show "poll_answered rt nw h s = s" by (rule poll_answered_idle)
next
  assume a: "h < length (timers s)"
  from kept_slot_run [of h s rt evs] a
  show "h < length (timers (run rt evs s))"
    and "period_ms (timers (run rt evs s) ! h) = period_ms (timers s ! h)"
    and "task_id (timers (run rt evs s) ! h) = task_id (timers s ! h)"
    by (simp_all add: kept_slot_def)
next
  assume a: "h < length (timers s) \<and> active (timers s ! h) \<and>
       (\<forall>(nw', ev) \<in> set evs. ev = PollAnswered h \<longrightarrow>
          \<not> poll_completed rt nw' (task_id (timers s ! h)))"
  then have "same_slot h s (run rt evs s)"
    by (intro same_slot_run) simp_all
  then have k: "h < length (timers (run rt evs s)) \<and> active (timers (run rt evs s) ! h)"
    and t: "task_id (timers (run rt evs s) ! h) = task_id (timers s ! h)"
    using a by (simp_all add: same_slot_def)
  from k show "active (timers (run rt evs s) ! h)" by (rule conjunct2)
  show "sent (run rt (evs @ [(nw, TimerFires h)]) s) =
         sent (run rt evs s) @
           [api_request (''/tasks/'' @ template rt (task_id (timers s ! h))) no_options]"
    unfolding run_snoc fire.simps timer_fires_active [OF k] by (simp add: t)
next
  assume "h < length (timers s) \<and> active (timers s ! h) \<and>
       (\<forall>k. snd (sched k) = PollAnswered h \<longrightarrow>
          \<not> poll_completed rt (fst (sched k)) (task_id (timers s ! h)))"
  then show "run_while_active rt sched h 0 s = None"
    by (intro run_while_active_forever) simp_all
next
  assume "h < length (timers s) \<and> snd (sched n) = PollAnswered h \<and>
       poll_completed rt (fst (sched n)) (task_id (timers s ! h)) \<and>
       0 < in_flight (timers (after rt sched n s) ! h)"
  then show "\<exists>s'. run_while_active rt sched h 0 s = Some s' \<and>
             h < length (timers s') \<and> \<not> active (timers s' ! h)"
    by (intro run_while_active_cancelled [where n = n]) simp_all
qed

lemma polling_facts:
  "timers polling_page =
     [\<lparr>period_ms = 1000, task_id = JStr ''t-1'', active = True, in_flight = 0\<rparr>]"
  "sent polling_page = []"
  "dom polling_page statusEl = Some blank"
  "poll_completed sample_rt completed_net (JStr ''t-1'')"
  "\<not> poll_completed sample_rt pending_net (JStr ''t-1'')"
  by (simp_all add: polling_page_def sample_page_def empty_page_def sample_elements_def
        core_elements_def handles poll_completed_def api_result_def completed_net_def
        completed_status_def pending_net_def api_then_def)

text \<open>The sample timer after one firing, and after two.\<close>

lemma fired_once:
  "timers (timer_fires sample_rt 0 polling_page) =
     [\<lparr>period_ms = 1000, task_id = JStr ''t-1'', active = True, in_flight = 1\<rparr>]"
  "sent (timer_fires sample_rt 0 polling_page) = [api_request ''/tasks/t-1'' no_options]"
  "dom (timer_fires sample_rt 0 polling_page) statusEl = Some blank"
  by (simp_all add: timer_fires_def polling_facts)

lemma fired_twice:
  "timers (timer_fires sample_rt 0 (timer_fires sample_rt 0 polling_page)) =
     [\<lparr>period_ms = 1000, task_id = JStr ''t-1'', active = True, in_flight = 2\<rparr>]"
  by (simp add: timer_fires_def polling_facts)

text \<open>
  The server is slow: the timer has fired twice when the first answer
  arrives, the task completed.
\<close>

lemma answered_once:
  "dom (poll_answered sample_rt completed_net 0
          (timer_fires sample_rt 0 (timer_fires sample_rt 0 polling_page))) statusEl \<noteq> None"
  "timers (poll_answered sample_rt completed_net 0
             (timer_fires sample_rt 0 (timer_fires sample_rt 0 polling_page))) =
     [\<lparr>period_ms = 1000, task_id = JStr ''t-1'', active = False, in_flight = 1\<rparr>]"
  "sent (poll_answered sample_rt completed_net 0
           (timer_fires sample_rt 0 (timer_fires sample_rt 0 polling_page))) =
     [api_request ''/tasks/t-1'' no_options, api_request ''/tasks/t-1'' no_options,
      api_request ''/metrics'' no_options, api_request ''/visualization/packet'' no_options]"
proof -
  have "dom (poll_answered rt completed_net 0
          (timer_fires rt 0 (timer_fires rt 0 polling_page))) statusEl \<noteq> None \<and>
    timers (poll_answered rt completed_net 0
             (timer_fires rt 0 (timer_fires rt 0 polling_page))) =
     [\<lparr>period_ms = 1000, task_id = JStr ''t-1'', active = False, in_flight = 1\<rparr>] \<and>
    sent (poll_answered rt completed_net 0
           (timer_fires rt 0 (timer_fires rt 0 polling_page))) =
     [api_request ''/tasks/t-1'' no_options, api_request ''/tasks/t-1'' no_options,
      api_request ''/metrics'' no_options, api_request ''/visualization/packet'' no_options]"
    for rt
    by (simp add: and_then_def try_catch_def spawn_def ret_def lift_def api_def api_result_def
        api_then_def set_textContent_def set_children_def text_nodes_def timer_fires_def
        poll_answered_def poll_resume_def clearInterval_def refreshMetrics_def refreshViz_def
        updatePhysicsConstants_def polling_page_def sample_page_def sample_elements_def
        core_elements_def handles empty_page_def completed_net_def completed_status_def)
  note a = this [of sample_rt]
  from a show "dom (poll_answered sample_rt completed_net 0
          (timer_fires sample_rt 0 (timer_fires sample_rt 0 polling_page))) statusEl \<noteq> None"
    by (rule conjunct1)
  from a [THEN conjunct2]
  show "timers (poll_answered sample_rt completed_net 0
             (timer_fires sample_rt 0 (timer_fires sample_rt 0 polling_page))) =
     [\<lparr>period_ms = 1000, task_id = JStr ''t-1'', active = False, in_flight = 1\<rparr>]"
    by (rule conjunct1)
  from a [THEN conjunct2]
  show "sent (poll_answered sample_rt completed_net 0
           (timer_fires sample_rt 0 (timer_fires sample_rt 0 polling_page))) =
     [api_request ''/tasks/t-1'' no_options, api_request ''/tasks/t-1'' no_options,
      api_request ''/metrics'' no_options, api_request ''/visualization/packet'' no_options]"
    by (rule conjunct2)
qed

theorem polling_timer_witness:
  "timers (snd (eqgftSendLlm_click sample_rt completed_net sample_page)) =
     [\<lparr>period_ms = 1000, task_id = JStr ''t-1'', active = True, in_flight = 0\<rparr>]
   \<and> 0 < length (timers polling_page) \<and> active (timers polling_page ! 0)
   \<and> timer_fires sample_rt 0 polling_page =
       polling_page\<lparr>sent := [api_request ''/tasks/t-1'' no_options],
         timers := [\<lparr>period_ms = 1000, task_id = JStr ''t-1'', active = True, in_flight = 1\<rparr>]\<rparr>
   \<and> poll_completed sample_rt completed_net (JStr ''t-1'')
   \<and> \<not> active (timers (poll_answered sample_rt completed_net 0
                         (timer_fires sample_rt 0 polling_page)) ! 0)
   \<and> sent (poll_answered sample_rt completed_net 0 (timer_fires sample_rt 0 polling_page)) =
       [api_request ''/tasks/t-1'' no_options, api_request ''/metrics'' no_options,
        api_request ''/visualization/packet'' no_options]
   \<and> sent (poll_answered sample_rt completed_net 0
             (poll_answered sample_rt completed_net 0
                (timer_fires sample_rt 0 (timer_fires sample_rt 0 polling_page)))) =
       [api_request ''/tasks/t-1'' no_options, api_request ''/tasks/t-1'' no_options,
        api_request ''/metrics'' no_options, api_request ''/visualization/packet'' no_options,
        api_request ''/metrics'' no_options, api_request ''/visualization/packet'' no_options]
   \<and> timer_fires sample_rt 0
         (poll_answered sample_rt completed_net 0
            (timer_fires sample_rt 0 (timer_fires sample_rt 0 polling_page))) =
       poll_answered sample_rt completed_net 0
         (timer_fires sample_rt 0 (timer_fires sample_rt 0 polling_page))
   \<and> \<not> poll_completed sample_rt pending_net (JStr ''t-1'')
   \<and> active (timers (run sample_rt [(pending_net, TimerFires 0), (pending_net, PollAnswered 0)]
                       polling_page) ! 0)
   \<and> period_ms (timers (run sample_rt [(completed_net, TimerFires 0),
                          (completed_net, PollAnswered 0)] polling_page) ! 0) = 1000
   \<and> run_while_active sample_rt always_pending 0 0 polling_page = None
   \<and> snd (slow_completed 2) = PollAnswered 0
   \<and> 0 < in_flight (timers (after sample_rt slow_completed 2 polling_page) ! 0)
   \<and> (\<exists>s'. run_while_active sample_rt slow_completed 0 0 polling_page = Some s' \<and>
            \<not> active (timers s' ! 0))"
proof -
  have el: "dom sample_page eqgftLlmQueryEl = Some (blank\<lparr>val := ''plan a run''\<rparr>)"
    "dom sample_page eqgftResponseEl = Some blank" "dom sample_page statusEl = Some blank"
    "timers sample_page = []"
    by (simp_all add: sample_page_def sample_elements_def core_elements_def handles empty_page_def)
  have net: "api_result completed_net path opts = Inr completed_status" for path opts
    by (simp add: api_result_def completed_net_def api_then_def)
  have tid: "get_prop completed_status ''task_id'' = Inr (JStr ''t-1'')"
    by (simp add: completed_status_def)
  have 1: "timers (snd (eqgftSendLlm_click sample_rt completed_net sample_page)) =
     [\<lparr>period_ms = 1000, task_id = JStr ''t-1'', active = True, in_flight = 0\<rparr>]"
    using polling_timer [where rt = sample_rt and nw = completed_net and ?s0.0 = sample_page
        and q = "blank\<lparr>val := ''plan a run''\<rparr>" and e = blank and st = blank
        and task = completed_status and submitted = completed_status and tid = "JStr ''t-1''",
        THEN conjunct2, THEN conjunct1]
      el net tid
    by simp
  have p: "0 < length (timers polling_page)" "active (timers polling_page ! 0)"
    "task_id (timers polling_page ! 0) = JStr ''t-1''"
    "period_ms (timers polling_page ! 0) = 1000"
    by (simp_all add: polling_facts)
  have 2: "timer_fires sample_rt 0 polling_page =
       polling_page\<lparr>sent := [api_request ''/tasks/t-1'' no_options],
         timers := [\<lparr>period_ms = 1000, task_id = JStr ''t-1'', active = True, in_flight = 1\<rparr>]\<rparr>"
    using polling_timer [where rt = sample_rt and s = polling_page and h = 0,
        THEN conjunct2, THEN conjunct2, THEN conjunct1] p(1,2)
    by (simp add: polling_facts)
  let ?s1 = "timer_fires sample_rt 0 polling_page"
  have f: "0 < length (timers ?s1) \<and> 0 < in_flight (timers ?s1 ! 0)"
    "task_id (timers ?s1 ! 0) = JStr ''t-1''" "active (timers ?s1 ! 0)"
    "dom ?s1 statusEl \<noteq> None"
    by (simp_all add: fired_once)
  note a = polling_timer [where rt = sample_rt and nw = completed_net and s = ?s1 and h = 0,
      THEN conjunct2, THEN conjunct2, THEN conjunct2, THEN conjunct2, THEN conjunct1,
      THEN mp, OF f(1)]
  have 3: "\<not> active (timers (poll_answered sample_rt completed_net 0 ?s1) ! 0)"
    using a [THEN conjunct2, THEN conjunct1] polling_facts(4) by (simp add: f(2))
  have "poll_completed sample_rt completed_net (task_id (timers ?s1 ! 0)) \<and>
      dom ?s1 statusEl \<noteq> None"
    using polling_facts(4) f(4) by (simp add: f(2))
  from a [THEN conjunct2, THEN conjunct2, THEN conjunct2, THEN mp, OF this]
  have 4: "sent (poll_answered sample_rt completed_net 0 ?s1) =
       [api_request ''/tasks/t-1'' no_options, api_request ''/metrics'' no_options,
        api_request ''/visualization/packet'' no_options]"
    by (simp add: fired_once)
  let ?a1 = "poll_answered sample_rt completed_net 0
      (timer_fires sample_rt 0 (timer_fires sample_rt 0 polling_page))"
  have g: "0 < length (timers ?a1) \<and> 0 < in_flight (timers ?a1 ! 0)"
    "poll_completed sample_rt completed_net (task_id (timers ?a1 ! 0)) \<and>
      dom ?a1 statusEl \<noteq> None"
    "\<not> (0 < length (timers ?a1) \<and> active (timers ?a1 ! 0))"
    using polling_facts(4) answered_once(1) by (simp_all add: answered_once(2))
  from polling_timer [where rt = sample_rt and nw = completed_net and s = ?a1 and h = 0,
      THEN conjunct2, THEN conjunct2, THEN conjunct2, THEN conjunct2, THEN conjunct1,
      THEN mp, OF g(1), THEN conjunct2, THEN conjunct2, THEN conjunct2, THEN mp, OF g(2)]
  have late: "sent (poll_answered sample_rt completed_net 0 ?a1) =
       [api_request ''/tasks/t-1'' no_options, api_request ''/tasks/t-1'' no_options,
        api_request ''/metrics'' no_options, api_request ''/visualization/packet'' no_options,
        api_request ''/metrics'' no_options, api_request ''/visualization/packet'' no_options]"
    by (simp add: answered_once(3))
  from polling_timer [where rt = sample_rt and s = ?a1 and h = 0,
      THEN conjunct2, THEN conjunct2, THEN conjunct2, THEN conjunct1, THEN mp, OF g(3)]
  have off: "timer_fires sample_rt 0 ?a1 = ?a1" .
  have "0 < length (timers polling_page) \<and> active (timers polling_page ! 0) \<and>
       (\<forall>(nw', ev) \<in> set [(pending_net, TimerFires 0), (pending_net, PollAnswered 0)].
          ev = PollAnswered 0 \<longrightarrow>
          \<not> poll_completed sample_rt nw' (task_id (timers polling_page ! 0)))"
    using p polling_facts(5) by simp
  from polling_timer [where rt = sample_rt and s = polling_page and h = 0
      and evs = "[(pending_net, TimerFires 0), (pending_net, PollAnswered 0)]",
      THEN conjunct2, THEN conjunct2, THEN conjunct2, THEN conjunct2, THEN conjunct2,
      THEN conjunct2, THEN conjunct2, THEN conjunct1, THEN mp, OF this]
  have 5: "active (timers (run sample_rt [(pending_net, TimerFires 0), (pending_net, PollAnswered 0)]
                       polling_page) ! 0)"
    by (rule conjunct1)
  from polling_timer [where rt = sample_rt and s = polling_page and h = 0
      and evs = "[(completed_net, TimerFires 0), (completed_net, PollAnswered 0)]",
      THEN conjunct2, THEN conjunct2, THEN conjunct2, THEN conjunct2, THEN conjunct2,
      THEN conjunct2, THEN conjunct1, THEN mp, OF p(1)]
  have 6: "period_ms (timers (run sample_rt [(completed_net, TimerFires 0),
                          (completed_net, PollAnswered 0)] polling_page) ! 0) = 1000"
    by (simp only: p(4))
  have "0 < length (timers polling_page) \<and> active (timers polling_page ! 0) \<and>
       (\<forall>k. snd (always_pending k) = PollAnswered 0 \<longrightarrow>
          \<not> poll_completed sample_rt (fst (always_pending k)) (task_id (timers polling_page ! 0)))"
    using p polling_facts(5) by (simp add: always_pending_def)
  from polling_timer [where rt = sample_rt and s = polling_page and h = 0
      and sched = always_pending,
      THEN conjunct2, THEN conjunct2, THEN conjunct2, THEN conjunct2, THEN conjunct2,
      THEN conjunct2, THEN conjunct2, THEN conjunct2, THEN conjunct1, THEN mp, OF this]
  have 7: "run_while_active sample_rt always_pending 0 0 polling_page = None" .
  have two: "after sample_rt slow_completed 2 polling_page =
      timer_fires sample_rt 0 (timer_fires sample_rt 0 polling_page)"
    by (simp add: numeral_2_eq_2 slow_completed_def)
  have 8: "snd (slow_completed 2) = PollAnswered 0"
    "0 < in_flight (timers (after sample_rt slow_completed 2 polling_page) ! 0)"
    by (simp_all add: slow_completed_def two fired_twice)
  have "0 < length (timers polling_page) \<and> snd (slow_completed 2) = PollAnswered 0 \<and>
       poll_completed sample_rt (fst (slow_completed 2)) (task_id (timers polling_page ! 0)) \<and>
       0 < in_flight (timers (after sample_rt slow_completed 2 polling_page) ! 0)"
    using p 8 polling_facts(4) by (simp add: slow_completed_def)
  from polling_timer [where rt = sample_rt and s = polling_page and h = 0
      and sched = slow_completed and n = 2,
      THEN conjunct2, THEN conjunct2, THEN conjunct2, THEN conjunct2, THEN conjunct2,
      THEN conjunct2, THEN conjunct2, THEN conjunct2, THEN conjunct2, THEN mp, OF this]
  obtain s' where "run_while_active sample_rt slow_completed 0 0 polling_page = Some s' \<and>
             0 < length (timers s') \<and> \<not> active (timers s' ! 0)"
    by (rule exE)
  then have "run_while_active sample_rt slow_completed 0 0 polling_page = Some s' \<and>
            \<not> active (timers s' ! 0)"
    by simp
  then have 9: "\<exists>s'. run_while_active sample_rt slow_completed 0 0 polling_page = Some s' \<and>
            \<not> active (timers s' ! 0)"
    by (rule exI [where x = s'])
  show ?thesis
    using 1 p(1,2) 2 polling_facts(4) 3 4 late off polling_facts(5) 5 6 7 8 9 by (intro conjI)
qed

section \<open>A failed poll\<close>

lemma after_click_timers:
  "timers after_click = [\<lparr>period_ms = 1000, task_id = JStr ''t-1'', active = True, in_flight = 0\<rparr>]"
proof -
  have el: "dom sample_page eqgftLlmQueryEl = Some (blank\<lparr>val := ''plan a run''\<rparr>)"
    "dom sample_page eqgftResponseEl = Some blank" "dom sample_page statusEl = Some blank"
    "dom sample_page eqgftSendLlmBtn = Some blank" "timers sample_page = []"
    by (simp_all add: sample_page_def sample_elements_def core_elements_def handles empty_page_def)
  have net: "api_result completed_net path opts = Inr completed_status" for path opts
    by (simp add: api_result_def completed_net_def api_then_def)
  have tid: "get_prop completed_status ''task_id'' = Inr (JStr ''t-1'')"
    by (simp add: completed_status_def)
  have ac: "after_click = snd (spawn (eqgftSendLlm_click sample_rt completed_net) sample_page)"
    using el by (simp add: after_click_def late_listener_def listener_def)
  show ?thesis
    unfolding ac timers_spawn
    using eqgftSendLlm_registers [OF el(1-3) net net tid, of sample_rt]
    by (simp add: el)
qed

text \<open>
  Claim C2 at the polling call. After a click that made a timer for task
  \<open>t-1\<close>, the timer fires and the server answers the poll with 404 and an
  empty body: the timer callback raises \<open>Error: Not Found\<close>, nothing catches
  it, no element changes, the error is left unhandled and the timer stays as
  it was. The same answer to \<open>refreshViz\<close> ends as text in the visualization
  element.
\<close>

theorem failed_poll_is_unhandled:
  "fire sample_rt not_found_net (PollAnswered 0)
     (fire sample_rt not_found_net (TimerFires 0) after_click) =
     after_click\<lparr>sent := sent after_click @ [api_request ''/tasks/t-1'' no_options],
                  unhandled := unhandled after_click @ [Error ''Not Found'']\<rparr>
   \<and> refreshViz sample_rt not_found_net sample_page =
     (Inr (), sample_page\<lparr>sent := [api_request ''/visualization/packet'' no_options],
        dom := (dom sample_page)(vizPacketEl \<mapsto>
                 blank\<lparr>children := [TextNode ''Error: Not Found'']\<rparr>)\<rparr>)"
proof -
  have r: "api_result not_found_net path no_options = Inl (Error ''Not Found'')" for path
    by (simp add: api_result_def not_found_net_def not_found_response_def api_then_def)
  have t: "0 < length (timers after_click) \<and> active (timers after_click ! 0)"
    by (simp add: after_click_timers)
  let ?s1 = "after_click\<lparr>sent := sent after_click @ [api_request ''/tasks/t-1'' no_options],
      timers := [\<lparr>period_ms = 1000, task_id = JStr ''t-1'', active = True, in_flight = 1\<rparr>]\<rparr>"
  have f: "timer_fires sample_rt 0 after_click = ?s1"
    unfolding timer_fires_active [OF t] by (simp add: after_click_timers)
  have w: "0 < length (timers ?s1) \<and> 0 < in_flight (timers ?s1 ! 0)"
    by simp
  have "poll_answered sample_rt not_found_net 0 ?s1 =
     after_click\<lparr>sent := sent after_click @ [api_request ''/tasks/t-1'' no_options],
                  unhandled := unhandled after_click @ [Error ''Not Found'']\<rparr>"
    unfolding poll_answered_awaited [OF w]
    using after_click_timers by (simp add: spawn_def poll_resume_rejected [OF r])
  then have 1: "fire sample_rt not_found_net (PollAnswered 0)
     (fire sample_rt not_found_net (TimerFires 0) after_click) =
     after_click\<lparr>sent := sent after_click @ [api_request ''/tasks/t-1'' no_options],
                  unhandled := unhandled after_click @ [Error ''Not Found'']\<rparr>"
    unfolding fire.simps f .
  have v: "dom sample_page vizPacketEl = Some blank" "sent sample_page = []"
    by (simp_all add: sample_page_def sample_elements_def core_elements_def handles empty_page_def)
  have 2: "refreshViz sample_rt not_found_net sample_page =
     (Inr (), sample_page\<lparr>sent := [api_request ''/visualization/packet'' no_options],
        dom := (dom sample_page)(vizPacketEl \<mapsto>
                 blank\<lparr>children := [TextNode ''Error: Not Found'']\<rparr>)\<rparr>)"
    using v
    by (simp add: refreshViz_def try_catch_def and_then_def api_def r set_textContent_present
          text_nodes_def)
  show ?thesis using 1 2 by (rule conjI)
qed

end
